theory Spec2Isabelle
  imports Main "HOL-Library.Word"
begin

unbundle bit_operations_syntax

section \<open>Audio HAL enums: values and string conversion (audio-hal-enums.h)\<close>

text \<open>
  The header defines every enum from one list macro per domain. A list macro
  \<open>X_LIST_DEF(V)\<close> is a sequence of rows \<open>V(symbol, value)\<close>; it is instantiated
  with \<open>AUDIO_DEFINE_ENUM_SYMBOL_V\<close> to declare the enum constants, with
  \<open>AUDIO_DEFINE_STRINGIFY_CASE_V\<close> to build the \<open>switch\<close> of a \<open>to_string\<close>
  function, and with \<open>AUDIO_DEFINE_PARSE_CASE_V\<close> to build the \<open>if/else\<close> chain
  of a \<open>from_string\<close> function.

  Here every enum constant is a definition of its own, with the value expression of
  the header, and every list macro is the list of its rows in the header's order, a row
  being the pair of the stringified symbol and the symbol. All enums are 32 bits wide;
  the value \<open>-1\<close> of the signed enums is the word \<open>0xFFFFFFFF\<close>, as in the two's complement representation of the C enum.
\<close>

type_synonym audio_channel_mask_t = "32 word"
type_synonym audio_content_type_t = "32 word"
type_synonym audio_devices_t = "32 word"
type_synonym audio_output_flags_t = "32 word"
type_synonym audio_input_flags_t = "32 word"
type_synonym audio_format_t = "32 word"
type_synonym audio_gain_mode_t = "32 word"
type_synonym audio_source_t = "32 word"
type_synonym audio_stream_type_t = "32 word"
type_synonym audio_usage_t = "32 word"

named_theorems enum_defs \<open>the values of the enum constants\<close>
named_theorems list_defs \<open>the rows of the list macros\<close>
named_theorems conv_defs \<open>the conversion functions\<close>

subsection \<open>The case macros\<close>

text \<open>
  \<open>AUDIO_DEFINE_STRINGIFY_CASE(symbol)\<close> is \<open>case symbol: return "symbol";\<close>. A list
  macro instantiated with it inside \<open>switch (t)\<close>, with \<open>return ""\<close> as the default case
  or after the switch, returns the name of the row whose value is \<open>t\<close>, and the empty
  string when there is none. The function below takes the rows of the list macro and the
  value \<open>t\<close>. The compiler rejects a switch with two equal case values, so at most one
  row applies; the model takes the first in list order.
\<close>

primrec AUDIO_DEFINE_STRINGIFY_CASE :: "(string \<times> 'a) list \<Rightarrow> 'a \<Rightarrow> string" where
  "AUDIO_DEFINE_STRINGIFY_CASE [] t = []"
| "AUDIO_DEFINE_STRINGIFY_CASE (row # rows) t =
     (if t = snd row then fst row else AUDIO_DEFINE_STRINGIFY_CASE rows t)"

text \<open>
  \<open>AUDIO_DEFINE_PARSE_CASE(symbol)\<close> is
  \<open>if (strcmp(s, "symbol") == 0) { *t = symbol; return true; } else\<close>, and the chain of
  a list macro instantiated with it ends with \<open>return false\<close>. The function below takes
  the rows of the list macro, the string \<open>s\<close> points to (its characters up to the
  terminating NUL, which is what \<open>strcmp\<close> compares) and the value stored at \<open>*t\<close>
  before the call; it returns the boolean result together with the value stored at
  \<open>*t\<close> after the call.
\<close>

primrec AUDIO_DEFINE_PARSE_CASE :: "(string \<times> 'a) list \<Rightarrow> string \<Rightarrow> 'a \<Rightarrow> bool \<times> 'a" where
  "AUDIO_DEFINE_PARSE_CASE [] s t = (False, t)"
| "AUDIO_DEFINE_PARSE_CASE (row # rows) s t =
     (if s = fst row then (True, snd row) else AUDIO_DEFINE_PARSE_CASE rows s t)"

subsection \<open>Channel masks\<close>

definition AUDIO_CHANNEL_OUT_FRONT_LEFT :: audio_channel_mask_t where [enum_defs]:
  "AUDIO_CHANNEL_OUT_FRONT_LEFT = 0x1"

definition AUDIO_CHANNEL_OUT_FRONT_RIGHT :: audio_channel_mask_t where [enum_defs]:
  "AUDIO_CHANNEL_OUT_FRONT_RIGHT = 0x2"

definition AUDIO_CHANNEL_OUT_FRONT_CENTER :: audio_channel_mask_t where [enum_defs]:
  "AUDIO_CHANNEL_OUT_FRONT_CENTER = 0x4"

definition AUDIO_CHANNEL_OUT_LOW_FREQUENCY :: audio_channel_mask_t where [enum_defs]:
  "AUDIO_CHANNEL_OUT_LOW_FREQUENCY = 0x8"

definition AUDIO_CHANNEL_OUT_BACK_LEFT :: audio_channel_mask_t where [enum_defs]:
  "AUDIO_CHANNEL_OUT_BACK_LEFT = 0x10"

definition AUDIO_CHANNEL_OUT_BACK_RIGHT :: audio_channel_mask_t where [enum_defs]:
  "AUDIO_CHANNEL_OUT_BACK_RIGHT = 0x20"

definition AUDIO_CHANNEL_OUT_FRONT_LEFT_OF_CENTER :: audio_channel_mask_t where [enum_defs]:
  "AUDIO_CHANNEL_OUT_FRONT_LEFT_OF_CENTER = 0x40"

definition AUDIO_CHANNEL_OUT_FRONT_RIGHT_OF_CENTER :: audio_channel_mask_t where [enum_defs]:
  "AUDIO_CHANNEL_OUT_FRONT_RIGHT_OF_CENTER = 0x80"

definition AUDIO_CHANNEL_OUT_BACK_CENTER :: audio_channel_mask_t where [enum_defs]:
  "AUDIO_CHANNEL_OUT_BACK_CENTER = 0x100"

definition AUDIO_CHANNEL_OUT_SIDE_LEFT :: audio_channel_mask_t where [enum_defs]:
  "AUDIO_CHANNEL_OUT_SIDE_LEFT = 0x200"

definition AUDIO_CHANNEL_OUT_SIDE_RIGHT :: audio_channel_mask_t where [enum_defs]:
  "AUDIO_CHANNEL_OUT_SIDE_RIGHT = 0x400"

definition AUDIO_CHANNEL_OUT_TOP_CENTER :: audio_channel_mask_t where [enum_defs]:
  "AUDIO_CHANNEL_OUT_TOP_CENTER = 0x800"

definition AUDIO_CHANNEL_OUT_TOP_FRONT_LEFT :: audio_channel_mask_t where [enum_defs]:
  "AUDIO_CHANNEL_OUT_TOP_FRONT_LEFT = 0x1000"

definition AUDIO_CHANNEL_OUT_TOP_FRONT_CENTER :: audio_channel_mask_t where [enum_defs]:
  "AUDIO_CHANNEL_OUT_TOP_FRONT_CENTER = 0x2000"

definition AUDIO_CHANNEL_OUT_TOP_FRONT_RIGHT :: audio_channel_mask_t where [enum_defs]:
  "AUDIO_CHANNEL_OUT_TOP_FRONT_RIGHT = 0x4000"

definition AUDIO_CHANNEL_OUT_TOP_BACK_LEFT :: audio_channel_mask_t where [enum_defs]:
  "AUDIO_CHANNEL_OUT_TOP_BACK_LEFT = 0x8000"

definition AUDIO_CHANNEL_OUT_TOP_BACK_CENTER :: audio_channel_mask_t where [enum_defs]:
  "AUDIO_CHANNEL_OUT_TOP_BACK_CENTER = 0x10000"

definition AUDIO_CHANNEL_OUT_TOP_BACK_RIGHT :: audio_channel_mask_t where [enum_defs]:
  "AUDIO_CHANNEL_OUT_TOP_BACK_RIGHT = 0x20000"

definition AUDIO_CHANNEL_OUT_TOP_SIDE_LEFT :: audio_channel_mask_t where [enum_defs]:
  "AUDIO_CHANNEL_OUT_TOP_SIDE_LEFT = 0x40000"

definition AUDIO_CHANNEL_OUT_TOP_SIDE_RIGHT :: audio_channel_mask_t where [enum_defs]:
  "AUDIO_CHANNEL_OUT_TOP_SIDE_RIGHT = 0x80000"

definition AUDIO_CHANNEL_OUT_HAPTIC_A :: audio_channel_mask_t where [enum_defs]:
  "AUDIO_CHANNEL_OUT_HAPTIC_A = 0x20000000"

definition AUDIO_CHANNEL_OUT_HAPTIC_B :: audio_channel_mask_t where [enum_defs]:
  "AUDIO_CHANNEL_OUT_HAPTIC_B = 0x10000000"

definition AUDIO_CHANNEL_IN_LEFT :: audio_channel_mask_t where [enum_defs]:
  "AUDIO_CHANNEL_IN_LEFT = 0x4"

definition AUDIO_CHANNEL_IN_RIGHT :: audio_channel_mask_t where [enum_defs]:
  "AUDIO_CHANNEL_IN_RIGHT = 0x8"

definition AUDIO_CHANNEL_IN_FRONT :: audio_channel_mask_t where [enum_defs]:
  "AUDIO_CHANNEL_IN_FRONT = 0x10"

definition AUDIO_CHANNEL_IN_BACK :: audio_channel_mask_t where [enum_defs]:
  "AUDIO_CHANNEL_IN_BACK = 0x20"

definition AUDIO_CHANNEL_IN_LEFT_PROCESSED :: audio_channel_mask_t where [enum_defs]:
  "AUDIO_CHANNEL_IN_LEFT_PROCESSED = 0x40"

definition AUDIO_CHANNEL_IN_RIGHT_PROCESSED :: audio_channel_mask_t where [enum_defs]:
  "AUDIO_CHANNEL_IN_RIGHT_PROCESSED = 0x80"

definition AUDIO_CHANNEL_IN_FRONT_PROCESSED :: audio_channel_mask_t where [enum_defs]:
  "AUDIO_CHANNEL_IN_FRONT_PROCESSED = 0x100"

definition AUDIO_CHANNEL_IN_BACK_PROCESSED :: audio_channel_mask_t where [enum_defs]:
  "AUDIO_CHANNEL_IN_BACK_PROCESSED = 0x200"

definition AUDIO_CHANNEL_IN_PRESSURE :: audio_channel_mask_t where [enum_defs]:
  "AUDIO_CHANNEL_IN_PRESSURE = 0x400"

definition AUDIO_CHANNEL_IN_X_AXIS :: audio_channel_mask_t where [enum_defs]:
  "AUDIO_CHANNEL_IN_X_AXIS = 0x800"

definition AUDIO_CHANNEL_IN_Y_AXIS :: audio_channel_mask_t where [enum_defs]:
  "AUDIO_CHANNEL_IN_Y_AXIS = 0x1000"

definition AUDIO_CHANNEL_IN_Z_AXIS :: audio_channel_mask_t where [enum_defs]:
  "AUDIO_CHANNEL_IN_Z_AXIS = 0x2000"

definition AUDIO_CHANNEL_IN_VOICE_UPLINK :: audio_channel_mask_t where [enum_defs]:
  "AUDIO_CHANNEL_IN_VOICE_UPLINK = 0x4000"

definition AUDIO_CHANNEL_IN_VOICE_DNLINK :: audio_channel_mask_t where [enum_defs]:
  "AUDIO_CHANNEL_IN_VOICE_DNLINK = 0x8000"

definition AUDIO_CHANNEL_IN_BACK_LEFT :: audio_channel_mask_t where [enum_defs]:
  "AUDIO_CHANNEL_IN_BACK_LEFT = 0x10000"

definition AUDIO_CHANNEL_IN_BACK_RIGHT :: audio_channel_mask_t where [enum_defs]:
  "AUDIO_CHANNEL_IN_BACK_RIGHT = 0x20000"

definition AUDIO_CHANNEL_IN_CENTER :: audio_channel_mask_t where [enum_defs]:
  "AUDIO_CHANNEL_IN_CENTER = 0x40000"

definition AUDIO_CHANNEL_IN_LOW_FREQUENCY :: audio_channel_mask_t where [enum_defs]:
  "AUDIO_CHANNEL_IN_LOW_FREQUENCY = 0x100000"

definition AUDIO_CHANNEL_IN_TOP_LEFT :: audio_channel_mask_t where [enum_defs]:
  "AUDIO_CHANNEL_IN_TOP_LEFT = 0x200000"

definition AUDIO_CHANNEL_IN_TOP_RIGHT :: audio_channel_mask_t where [enum_defs]:
  "AUDIO_CHANNEL_IN_TOP_RIGHT = 0x400000"

definition AUDIO_CHANNEL_NONE :: audio_channel_mask_t where [enum_defs]:
  "AUDIO_CHANNEL_NONE = 0x0"

definition AUDIO_CHANNEL_OUT_MONO :: audio_channel_mask_t where [enum_defs]:
  "AUDIO_CHANNEL_OUT_MONO = AUDIO_CHANNEL_OUT_FRONT_LEFT"

definition AUDIO_CHANNEL_OUT_STEREO :: audio_channel_mask_t where [enum_defs]:
  "AUDIO_CHANNEL_OUT_STEREO = AUDIO_CHANNEL_OUT_FRONT_LEFT OR AUDIO_CHANNEL_OUT_FRONT_RIGHT"

definition AUDIO_CHANNEL_OUT_2POINT1 :: audio_channel_mask_t where [enum_defs]:
  "AUDIO_CHANNEL_OUT_2POINT1 = AUDIO_CHANNEL_OUT_FRONT_LEFT OR AUDIO_CHANNEL_OUT_FRONT_RIGHT OR AUDIO_CHANNEL_OUT_LOW_FREQUENCY"

definition AUDIO_CHANNEL_OUT_TRI :: audio_channel_mask_t where [enum_defs]:
  "AUDIO_CHANNEL_OUT_TRI = AUDIO_CHANNEL_OUT_FRONT_LEFT OR AUDIO_CHANNEL_OUT_FRONT_RIGHT OR AUDIO_CHANNEL_OUT_FRONT_CENTER"

definition AUDIO_CHANNEL_OUT_TRI_BACK :: audio_channel_mask_t where [enum_defs]:
  "AUDIO_CHANNEL_OUT_TRI_BACK = AUDIO_CHANNEL_OUT_FRONT_LEFT OR AUDIO_CHANNEL_OUT_FRONT_RIGHT OR AUDIO_CHANNEL_OUT_BACK_CENTER"

definition AUDIO_CHANNEL_OUT_3POINT1 :: audio_channel_mask_t where [enum_defs]:
  "AUDIO_CHANNEL_OUT_3POINT1 = AUDIO_CHANNEL_OUT_FRONT_LEFT OR AUDIO_CHANNEL_OUT_FRONT_RIGHT OR AUDIO_CHANNEL_OUT_FRONT_CENTER OR AUDIO_CHANNEL_OUT_LOW_FREQUENCY"

definition AUDIO_CHANNEL_OUT_2POINT0POINT2 :: audio_channel_mask_t where [enum_defs]:
  "AUDIO_CHANNEL_OUT_2POINT0POINT2 = AUDIO_CHANNEL_OUT_FRONT_LEFT OR AUDIO_CHANNEL_OUT_FRONT_RIGHT OR AUDIO_CHANNEL_OUT_TOP_SIDE_LEFT OR AUDIO_CHANNEL_OUT_TOP_SIDE_RIGHT"

definition AUDIO_CHANNEL_OUT_2POINT1POINT2 :: audio_channel_mask_t where [enum_defs]:
  "AUDIO_CHANNEL_OUT_2POINT1POINT2 = AUDIO_CHANNEL_OUT_FRONT_LEFT OR AUDIO_CHANNEL_OUT_FRONT_RIGHT OR AUDIO_CHANNEL_OUT_TOP_SIDE_LEFT OR AUDIO_CHANNEL_OUT_TOP_SIDE_RIGHT OR AUDIO_CHANNEL_OUT_LOW_FREQUENCY"

definition AUDIO_CHANNEL_OUT_3POINT0POINT2 :: audio_channel_mask_t where [enum_defs]:
  "AUDIO_CHANNEL_OUT_3POINT0POINT2 = AUDIO_CHANNEL_OUT_FRONT_LEFT OR AUDIO_CHANNEL_OUT_FRONT_RIGHT OR AUDIO_CHANNEL_OUT_FRONT_CENTER OR AUDIO_CHANNEL_OUT_TOP_SIDE_LEFT OR AUDIO_CHANNEL_OUT_TOP_SIDE_RIGHT"

definition AUDIO_CHANNEL_OUT_3POINT1POINT2 :: audio_channel_mask_t where [enum_defs]:
  "AUDIO_CHANNEL_OUT_3POINT1POINT2 = AUDIO_CHANNEL_OUT_FRONT_LEFT OR AUDIO_CHANNEL_OUT_FRONT_RIGHT OR AUDIO_CHANNEL_OUT_FRONT_CENTER OR AUDIO_CHANNEL_OUT_TOP_SIDE_LEFT OR AUDIO_CHANNEL_OUT_TOP_SIDE_RIGHT OR AUDIO_CHANNEL_OUT_LOW_FREQUENCY"

definition AUDIO_CHANNEL_OUT_QUAD :: audio_channel_mask_t where [enum_defs]:
  "AUDIO_CHANNEL_OUT_QUAD = AUDIO_CHANNEL_OUT_FRONT_LEFT OR AUDIO_CHANNEL_OUT_FRONT_RIGHT OR AUDIO_CHANNEL_OUT_BACK_LEFT OR AUDIO_CHANNEL_OUT_BACK_RIGHT"

definition AUDIO_CHANNEL_OUT_QUAD_SIDE :: audio_channel_mask_t where [enum_defs]:
  "AUDIO_CHANNEL_OUT_QUAD_SIDE = AUDIO_CHANNEL_OUT_FRONT_LEFT OR AUDIO_CHANNEL_OUT_FRONT_RIGHT OR AUDIO_CHANNEL_OUT_SIDE_LEFT OR AUDIO_CHANNEL_OUT_SIDE_RIGHT"

definition AUDIO_CHANNEL_OUT_SURROUND :: audio_channel_mask_t where [enum_defs]:
  "AUDIO_CHANNEL_OUT_SURROUND = AUDIO_CHANNEL_OUT_FRONT_LEFT OR AUDIO_CHANNEL_OUT_FRONT_RIGHT OR AUDIO_CHANNEL_OUT_FRONT_CENTER OR AUDIO_CHANNEL_OUT_BACK_CENTER"

definition AUDIO_CHANNEL_OUT_PENTA :: audio_channel_mask_t where [enum_defs]:
  "AUDIO_CHANNEL_OUT_PENTA = AUDIO_CHANNEL_OUT_QUAD OR AUDIO_CHANNEL_OUT_FRONT_CENTER"

definition AUDIO_CHANNEL_OUT_5POINT1 :: audio_channel_mask_t where [enum_defs]:
  "AUDIO_CHANNEL_OUT_5POINT1 = AUDIO_CHANNEL_OUT_FRONT_LEFT OR AUDIO_CHANNEL_OUT_FRONT_RIGHT OR AUDIO_CHANNEL_OUT_FRONT_CENTER OR AUDIO_CHANNEL_OUT_LOW_FREQUENCY OR AUDIO_CHANNEL_OUT_BACK_LEFT OR AUDIO_CHANNEL_OUT_BACK_RIGHT"

definition AUDIO_CHANNEL_OUT_5POINT1_SIDE :: audio_channel_mask_t where [enum_defs]:
  "AUDIO_CHANNEL_OUT_5POINT1_SIDE = AUDIO_CHANNEL_OUT_FRONT_LEFT OR AUDIO_CHANNEL_OUT_FRONT_RIGHT OR AUDIO_CHANNEL_OUT_FRONT_CENTER OR AUDIO_CHANNEL_OUT_LOW_FREQUENCY OR AUDIO_CHANNEL_OUT_SIDE_LEFT OR AUDIO_CHANNEL_OUT_SIDE_RIGHT"

definition AUDIO_CHANNEL_OUT_5POINT1POINT2 :: audio_channel_mask_t where [enum_defs]:
  "AUDIO_CHANNEL_OUT_5POINT1POINT2 = AUDIO_CHANNEL_OUT_5POINT1 OR AUDIO_CHANNEL_OUT_TOP_SIDE_LEFT OR AUDIO_CHANNEL_OUT_TOP_SIDE_RIGHT"

definition AUDIO_CHANNEL_OUT_5POINT1POINT4 :: audio_channel_mask_t where [enum_defs]:
  "AUDIO_CHANNEL_OUT_5POINT1POINT4 = AUDIO_CHANNEL_OUT_5POINT1 OR AUDIO_CHANNEL_OUT_TOP_FRONT_LEFT OR AUDIO_CHANNEL_OUT_TOP_FRONT_RIGHT OR AUDIO_CHANNEL_OUT_TOP_BACK_LEFT OR AUDIO_CHANNEL_OUT_TOP_BACK_RIGHT"

definition AUDIO_CHANNEL_OUT_6POINT1 :: audio_channel_mask_t where [enum_defs]:
  "AUDIO_CHANNEL_OUT_6POINT1 = AUDIO_CHANNEL_OUT_FRONT_LEFT OR AUDIO_CHANNEL_OUT_FRONT_RIGHT OR AUDIO_CHANNEL_OUT_FRONT_CENTER OR AUDIO_CHANNEL_OUT_LOW_FREQUENCY OR AUDIO_CHANNEL_OUT_BACK_LEFT OR AUDIO_CHANNEL_OUT_BACK_RIGHT OR AUDIO_CHANNEL_OUT_BACK_CENTER"

definition AUDIO_CHANNEL_OUT_7POINT1 :: audio_channel_mask_t where [enum_defs]:
  "AUDIO_CHANNEL_OUT_7POINT1 = AUDIO_CHANNEL_OUT_FRONT_LEFT OR AUDIO_CHANNEL_OUT_FRONT_RIGHT OR AUDIO_CHANNEL_OUT_FRONT_CENTER OR AUDIO_CHANNEL_OUT_LOW_FREQUENCY OR AUDIO_CHANNEL_OUT_BACK_LEFT OR AUDIO_CHANNEL_OUT_BACK_RIGHT OR AUDIO_CHANNEL_OUT_SIDE_LEFT OR AUDIO_CHANNEL_OUT_SIDE_RIGHT"

definition AUDIO_CHANNEL_OUT_7POINT1POINT2 :: audio_channel_mask_t where [enum_defs]:
  "AUDIO_CHANNEL_OUT_7POINT1POINT2 = AUDIO_CHANNEL_OUT_7POINT1 OR AUDIO_CHANNEL_OUT_TOP_SIDE_LEFT OR AUDIO_CHANNEL_OUT_TOP_SIDE_RIGHT"

definition AUDIO_CHANNEL_OUT_7POINT1POINT4 :: audio_channel_mask_t where [enum_defs]:
  "AUDIO_CHANNEL_OUT_7POINT1POINT4 = AUDIO_CHANNEL_OUT_7POINT1 OR AUDIO_CHANNEL_OUT_TOP_FRONT_LEFT OR AUDIO_CHANNEL_OUT_TOP_FRONT_RIGHT OR AUDIO_CHANNEL_OUT_TOP_BACK_LEFT OR AUDIO_CHANNEL_OUT_TOP_BACK_RIGHT"

definition AUDIO_CHANNEL_OUT_MONO_HAPTIC_A :: audio_channel_mask_t where [enum_defs]:
  "AUDIO_CHANNEL_OUT_MONO_HAPTIC_A = AUDIO_CHANNEL_OUT_MONO OR AUDIO_CHANNEL_OUT_HAPTIC_A"

definition AUDIO_CHANNEL_OUT_STEREO_HAPTIC_A :: audio_channel_mask_t where [enum_defs]:
  "AUDIO_CHANNEL_OUT_STEREO_HAPTIC_A = AUDIO_CHANNEL_OUT_STEREO OR AUDIO_CHANNEL_OUT_HAPTIC_A"

definition AUDIO_CHANNEL_OUT_HAPTIC_AB :: audio_channel_mask_t where [enum_defs]:
  "AUDIO_CHANNEL_OUT_HAPTIC_AB = AUDIO_CHANNEL_OUT_HAPTIC_A OR AUDIO_CHANNEL_OUT_HAPTIC_B"

definition AUDIO_CHANNEL_OUT_MONO_HAPTIC_AB :: audio_channel_mask_t where [enum_defs]:
  "AUDIO_CHANNEL_OUT_MONO_HAPTIC_AB = AUDIO_CHANNEL_OUT_MONO OR AUDIO_CHANNEL_OUT_HAPTIC_AB"

definition AUDIO_CHANNEL_OUT_STEREO_HAPTIC_AB :: audio_channel_mask_t where [enum_defs]:
  "AUDIO_CHANNEL_OUT_STEREO_HAPTIC_AB = AUDIO_CHANNEL_OUT_STEREO OR AUDIO_CHANNEL_OUT_HAPTIC_AB"

definition AUDIO_CHANNEL_OUT_5POINT1_BACK :: audio_channel_mask_t where [enum_defs]:
  "AUDIO_CHANNEL_OUT_5POINT1_BACK = AUDIO_CHANNEL_OUT_5POINT1"

definition AUDIO_CHANNEL_OUT_QUAD_BACK :: audio_channel_mask_t where [enum_defs]:
  "AUDIO_CHANNEL_OUT_QUAD_BACK = AUDIO_CHANNEL_OUT_QUAD"

definition AUDIO_CHANNEL_IN_MONO :: audio_channel_mask_t where [enum_defs]:
  "AUDIO_CHANNEL_IN_MONO = AUDIO_CHANNEL_IN_FRONT"

definition AUDIO_CHANNEL_IN_STEREO :: audio_channel_mask_t where [enum_defs]:
  "AUDIO_CHANNEL_IN_STEREO = AUDIO_CHANNEL_IN_LEFT OR AUDIO_CHANNEL_IN_RIGHT"

definition AUDIO_CHANNEL_IN_FRONT_BACK :: audio_channel_mask_t where [enum_defs]:
  "AUDIO_CHANNEL_IN_FRONT_BACK = AUDIO_CHANNEL_IN_FRONT OR AUDIO_CHANNEL_IN_BACK"

definition AUDIO_CHANNEL_IN_6 :: audio_channel_mask_t where [enum_defs]:
  "AUDIO_CHANNEL_IN_6 = AUDIO_CHANNEL_IN_LEFT OR AUDIO_CHANNEL_IN_RIGHT OR AUDIO_CHANNEL_IN_FRONT OR AUDIO_CHANNEL_IN_BACK OR AUDIO_CHANNEL_IN_LEFT_PROCESSED OR AUDIO_CHANNEL_IN_RIGHT_PROCESSED"

definition AUDIO_CHANNEL_IN_2POINT0POINT2 :: audio_channel_mask_t where [enum_defs]:
  "AUDIO_CHANNEL_IN_2POINT0POINT2 = AUDIO_CHANNEL_IN_LEFT OR AUDIO_CHANNEL_IN_RIGHT OR AUDIO_CHANNEL_IN_TOP_LEFT OR AUDIO_CHANNEL_IN_TOP_RIGHT"

definition AUDIO_CHANNEL_IN_2POINT1POINT2 :: audio_channel_mask_t where [enum_defs]:
  "AUDIO_CHANNEL_IN_2POINT1POINT2 = AUDIO_CHANNEL_IN_LEFT OR AUDIO_CHANNEL_IN_RIGHT OR AUDIO_CHANNEL_IN_TOP_LEFT OR AUDIO_CHANNEL_IN_TOP_RIGHT OR AUDIO_CHANNEL_IN_LOW_FREQUENCY"

definition AUDIO_CHANNEL_IN_3POINT0POINT2 :: audio_channel_mask_t where [enum_defs]:
  "AUDIO_CHANNEL_IN_3POINT0POINT2 = AUDIO_CHANNEL_IN_LEFT OR AUDIO_CHANNEL_IN_CENTER OR AUDIO_CHANNEL_IN_RIGHT OR AUDIO_CHANNEL_IN_TOP_LEFT OR AUDIO_CHANNEL_IN_TOP_RIGHT"

definition AUDIO_CHANNEL_IN_3POINT1POINT2 :: audio_channel_mask_t where [enum_defs]:
  "AUDIO_CHANNEL_IN_3POINT1POINT2 = AUDIO_CHANNEL_IN_LEFT OR AUDIO_CHANNEL_IN_CENTER OR AUDIO_CHANNEL_IN_RIGHT OR AUDIO_CHANNEL_IN_TOP_LEFT OR AUDIO_CHANNEL_IN_TOP_RIGHT OR AUDIO_CHANNEL_IN_LOW_FREQUENCY"

definition AUDIO_CHANNEL_IN_5POINT1 :: audio_channel_mask_t where [enum_defs]:
  "AUDIO_CHANNEL_IN_5POINT1 = AUDIO_CHANNEL_IN_LEFT OR AUDIO_CHANNEL_IN_CENTER OR AUDIO_CHANNEL_IN_RIGHT OR AUDIO_CHANNEL_IN_BACK_LEFT OR AUDIO_CHANNEL_IN_BACK_RIGHT OR AUDIO_CHANNEL_IN_LOW_FREQUENCY"

definition AUDIO_CHANNEL_IN_VOICE_UPLINK_MONO :: audio_channel_mask_t where [enum_defs]:
  "AUDIO_CHANNEL_IN_VOICE_UPLINK_MONO = AUDIO_CHANNEL_IN_VOICE_UPLINK OR AUDIO_CHANNEL_IN_MONO"

definition AUDIO_CHANNEL_IN_VOICE_DNLINK_MONO :: audio_channel_mask_t where [enum_defs]:
  "AUDIO_CHANNEL_IN_VOICE_DNLINK_MONO = AUDIO_CHANNEL_IN_VOICE_DNLINK OR AUDIO_CHANNEL_IN_MONO"

definition AUDIO_CHANNEL_IN_VOICE_CALL_MONO :: audio_channel_mask_t where [enum_defs]:
  "AUDIO_CHANNEL_IN_VOICE_CALL_MONO = AUDIO_CHANNEL_IN_VOICE_UPLINK_MONO OR AUDIO_CHANNEL_IN_VOICE_DNLINK_MONO"

definition AUDIO_CHANNEL_COUNT_MAX :: nat where [enum_defs]:
  "AUDIO_CHANNEL_COUNT_MAX = 30"

definition AUDIO_CHANNEL_INDEX_HDR :: audio_channel_mask_t where [enum_defs]:
  "AUDIO_CHANNEL_INDEX_HDR = 0x80000000"

definition AUDIO_CHANNEL_INDEX_MASK_1 :: audio_channel_mask_t where [enum_defs]:
  "AUDIO_CHANNEL_INDEX_MASK_1 = AUDIO_CHANNEL_INDEX_HDR OR (push_bit 1 1 - 1)"

definition AUDIO_CHANNEL_INDEX_MASK_2 :: audio_channel_mask_t where [enum_defs]:
  "AUDIO_CHANNEL_INDEX_MASK_2 = AUDIO_CHANNEL_INDEX_HDR OR (push_bit 2 1 - 1)"

definition AUDIO_CHANNEL_INDEX_MASK_3 :: audio_channel_mask_t where [enum_defs]:
  "AUDIO_CHANNEL_INDEX_MASK_3 = AUDIO_CHANNEL_INDEX_HDR OR (push_bit 3 1 - 1)"

definition AUDIO_CHANNEL_INDEX_MASK_4 :: audio_channel_mask_t where [enum_defs]:
  "AUDIO_CHANNEL_INDEX_MASK_4 = AUDIO_CHANNEL_INDEX_HDR OR (push_bit 4 1 - 1)"

definition AUDIO_CHANNEL_INDEX_MASK_5 :: audio_channel_mask_t where [enum_defs]:
  "AUDIO_CHANNEL_INDEX_MASK_5 = AUDIO_CHANNEL_INDEX_HDR OR (push_bit 5 1 - 1)"

definition AUDIO_CHANNEL_INDEX_MASK_6 :: audio_channel_mask_t where [enum_defs]:
  "AUDIO_CHANNEL_INDEX_MASK_6 = AUDIO_CHANNEL_INDEX_HDR OR (push_bit 6 1 - 1)"

definition AUDIO_CHANNEL_INDEX_MASK_7 :: audio_channel_mask_t where [enum_defs]:
  "AUDIO_CHANNEL_INDEX_MASK_7 = AUDIO_CHANNEL_INDEX_HDR OR (push_bit 7 1 - 1)"

definition AUDIO_CHANNEL_INDEX_MASK_8 :: audio_channel_mask_t where [enum_defs]:
  "AUDIO_CHANNEL_INDEX_MASK_8 = AUDIO_CHANNEL_INDEX_HDR OR (push_bit 8 1 - 1)"

definition AUDIO_CHANNEL_INDEX_MASK_9 :: audio_channel_mask_t where [enum_defs]:
  "AUDIO_CHANNEL_INDEX_MASK_9 = AUDIO_CHANNEL_INDEX_HDR OR (push_bit 9 1 - 1)"

definition AUDIO_CHANNEL_INDEX_MASK_10 :: audio_channel_mask_t where [enum_defs]:
  "AUDIO_CHANNEL_INDEX_MASK_10 = AUDIO_CHANNEL_INDEX_HDR OR (push_bit 10 1 - 1)"

definition AUDIO_CHANNEL_INDEX_MASK_11 :: audio_channel_mask_t where [enum_defs]:
  "AUDIO_CHANNEL_INDEX_MASK_11 = AUDIO_CHANNEL_INDEX_HDR OR (push_bit 11 1 - 1)"

definition AUDIO_CHANNEL_INDEX_MASK_12 :: audio_channel_mask_t where [enum_defs]:
  "AUDIO_CHANNEL_INDEX_MASK_12 = AUDIO_CHANNEL_INDEX_HDR OR (push_bit 12 1 - 1)"

definition AUDIO_CHANNEL_INDEX_MASK_13 :: audio_channel_mask_t where [enum_defs]:
  "AUDIO_CHANNEL_INDEX_MASK_13 = AUDIO_CHANNEL_INDEX_HDR OR (push_bit 13 1 - 1)"

definition AUDIO_CHANNEL_INDEX_MASK_14 :: audio_channel_mask_t where [enum_defs]:
  "AUDIO_CHANNEL_INDEX_MASK_14 = AUDIO_CHANNEL_INDEX_HDR OR (push_bit 14 1 - 1)"

definition AUDIO_CHANNEL_INDEX_MASK_15 :: audio_channel_mask_t where [enum_defs]:
  "AUDIO_CHANNEL_INDEX_MASK_15 = AUDIO_CHANNEL_INDEX_HDR OR (push_bit 15 1 - 1)"

definition AUDIO_CHANNEL_INDEX_MASK_16 :: audio_channel_mask_t where [enum_defs]:
  "AUDIO_CHANNEL_INDEX_MASK_16 = AUDIO_CHANNEL_INDEX_HDR OR (push_bit 16 1 - 1)"

definition AUDIO_CHANNEL_INDEX_MASK_17 :: audio_channel_mask_t where [enum_defs]:
  "AUDIO_CHANNEL_INDEX_MASK_17 = AUDIO_CHANNEL_INDEX_HDR OR (push_bit 17 1 - 1)"

definition AUDIO_CHANNEL_INDEX_MASK_18 :: audio_channel_mask_t where [enum_defs]:
  "AUDIO_CHANNEL_INDEX_MASK_18 = AUDIO_CHANNEL_INDEX_HDR OR (push_bit 18 1 - 1)"

definition AUDIO_CHANNEL_INDEX_MASK_19 :: audio_channel_mask_t where [enum_defs]:
  "AUDIO_CHANNEL_INDEX_MASK_19 = AUDIO_CHANNEL_INDEX_HDR OR (push_bit 19 1 - 1)"

definition AUDIO_CHANNEL_INDEX_MASK_20 :: audio_channel_mask_t where [enum_defs]:
  "AUDIO_CHANNEL_INDEX_MASK_20 = AUDIO_CHANNEL_INDEX_HDR OR (push_bit 20 1 - 1)"

definition AUDIO_CHANNEL_INDEX_MASK_21 :: audio_channel_mask_t where [enum_defs]:
  "AUDIO_CHANNEL_INDEX_MASK_21 = AUDIO_CHANNEL_INDEX_HDR OR (push_bit 21 1 - 1)"

definition AUDIO_CHANNEL_INDEX_MASK_22 :: audio_channel_mask_t where [enum_defs]:
  "AUDIO_CHANNEL_INDEX_MASK_22 = AUDIO_CHANNEL_INDEX_HDR OR (push_bit 22 1 - 1)"

definition AUDIO_CHANNEL_INDEX_MASK_23 :: audio_channel_mask_t where [enum_defs]:
  "AUDIO_CHANNEL_INDEX_MASK_23 = AUDIO_CHANNEL_INDEX_HDR OR (push_bit 23 1 - 1)"

definition AUDIO_CHANNEL_INDEX_MASK_24 :: audio_channel_mask_t where [enum_defs]:
  "AUDIO_CHANNEL_INDEX_MASK_24 = AUDIO_CHANNEL_INDEX_HDR OR (push_bit 24 1 - 1)"

definition AUDIO_CHANNEL_OUT_DISCRETE_CHANNEL_LIST_DEF :: "(string \<times> audio_channel_mask_t) list" where [list_defs]:
  "AUDIO_CHANNEL_OUT_DISCRETE_CHANNEL_LIST_DEF =
    [(''AUDIO_CHANNEL_OUT_FRONT_LEFT'', AUDIO_CHANNEL_OUT_FRONT_LEFT),
     (''AUDIO_CHANNEL_OUT_FRONT_RIGHT'', AUDIO_CHANNEL_OUT_FRONT_RIGHT),
     (''AUDIO_CHANNEL_OUT_FRONT_CENTER'', AUDIO_CHANNEL_OUT_FRONT_CENTER),
     (''AUDIO_CHANNEL_OUT_LOW_FREQUENCY'', AUDIO_CHANNEL_OUT_LOW_FREQUENCY),
     (''AUDIO_CHANNEL_OUT_BACK_LEFT'', AUDIO_CHANNEL_OUT_BACK_LEFT),
     (''AUDIO_CHANNEL_OUT_BACK_RIGHT'', AUDIO_CHANNEL_OUT_BACK_RIGHT),
     (''AUDIO_CHANNEL_OUT_FRONT_LEFT_OF_CENTER'', AUDIO_CHANNEL_OUT_FRONT_LEFT_OF_CENTER),
     (''AUDIO_CHANNEL_OUT_FRONT_RIGHT_OF_CENTER'', AUDIO_CHANNEL_OUT_FRONT_RIGHT_OF_CENTER),
     (''AUDIO_CHANNEL_OUT_BACK_CENTER'', AUDIO_CHANNEL_OUT_BACK_CENTER),
     (''AUDIO_CHANNEL_OUT_SIDE_LEFT'', AUDIO_CHANNEL_OUT_SIDE_LEFT),
     (''AUDIO_CHANNEL_OUT_SIDE_RIGHT'', AUDIO_CHANNEL_OUT_SIDE_RIGHT),
     (''AUDIO_CHANNEL_OUT_TOP_CENTER'', AUDIO_CHANNEL_OUT_TOP_CENTER),
     (''AUDIO_CHANNEL_OUT_TOP_FRONT_LEFT'', AUDIO_CHANNEL_OUT_TOP_FRONT_LEFT),
     (''AUDIO_CHANNEL_OUT_TOP_FRONT_CENTER'', AUDIO_CHANNEL_OUT_TOP_FRONT_CENTER),
     (''AUDIO_CHANNEL_OUT_TOP_FRONT_RIGHT'', AUDIO_CHANNEL_OUT_TOP_FRONT_RIGHT),
     (''AUDIO_CHANNEL_OUT_TOP_BACK_LEFT'', AUDIO_CHANNEL_OUT_TOP_BACK_LEFT),
     (''AUDIO_CHANNEL_OUT_TOP_BACK_CENTER'', AUDIO_CHANNEL_OUT_TOP_BACK_CENTER),
     (''AUDIO_CHANNEL_OUT_TOP_BACK_RIGHT'', AUDIO_CHANNEL_OUT_TOP_BACK_RIGHT),
     (''AUDIO_CHANNEL_OUT_TOP_SIDE_LEFT'', AUDIO_CHANNEL_OUT_TOP_SIDE_LEFT),
     (''AUDIO_CHANNEL_OUT_TOP_SIDE_RIGHT'', AUDIO_CHANNEL_OUT_TOP_SIDE_RIGHT),
     (''AUDIO_CHANNEL_OUT_HAPTIC_A'', AUDIO_CHANNEL_OUT_HAPTIC_A),
     (''AUDIO_CHANNEL_OUT_HAPTIC_B'', AUDIO_CHANNEL_OUT_HAPTIC_B)]"

definition AUDIO_CHANNEL_IN_DISCRETE_CHANNEL_LIST_DEF :: "(string \<times> audio_channel_mask_t) list" where [list_defs]:
  "AUDIO_CHANNEL_IN_DISCRETE_CHANNEL_LIST_DEF =
    [(''AUDIO_CHANNEL_IN_LEFT'', AUDIO_CHANNEL_IN_LEFT),
     (''AUDIO_CHANNEL_IN_RIGHT'', AUDIO_CHANNEL_IN_RIGHT),
     (''AUDIO_CHANNEL_IN_FRONT'', AUDIO_CHANNEL_IN_FRONT),
     (''AUDIO_CHANNEL_IN_BACK'', AUDIO_CHANNEL_IN_BACK),
     (''AUDIO_CHANNEL_IN_LEFT_PROCESSED'', AUDIO_CHANNEL_IN_LEFT_PROCESSED),
     (''AUDIO_CHANNEL_IN_RIGHT_PROCESSED'', AUDIO_CHANNEL_IN_RIGHT_PROCESSED),
     (''AUDIO_CHANNEL_IN_FRONT_PROCESSED'', AUDIO_CHANNEL_IN_FRONT_PROCESSED),
     (''AUDIO_CHANNEL_IN_BACK_PROCESSED'', AUDIO_CHANNEL_IN_BACK_PROCESSED),
     (''AUDIO_CHANNEL_IN_PRESSURE'', AUDIO_CHANNEL_IN_PRESSURE),
     (''AUDIO_CHANNEL_IN_X_AXIS'', AUDIO_CHANNEL_IN_X_AXIS),
     (''AUDIO_CHANNEL_IN_Y_AXIS'', AUDIO_CHANNEL_IN_Y_AXIS),
     (''AUDIO_CHANNEL_IN_Z_AXIS'', AUDIO_CHANNEL_IN_Z_AXIS),
     (''AUDIO_CHANNEL_IN_VOICE_UPLINK'', AUDIO_CHANNEL_IN_VOICE_UPLINK),
     (''AUDIO_CHANNEL_IN_VOICE_DNLINK'', AUDIO_CHANNEL_IN_VOICE_DNLINK),
     (''AUDIO_CHANNEL_IN_BACK_LEFT'', AUDIO_CHANNEL_IN_BACK_LEFT),
     (''AUDIO_CHANNEL_IN_BACK_RIGHT'', AUDIO_CHANNEL_IN_BACK_RIGHT),
     (''AUDIO_CHANNEL_IN_CENTER'', AUDIO_CHANNEL_IN_CENTER),
     (''AUDIO_CHANNEL_IN_LOW_FREQUENCY'', AUDIO_CHANNEL_IN_LOW_FREQUENCY),
     (''AUDIO_CHANNEL_IN_TOP_LEFT'', AUDIO_CHANNEL_IN_TOP_LEFT),
     (''AUDIO_CHANNEL_IN_TOP_RIGHT'', AUDIO_CHANNEL_IN_TOP_RIGHT)]"

definition AUDIO_CHANNEL_IN_OUT_MASK_LIST_DEF :: "(string \<times> audio_channel_mask_t) list" where [list_defs]:
  "AUDIO_CHANNEL_IN_OUT_MASK_LIST_DEF =
    [(''AUDIO_CHANNEL_NONE'', AUDIO_CHANNEL_NONE)]"

definition AUDIO_CHANNEL_OUT_MASK_LIST_UNIQUE_DEF :: "(string \<times> audio_channel_mask_t) list" where [list_defs]:
  "AUDIO_CHANNEL_OUT_MASK_LIST_UNIQUE_DEF =
    [(''AUDIO_CHANNEL_OUT_MONO'', AUDIO_CHANNEL_OUT_MONO),
     (''AUDIO_CHANNEL_OUT_STEREO'', AUDIO_CHANNEL_OUT_STEREO),
     (''AUDIO_CHANNEL_OUT_2POINT1'', AUDIO_CHANNEL_OUT_2POINT1),
     (''AUDIO_CHANNEL_OUT_TRI'', AUDIO_CHANNEL_OUT_TRI),
     (''AUDIO_CHANNEL_OUT_TRI_BACK'', AUDIO_CHANNEL_OUT_TRI_BACK),
     (''AUDIO_CHANNEL_OUT_3POINT1'', AUDIO_CHANNEL_OUT_3POINT1),
     (''AUDIO_CHANNEL_OUT_2POINT0POINT2'', AUDIO_CHANNEL_OUT_2POINT0POINT2),
     (''AUDIO_CHANNEL_OUT_2POINT1POINT2'', AUDIO_CHANNEL_OUT_2POINT1POINT2),
     (''AUDIO_CHANNEL_OUT_3POINT0POINT2'', AUDIO_CHANNEL_OUT_3POINT0POINT2),
     (''AUDIO_CHANNEL_OUT_3POINT1POINT2'', AUDIO_CHANNEL_OUT_3POINT1POINT2),
     (''AUDIO_CHANNEL_OUT_QUAD'', AUDIO_CHANNEL_OUT_QUAD),
     (''AUDIO_CHANNEL_OUT_QUAD_SIDE'', AUDIO_CHANNEL_OUT_QUAD_SIDE),
     (''AUDIO_CHANNEL_OUT_SURROUND'', AUDIO_CHANNEL_OUT_SURROUND),
     (''AUDIO_CHANNEL_OUT_PENTA'', AUDIO_CHANNEL_OUT_PENTA),
     (''AUDIO_CHANNEL_OUT_5POINT1'', AUDIO_CHANNEL_OUT_5POINT1),
     (''AUDIO_CHANNEL_OUT_5POINT1_SIDE'', AUDIO_CHANNEL_OUT_5POINT1_SIDE),
     (''AUDIO_CHANNEL_OUT_5POINT1POINT2'', AUDIO_CHANNEL_OUT_5POINT1POINT2),
     (''AUDIO_CHANNEL_OUT_5POINT1POINT4'', AUDIO_CHANNEL_OUT_5POINT1POINT4),
     (''AUDIO_CHANNEL_OUT_6POINT1'', AUDIO_CHANNEL_OUT_6POINT1),
     (''AUDIO_CHANNEL_OUT_7POINT1'', AUDIO_CHANNEL_OUT_7POINT1),
     (''AUDIO_CHANNEL_OUT_7POINT1POINT2'', AUDIO_CHANNEL_OUT_7POINT1POINT2),
     (''AUDIO_CHANNEL_OUT_7POINT1POINT4'', AUDIO_CHANNEL_OUT_7POINT1POINT4),
     (''AUDIO_CHANNEL_OUT_MONO_HAPTIC_A'', AUDIO_CHANNEL_OUT_MONO_HAPTIC_A),
     (''AUDIO_CHANNEL_OUT_STEREO_HAPTIC_A'', AUDIO_CHANNEL_OUT_STEREO_HAPTIC_A),
     (''AUDIO_CHANNEL_OUT_HAPTIC_AB'', AUDIO_CHANNEL_OUT_HAPTIC_AB),
     (''AUDIO_CHANNEL_OUT_MONO_HAPTIC_AB'', AUDIO_CHANNEL_OUT_MONO_HAPTIC_AB),
     (''AUDIO_CHANNEL_OUT_STEREO_HAPTIC_AB'', AUDIO_CHANNEL_OUT_STEREO_HAPTIC_AB)]"

definition AUDIO_CHANNEL_OUT_MASK_LIST_DEF :: "(string \<times> audio_channel_mask_t) list" where [list_defs]:
  "AUDIO_CHANNEL_OUT_MASK_LIST_DEF =
    AUDIO_CHANNEL_OUT_MASK_LIST_UNIQUE_DEF @
    [(''AUDIO_CHANNEL_OUT_5POINT1_BACK'', AUDIO_CHANNEL_OUT_5POINT1_BACK),
     (''AUDIO_CHANNEL_OUT_QUAD_BACK'', AUDIO_CHANNEL_OUT_QUAD_BACK)]"

definition AUDIO_CHANNEL_IN_MASK_LIST_DEF :: "(string \<times> audio_channel_mask_t) list" where [list_defs]:
  "AUDIO_CHANNEL_IN_MASK_LIST_DEF =
    [(''AUDIO_CHANNEL_IN_MONO'', AUDIO_CHANNEL_IN_MONO),
     (''AUDIO_CHANNEL_IN_STEREO'', AUDIO_CHANNEL_IN_STEREO),
     (''AUDIO_CHANNEL_IN_FRONT_BACK'', AUDIO_CHANNEL_IN_FRONT_BACK),
     (''AUDIO_CHANNEL_IN_6'', AUDIO_CHANNEL_IN_6),
     (''AUDIO_CHANNEL_IN_2POINT0POINT2'', AUDIO_CHANNEL_IN_2POINT0POINT2),
     (''AUDIO_CHANNEL_IN_2POINT1POINT2'', AUDIO_CHANNEL_IN_2POINT1POINT2),
     (''AUDIO_CHANNEL_IN_3POINT0POINT2'', AUDIO_CHANNEL_IN_3POINT0POINT2),
     (''AUDIO_CHANNEL_IN_3POINT1POINT2'', AUDIO_CHANNEL_IN_3POINT1POINT2),
     (''AUDIO_CHANNEL_IN_5POINT1'', AUDIO_CHANNEL_IN_5POINT1),
     (''AUDIO_CHANNEL_IN_VOICE_UPLINK_MONO'', AUDIO_CHANNEL_IN_VOICE_UPLINK_MONO),
     (''AUDIO_CHANNEL_IN_VOICE_DNLINK_MONO'', AUDIO_CHANNEL_IN_VOICE_DNLINK_MONO),
     (''AUDIO_CHANNEL_IN_VOICE_CALL_MONO'', AUDIO_CHANNEL_IN_VOICE_CALL_MONO)]"

definition AUDIO_CHANNEL_INDEX_MASK_LIST_DEF :: "(string \<times> audio_channel_mask_t) list" where [list_defs]:
  "AUDIO_CHANNEL_INDEX_MASK_LIST_DEF =
    [(''AUDIO_CHANNEL_INDEX_MASK_1'', AUDIO_CHANNEL_INDEX_MASK_1),
     (''AUDIO_CHANNEL_INDEX_MASK_2'', AUDIO_CHANNEL_INDEX_MASK_2),
     (''AUDIO_CHANNEL_INDEX_MASK_3'', AUDIO_CHANNEL_INDEX_MASK_3),
     (''AUDIO_CHANNEL_INDEX_MASK_4'', AUDIO_CHANNEL_INDEX_MASK_4),
     (''AUDIO_CHANNEL_INDEX_MASK_5'', AUDIO_CHANNEL_INDEX_MASK_5),
     (''AUDIO_CHANNEL_INDEX_MASK_6'', AUDIO_CHANNEL_INDEX_MASK_6),
     (''AUDIO_CHANNEL_INDEX_MASK_7'', AUDIO_CHANNEL_INDEX_MASK_7),
     (''AUDIO_CHANNEL_INDEX_MASK_8'', AUDIO_CHANNEL_INDEX_MASK_8),
     (''AUDIO_CHANNEL_INDEX_MASK_9'', AUDIO_CHANNEL_INDEX_MASK_9),
     (''AUDIO_CHANNEL_INDEX_MASK_10'', AUDIO_CHANNEL_INDEX_MASK_10),
     (''AUDIO_CHANNEL_INDEX_MASK_11'', AUDIO_CHANNEL_INDEX_MASK_11),
     (''AUDIO_CHANNEL_INDEX_MASK_12'', AUDIO_CHANNEL_INDEX_MASK_12),
     (''AUDIO_CHANNEL_INDEX_MASK_13'', AUDIO_CHANNEL_INDEX_MASK_13),
     (''AUDIO_CHANNEL_INDEX_MASK_14'', AUDIO_CHANNEL_INDEX_MASK_14),
     (''AUDIO_CHANNEL_INDEX_MASK_15'', AUDIO_CHANNEL_INDEX_MASK_15),
     (''AUDIO_CHANNEL_INDEX_MASK_16'', AUDIO_CHANNEL_INDEX_MASK_16),
     (''AUDIO_CHANNEL_INDEX_MASK_17'', AUDIO_CHANNEL_INDEX_MASK_17),
     (''AUDIO_CHANNEL_INDEX_MASK_18'', AUDIO_CHANNEL_INDEX_MASK_18),
     (''AUDIO_CHANNEL_INDEX_MASK_19'', AUDIO_CHANNEL_INDEX_MASK_19),
     (''AUDIO_CHANNEL_INDEX_MASK_20'', AUDIO_CHANNEL_INDEX_MASK_20),
     (''AUDIO_CHANNEL_INDEX_MASK_21'', AUDIO_CHANNEL_INDEX_MASK_21),
     (''AUDIO_CHANNEL_INDEX_MASK_22'', AUDIO_CHANNEL_INDEX_MASK_22),
     (''AUDIO_CHANNEL_INDEX_MASK_23'', AUDIO_CHANNEL_INDEX_MASK_23),
     (''AUDIO_CHANNEL_INDEX_MASK_24'', AUDIO_CHANNEL_INDEX_MASK_24)]"

text \<open>
  \<open>AUDIO_DEFINE_BIT_MASK_V(symbol, _)\<close> is \<open>symbol |\<close>: a discrete channel list
  instantiated with it and closed by \<open>0\<close> is the OR of all its channels.
\<close>

definition AUDIO_DEFINE_BIT_MASK :: "(string \<times> audio_channel_mask_t) list \<Rightarrow> audio_channel_mask_t" where
  "AUDIO_DEFINE_BIT_MASK rows = foldr (\<lambda>row rest. snd row OR rest) rows 0"

definition AUDIO_CHANNEL_OUT_ALL :: audio_channel_mask_t where [enum_defs]:
  "AUDIO_CHANNEL_OUT_ALL = AUDIO_DEFINE_BIT_MASK AUDIO_CHANNEL_OUT_DISCRETE_CHANNEL_LIST_DEF"

definition AUDIO_CHANNEL_HAPTIC_ALL :: audio_channel_mask_t where [enum_defs]:
  "AUDIO_CHANNEL_HAPTIC_ALL = AUDIO_CHANNEL_OUT_HAPTIC_B OR AUDIO_CHANNEL_OUT_HAPTIC_A"

definition AUDIO_CHANNEL_IN_ALL :: audio_channel_mask_t where [enum_defs]:
  "AUDIO_CHANNEL_IN_ALL = AUDIO_DEFINE_BIT_MASK AUDIO_CHANNEL_IN_DISCRETE_CHANNEL_LIST_DEF"

text \<open>
  This value is part of the enum, but it is not a valid mask and is in no list.
\<close>

definition AUDIO_CHANNEL_INVALID :: audio_channel_mask_t where [enum_defs]:
  "AUDIO_CHANNEL_INVALID = 0xC0000000"

text \<open>
  The flag values of input and output channels intersect, so there is one
  \<open>to_string\<close> function for each direction.
\<close>

definition audio_channel_out_mask_to_string :: "audio_channel_mask_t \<Rightarrow> string" where [conv_defs]:
  "audio_channel_out_mask_to_string t =
     AUDIO_DEFINE_STRINGIFY_CASE (AUDIO_CHANNEL_IN_OUT_MASK_LIST_DEF @ AUDIO_CHANNEL_OUT_MASK_LIST_UNIQUE_DEF) t"

definition audio_channel_in_mask_to_string :: "audio_channel_mask_t \<Rightarrow> string" where [conv_defs]:
  "audio_channel_in_mask_to_string t =
     AUDIO_DEFINE_STRINGIFY_CASE (AUDIO_CHANNEL_IN_OUT_MASK_LIST_DEF @ AUDIO_CHANNEL_IN_MASK_LIST_DEF) t"

definition audio_channel_index_mask_to_string :: "audio_channel_mask_t \<Rightarrow> string" where [conv_defs]:
  "audio_channel_index_mask_to_string t =
     AUDIO_DEFINE_STRINGIFY_CASE (AUDIO_CHANNEL_IN_OUT_MASK_LIST_DEF @ AUDIO_CHANNEL_INDEX_MASK_LIST_DEF) t"

text \<open>
  Parsing is only done for masks, not for individual channels.
\<close>

definition audio_channel_mask_from_string :: "string \<Rightarrow> audio_channel_mask_t \<Rightarrow> bool \<times> audio_channel_mask_t" where [conv_defs]:
  "audio_channel_mask_from_string s t =
     AUDIO_DEFINE_PARSE_CASE (AUDIO_CHANNEL_IN_OUT_MASK_LIST_DEF @
       AUDIO_CHANNEL_OUT_MASK_LIST_DEF @
       AUDIO_CHANNEL_IN_MASK_LIST_DEF @
       AUDIO_CHANNEL_INDEX_MASK_LIST_DEF) s t"

subsection \<open>Content type\<close>

text \<open>
  A simple enum: \<open>AUDIO_DEFINE_ENUM_SYMBOL(symbol)\<close> is \<open>symbol,\<close>, so the values
  count up from 0.
\<close>

definition AUDIO_CONTENT_TYPE_UNKNOWN :: audio_content_type_t where [enum_defs]:
  "AUDIO_CONTENT_TYPE_UNKNOWN = 0"

definition AUDIO_CONTENT_TYPE_SPEECH :: audio_content_type_t where [enum_defs]:
  "AUDIO_CONTENT_TYPE_SPEECH = 1"

definition AUDIO_CONTENT_TYPE_MUSIC :: audio_content_type_t where [enum_defs]:
  "AUDIO_CONTENT_TYPE_MUSIC = 2"

definition AUDIO_CONTENT_TYPE_MOVIE :: audio_content_type_t where [enum_defs]:
  "AUDIO_CONTENT_TYPE_MOVIE = 3"

definition AUDIO_CONTENT_TYPE_SONIFICATION :: audio_content_type_t where [enum_defs]:
  "AUDIO_CONTENT_TYPE_SONIFICATION = 4"

definition AUDIO_CONTENT_TYPE_LIST_DEF :: "(string \<times> audio_content_type_t) list" where [list_defs]:
  "AUDIO_CONTENT_TYPE_LIST_DEF =
    [(''AUDIO_CONTENT_TYPE_UNKNOWN'', AUDIO_CONTENT_TYPE_UNKNOWN),
     (''AUDIO_CONTENT_TYPE_SPEECH'', AUDIO_CONTENT_TYPE_SPEECH),
     (''AUDIO_CONTENT_TYPE_MUSIC'', AUDIO_CONTENT_TYPE_MUSIC),
     (''AUDIO_CONTENT_TYPE_MOVIE'', AUDIO_CONTENT_TYPE_MOVIE),
     (''AUDIO_CONTENT_TYPE_SONIFICATION'', AUDIO_CONTENT_TYPE_SONIFICATION)]"

definition audio_content_type_to_string :: "audio_content_type_t \<Rightarrow> string" where [conv_defs]:
  "audio_content_type_to_string t =
     AUDIO_DEFINE_STRINGIFY_CASE (AUDIO_CONTENT_TYPE_LIST_DEF) t"

definition audio_content_type_from_string :: "string \<Rightarrow> audio_content_type_t \<Rightarrow> bool \<times> audio_content_type_t" where [conv_defs]:
  "audio_content_type_from_string s t =
     AUDIO_DEFINE_PARSE_CASE (AUDIO_CONTENT_TYPE_LIST_DEF) s t"

subsection \<open>Devices\<close>

text \<open>
  Flags that never appear on their own.
\<close>

definition AUDIO_DEVICE_BIT_IN :: audio_devices_t where [enum_defs]:
  "AUDIO_DEVICE_BIT_IN = 0x80000000"

definition AUDIO_DEVICE_BIT_DEFAULT :: audio_devices_t where [enum_defs]:
  "AUDIO_DEVICE_BIT_DEFAULT = 0x40000000"

definition AUDIO_DEVICE_NONE :: audio_devices_t where [enum_defs]:
  "AUDIO_DEVICE_NONE = 0x0"

definition AUDIO_DEVICE_OUT_EARPIECE :: audio_devices_t where [enum_defs]:
  "AUDIO_DEVICE_OUT_EARPIECE = 0x1"

definition AUDIO_DEVICE_OUT_SPEAKER :: audio_devices_t where [enum_defs]:
  "AUDIO_DEVICE_OUT_SPEAKER = 0x2"

definition AUDIO_DEVICE_OUT_WIRED_HEADSET :: audio_devices_t where [enum_defs]:
  "AUDIO_DEVICE_OUT_WIRED_HEADSET = 0x4"

definition AUDIO_DEVICE_OUT_WIRED_HEADPHONE :: audio_devices_t where [enum_defs]:
  "AUDIO_DEVICE_OUT_WIRED_HEADPHONE = 0x8"

definition AUDIO_DEVICE_OUT_BLUETOOTH_SCO :: audio_devices_t where [enum_defs]:
  "AUDIO_DEVICE_OUT_BLUETOOTH_SCO = 0x10"

definition AUDIO_DEVICE_OUT_BLUETOOTH_SCO_HEADSET :: audio_devices_t where [enum_defs]:
  "AUDIO_DEVICE_OUT_BLUETOOTH_SCO_HEADSET = 0x20"

definition AUDIO_DEVICE_OUT_BLUETOOTH_SCO_CARKIT :: audio_devices_t where [enum_defs]:
  "AUDIO_DEVICE_OUT_BLUETOOTH_SCO_CARKIT = 0x40"

definition AUDIO_DEVICE_OUT_BLUETOOTH_A2DP :: audio_devices_t where [enum_defs]:
  "AUDIO_DEVICE_OUT_BLUETOOTH_A2DP = 0x80"

definition AUDIO_DEVICE_OUT_BLUETOOTH_A2DP_HEADPHONES :: audio_devices_t where [enum_defs]:
  "AUDIO_DEVICE_OUT_BLUETOOTH_A2DP_HEADPHONES = 0x100"

definition AUDIO_DEVICE_OUT_BLUETOOTH_A2DP_SPEAKER :: audio_devices_t where [enum_defs]:
  "AUDIO_DEVICE_OUT_BLUETOOTH_A2DP_SPEAKER = 0x200"

definition AUDIO_DEVICE_OUT_HDMI :: audio_devices_t where [enum_defs]:
  "AUDIO_DEVICE_OUT_HDMI = 0x400"

definition AUDIO_DEVICE_OUT_ANLG_DOCK_HEADSET :: audio_devices_t where [enum_defs]:
  "AUDIO_DEVICE_OUT_ANLG_DOCK_HEADSET = 0x800"

definition AUDIO_DEVICE_OUT_DGTL_DOCK_HEADSET :: audio_devices_t where [enum_defs]:
  "AUDIO_DEVICE_OUT_DGTL_DOCK_HEADSET = 0x1000"

definition AUDIO_DEVICE_OUT_USB_ACCESSORY :: audio_devices_t where [enum_defs]:
  "AUDIO_DEVICE_OUT_USB_ACCESSORY = 0x2000"

definition AUDIO_DEVICE_OUT_USB_DEVICE :: audio_devices_t where [enum_defs]:
  "AUDIO_DEVICE_OUT_USB_DEVICE = 0x4000"

definition AUDIO_DEVICE_OUT_REMOTE_SUBMIX :: audio_devices_t where [enum_defs]:
  "AUDIO_DEVICE_OUT_REMOTE_SUBMIX = 0x8000"

definition AUDIO_DEVICE_OUT_TELEPHONY_TX :: audio_devices_t where [enum_defs]:
  "AUDIO_DEVICE_OUT_TELEPHONY_TX = 0x10000"

definition AUDIO_DEVICE_OUT_LINE :: audio_devices_t where [enum_defs]:
  "AUDIO_DEVICE_OUT_LINE = 0x20000"

definition AUDIO_DEVICE_OUT_HDMI_ARC :: audio_devices_t where [enum_defs]:
  "AUDIO_DEVICE_OUT_HDMI_ARC = 0x40000"

definition AUDIO_DEVICE_OUT_SPDIF :: audio_devices_t where [enum_defs]:
  "AUDIO_DEVICE_OUT_SPDIF = 0x80000"

definition AUDIO_DEVICE_OUT_FM :: audio_devices_t where [enum_defs]:
  "AUDIO_DEVICE_OUT_FM = 0x100000"

definition AUDIO_DEVICE_OUT_AUX_LINE :: audio_devices_t where [enum_defs]:
  "AUDIO_DEVICE_OUT_AUX_LINE = 0x200000"

definition AUDIO_DEVICE_OUT_SPEAKER_SAFE :: audio_devices_t where [enum_defs]:
  "AUDIO_DEVICE_OUT_SPEAKER_SAFE = 0x400000"

definition AUDIO_DEVICE_OUT_IP :: audio_devices_t where [enum_defs]:
  "AUDIO_DEVICE_OUT_IP = 0x800000"

definition AUDIO_DEVICE_OUT_BUS :: audio_devices_t where [enum_defs]:
  "AUDIO_DEVICE_OUT_BUS = 0x1000000"

definition AUDIO_DEVICE_OUT_PROXY :: audio_devices_t where [enum_defs]:
  "AUDIO_DEVICE_OUT_PROXY = 0x2000000"

definition AUDIO_DEVICE_OUT_USB_HEADSET :: audio_devices_t where [enum_defs]:
  "AUDIO_DEVICE_OUT_USB_HEADSET = 0x4000000"

definition AUDIO_DEVICE_OUT_HEARING_AID :: audio_devices_t where [enum_defs]:
  "AUDIO_DEVICE_OUT_HEARING_AID = 0x8000000"

definition AUDIO_DEVICE_OUT_ECHO_CANCELLER :: audio_devices_t where [enum_defs]:
  "AUDIO_DEVICE_OUT_ECHO_CANCELLER = 0x10000000"

definition AUDIO_DEVICE_OUT_BLE_HEADSET :: audio_devices_t where [enum_defs]:
  "AUDIO_DEVICE_OUT_BLE_HEADSET = 0x20000000"

definition AUDIO_DEVICE_OUT_BLE_SPEAKER :: audio_devices_t where [enum_defs]:
  "AUDIO_DEVICE_OUT_BLE_SPEAKER = 0x20000001"

definition AUDIO_DEVICE_OUT_DEFAULT :: audio_devices_t where [enum_defs]:
  "AUDIO_DEVICE_OUT_DEFAULT = AUDIO_DEVICE_BIT_DEFAULT"

definition AUDIO_DEVICE_IN_COMMUNICATION :: audio_devices_t where [enum_defs]:
  "AUDIO_DEVICE_IN_COMMUNICATION = AUDIO_DEVICE_BIT_IN OR 0x1"

definition AUDIO_DEVICE_IN_AMBIENT :: audio_devices_t where [enum_defs]:
  "AUDIO_DEVICE_IN_AMBIENT = AUDIO_DEVICE_BIT_IN OR 0x2"

definition AUDIO_DEVICE_IN_BUILTIN_MIC :: audio_devices_t where [enum_defs]:
  "AUDIO_DEVICE_IN_BUILTIN_MIC = AUDIO_DEVICE_BIT_IN OR 0x4"

definition AUDIO_DEVICE_IN_BLUETOOTH_SCO_HEADSET :: audio_devices_t where [enum_defs]:
  "AUDIO_DEVICE_IN_BLUETOOTH_SCO_HEADSET = AUDIO_DEVICE_BIT_IN OR 0x8"

definition AUDIO_DEVICE_IN_WIRED_HEADSET :: audio_devices_t where [enum_defs]:
  "AUDIO_DEVICE_IN_WIRED_HEADSET = AUDIO_DEVICE_BIT_IN OR 0x10"

definition AUDIO_DEVICE_IN_HDMI :: audio_devices_t where [enum_defs]:
  "AUDIO_DEVICE_IN_HDMI = AUDIO_DEVICE_BIT_IN OR 0x20"

definition AUDIO_DEVICE_IN_TELEPHONY_RX :: audio_devices_t where [enum_defs]:
  "AUDIO_DEVICE_IN_TELEPHONY_RX = AUDIO_DEVICE_BIT_IN OR 0x40"

definition AUDIO_DEVICE_IN_BACK_MIC :: audio_devices_t where [enum_defs]:
  "AUDIO_DEVICE_IN_BACK_MIC = AUDIO_DEVICE_BIT_IN OR 0x80"

definition AUDIO_DEVICE_IN_REMOTE_SUBMIX :: audio_devices_t where [enum_defs]:
  "AUDIO_DEVICE_IN_REMOTE_SUBMIX = AUDIO_DEVICE_BIT_IN OR 0x100"

definition AUDIO_DEVICE_IN_ANLG_DOCK_HEADSET :: audio_devices_t where [enum_defs]:
  "AUDIO_DEVICE_IN_ANLG_DOCK_HEADSET = AUDIO_DEVICE_BIT_IN OR 0x200"

definition AUDIO_DEVICE_IN_DGTL_DOCK_HEADSET :: audio_devices_t where [enum_defs]:
  "AUDIO_DEVICE_IN_DGTL_DOCK_HEADSET = AUDIO_DEVICE_BIT_IN OR 0x400"

definition AUDIO_DEVICE_IN_USB_ACCESSORY :: audio_devices_t where [enum_defs]:
  "AUDIO_DEVICE_IN_USB_ACCESSORY = AUDIO_DEVICE_BIT_IN OR 0x800"

definition AUDIO_DEVICE_IN_USB_DEVICE :: audio_devices_t where [enum_defs]:
  "AUDIO_DEVICE_IN_USB_DEVICE = AUDIO_DEVICE_BIT_IN OR 0x1000"

definition AUDIO_DEVICE_IN_FM_TUNER :: audio_devices_t where [enum_defs]:
  "AUDIO_DEVICE_IN_FM_TUNER = AUDIO_DEVICE_BIT_IN OR 0x2000"

definition AUDIO_DEVICE_IN_TV_TUNER :: audio_devices_t where [enum_defs]:
  "AUDIO_DEVICE_IN_TV_TUNER = AUDIO_DEVICE_BIT_IN OR 0x4000"

definition AUDIO_DEVICE_IN_LINE :: audio_devices_t where [enum_defs]:
  "AUDIO_DEVICE_IN_LINE = AUDIO_DEVICE_BIT_IN OR 0x8000"

definition AUDIO_DEVICE_IN_SPDIF :: audio_devices_t where [enum_defs]:
  "AUDIO_DEVICE_IN_SPDIF = AUDIO_DEVICE_BIT_IN OR 0x10000"

definition AUDIO_DEVICE_IN_BLUETOOTH_A2DP :: audio_devices_t where [enum_defs]:
  "AUDIO_DEVICE_IN_BLUETOOTH_A2DP = AUDIO_DEVICE_BIT_IN OR 0x20000"

definition AUDIO_DEVICE_IN_LOOPBACK :: audio_devices_t where [enum_defs]:
  "AUDIO_DEVICE_IN_LOOPBACK = AUDIO_DEVICE_BIT_IN OR 0x40000"

definition AUDIO_DEVICE_IN_IP :: audio_devices_t where [enum_defs]:
  "AUDIO_DEVICE_IN_IP = AUDIO_DEVICE_BIT_IN OR 0x80000"

definition AUDIO_DEVICE_IN_BUS :: audio_devices_t where [enum_defs]:
  "AUDIO_DEVICE_IN_BUS = AUDIO_DEVICE_BIT_IN OR 0x100000"

definition AUDIO_DEVICE_IN_PROXY :: audio_devices_t where [enum_defs]:
  "AUDIO_DEVICE_IN_PROXY = AUDIO_DEVICE_BIT_IN OR 0x1000000"

definition AUDIO_DEVICE_IN_USB_HEADSET :: audio_devices_t where [enum_defs]:
  "AUDIO_DEVICE_IN_USB_HEADSET = AUDIO_DEVICE_BIT_IN OR 0x2000000"

definition AUDIO_DEVICE_IN_BLUETOOTH_BLE :: audio_devices_t where [enum_defs]:
  "AUDIO_DEVICE_IN_BLUETOOTH_BLE = AUDIO_DEVICE_BIT_IN OR 0x4000000"

definition AUDIO_DEVICE_IN_HDMI_ARC :: audio_devices_t where [enum_defs]:
  "AUDIO_DEVICE_IN_HDMI_ARC = AUDIO_DEVICE_BIT_IN OR 0x8000000"

definition AUDIO_DEVICE_IN_ECHO_REFERENCE :: audio_devices_t where [enum_defs]:
  "AUDIO_DEVICE_IN_ECHO_REFERENCE = AUDIO_DEVICE_BIT_IN OR 0x10000000"

definition AUDIO_DEVICE_IN_BLE_HEADSET :: audio_devices_t where [enum_defs]:
  "AUDIO_DEVICE_IN_BLE_HEADSET = AUDIO_DEVICE_BIT_IN OR 0x20000000"

definition AUDIO_DEVICE_IN_DEFAULT :: audio_devices_t where [enum_defs]:
  "AUDIO_DEVICE_IN_DEFAULT = AUDIO_DEVICE_BIT_IN OR AUDIO_DEVICE_BIT_DEFAULT"

definition AUDIO_DEVICE_OUT_AUX_DIGITAL :: audio_devices_t where [enum_defs]:
  "AUDIO_DEVICE_OUT_AUX_DIGITAL = AUDIO_DEVICE_OUT_HDMI"

definition AUDIO_DEVICE_OUT_STUB :: audio_devices_t where [enum_defs]:
  "AUDIO_DEVICE_OUT_STUB = AUDIO_DEVICE_OUT_DEFAULT"

definition AUDIO_DEVICE_IN_VOICE_CALL :: audio_devices_t where [enum_defs]:
  "AUDIO_DEVICE_IN_VOICE_CALL = AUDIO_DEVICE_IN_TELEPHONY_RX"

definition AUDIO_DEVICE_IN_AUX_DIGITAL :: audio_devices_t where [enum_defs]:
  "AUDIO_DEVICE_IN_AUX_DIGITAL = AUDIO_DEVICE_IN_HDMI"

definition AUDIO_DEVICE_IN_STUB :: audio_devices_t where [enum_defs]:
  "AUDIO_DEVICE_IN_STUB = AUDIO_DEVICE_IN_DEFAULT"

definition AUDIO_DEVICE_LIST_UNIQUE_DEF :: "(string \<times> audio_devices_t) list" where [list_defs]:
  "AUDIO_DEVICE_LIST_UNIQUE_DEF =
    [(''AUDIO_DEVICE_NONE'', AUDIO_DEVICE_NONE),
     (''AUDIO_DEVICE_OUT_EARPIECE'', AUDIO_DEVICE_OUT_EARPIECE),
     (''AUDIO_DEVICE_OUT_SPEAKER'', AUDIO_DEVICE_OUT_SPEAKER),
     (''AUDIO_DEVICE_OUT_WIRED_HEADSET'', AUDIO_DEVICE_OUT_WIRED_HEADSET),
     (''AUDIO_DEVICE_OUT_WIRED_HEADPHONE'', AUDIO_DEVICE_OUT_WIRED_HEADPHONE),
     (''AUDIO_DEVICE_OUT_BLUETOOTH_SCO'', AUDIO_DEVICE_OUT_BLUETOOTH_SCO),
     (''AUDIO_DEVICE_OUT_BLUETOOTH_SCO_HEADSET'', AUDIO_DEVICE_OUT_BLUETOOTH_SCO_HEADSET),
     (''AUDIO_DEVICE_OUT_BLUETOOTH_SCO_CARKIT'', AUDIO_DEVICE_OUT_BLUETOOTH_SCO_CARKIT),
     (''AUDIO_DEVICE_OUT_BLUETOOTH_A2DP'', AUDIO_DEVICE_OUT_BLUETOOTH_A2DP),
     (''AUDIO_DEVICE_OUT_BLUETOOTH_A2DP_HEADPHONES'', AUDIO_DEVICE_OUT_BLUETOOTH_A2DP_HEADPHONES),
     (''AUDIO_DEVICE_OUT_BLUETOOTH_A2DP_SPEAKER'', AUDIO_DEVICE_OUT_BLUETOOTH_A2DP_SPEAKER),
     (''AUDIO_DEVICE_OUT_HDMI'', AUDIO_DEVICE_OUT_HDMI),
     (''AUDIO_DEVICE_OUT_ANLG_DOCK_HEADSET'', AUDIO_DEVICE_OUT_ANLG_DOCK_HEADSET),
     (''AUDIO_DEVICE_OUT_DGTL_DOCK_HEADSET'', AUDIO_DEVICE_OUT_DGTL_DOCK_HEADSET),
     (''AUDIO_DEVICE_OUT_USB_ACCESSORY'', AUDIO_DEVICE_OUT_USB_ACCESSORY),
     (''AUDIO_DEVICE_OUT_USB_DEVICE'', AUDIO_DEVICE_OUT_USB_DEVICE),
     (''AUDIO_DEVICE_OUT_REMOTE_SUBMIX'', AUDIO_DEVICE_OUT_REMOTE_SUBMIX),
     (''AUDIO_DEVICE_OUT_TELEPHONY_TX'', AUDIO_DEVICE_OUT_TELEPHONY_TX),
     (''AUDIO_DEVICE_OUT_LINE'', AUDIO_DEVICE_OUT_LINE),
     (''AUDIO_DEVICE_OUT_HDMI_ARC'', AUDIO_DEVICE_OUT_HDMI_ARC),
     (''AUDIO_DEVICE_OUT_SPDIF'', AUDIO_DEVICE_OUT_SPDIF),
     (''AUDIO_DEVICE_OUT_FM'', AUDIO_DEVICE_OUT_FM),
     (''AUDIO_DEVICE_OUT_AUX_LINE'', AUDIO_DEVICE_OUT_AUX_LINE),
     (''AUDIO_DEVICE_OUT_SPEAKER_SAFE'', AUDIO_DEVICE_OUT_SPEAKER_SAFE),
     (''AUDIO_DEVICE_OUT_IP'', AUDIO_DEVICE_OUT_IP),
     (''AUDIO_DEVICE_OUT_BUS'', AUDIO_DEVICE_OUT_BUS),
     (''AUDIO_DEVICE_OUT_PROXY'', AUDIO_DEVICE_OUT_PROXY),
     (''AUDIO_DEVICE_OUT_USB_HEADSET'', AUDIO_DEVICE_OUT_USB_HEADSET),
     (''AUDIO_DEVICE_OUT_HEARING_AID'', AUDIO_DEVICE_OUT_HEARING_AID),
     (''AUDIO_DEVICE_OUT_ECHO_CANCELLER'', AUDIO_DEVICE_OUT_ECHO_CANCELLER),
     (''AUDIO_DEVICE_OUT_BLE_HEADSET'', AUDIO_DEVICE_OUT_BLE_HEADSET),
     (''AUDIO_DEVICE_OUT_BLE_SPEAKER'', AUDIO_DEVICE_OUT_BLE_SPEAKER),
     (''AUDIO_DEVICE_OUT_DEFAULT'', AUDIO_DEVICE_OUT_DEFAULT),
     (''AUDIO_DEVICE_IN_COMMUNICATION'', AUDIO_DEVICE_IN_COMMUNICATION),
     (''AUDIO_DEVICE_IN_AMBIENT'', AUDIO_DEVICE_IN_AMBIENT),
     (''AUDIO_DEVICE_IN_BUILTIN_MIC'', AUDIO_DEVICE_IN_BUILTIN_MIC),
     (''AUDIO_DEVICE_IN_BLUETOOTH_SCO_HEADSET'', AUDIO_DEVICE_IN_BLUETOOTH_SCO_HEADSET),
     (''AUDIO_DEVICE_IN_WIRED_HEADSET'', AUDIO_DEVICE_IN_WIRED_HEADSET),
     (''AUDIO_DEVICE_IN_HDMI'', AUDIO_DEVICE_IN_HDMI),
     (''AUDIO_DEVICE_IN_TELEPHONY_RX'', AUDIO_DEVICE_IN_TELEPHONY_RX),
     (''AUDIO_DEVICE_IN_BACK_MIC'', AUDIO_DEVICE_IN_BACK_MIC),
     (''AUDIO_DEVICE_IN_REMOTE_SUBMIX'', AUDIO_DEVICE_IN_REMOTE_SUBMIX),
     (''AUDIO_DEVICE_IN_ANLG_DOCK_HEADSET'', AUDIO_DEVICE_IN_ANLG_DOCK_HEADSET),
     (''AUDIO_DEVICE_IN_DGTL_DOCK_HEADSET'', AUDIO_DEVICE_IN_DGTL_DOCK_HEADSET),
     (''AUDIO_DEVICE_IN_USB_ACCESSORY'', AUDIO_DEVICE_IN_USB_ACCESSORY),
     (''AUDIO_DEVICE_IN_USB_DEVICE'', AUDIO_DEVICE_IN_USB_DEVICE),
     (''AUDIO_DEVICE_IN_FM_TUNER'', AUDIO_DEVICE_IN_FM_TUNER),
     (''AUDIO_DEVICE_IN_TV_TUNER'', AUDIO_DEVICE_IN_TV_TUNER),
     (''AUDIO_DEVICE_IN_LINE'', AUDIO_DEVICE_IN_LINE),
     (''AUDIO_DEVICE_IN_SPDIF'', AUDIO_DEVICE_IN_SPDIF),
     (''AUDIO_DEVICE_IN_BLUETOOTH_A2DP'', AUDIO_DEVICE_IN_BLUETOOTH_A2DP),
     (''AUDIO_DEVICE_IN_LOOPBACK'', AUDIO_DEVICE_IN_LOOPBACK),
     (''AUDIO_DEVICE_IN_IP'', AUDIO_DEVICE_IN_IP),
     (''AUDIO_DEVICE_IN_BUS'', AUDIO_DEVICE_IN_BUS),
     (''AUDIO_DEVICE_IN_PROXY'', AUDIO_DEVICE_IN_PROXY),
     (''AUDIO_DEVICE_IN_USB_HEADSET'', AUDIO_DEVICE_IN_USB_HEADSET),
     (''AUDIO_DEVICE_IN_BLUETOOTH_BLE'', AUDIO_DEVICE_IN_BLUETOOTH_BLE),
     (''AUDIO_DEVICE_IN_HDMI_ARC'', AUDIO_DEVICE_IN_HDMI_ARC),
     (''AUDIO_DEVICE_IN_ECHO_REFERENCE'', AUDIO_DEVICE_IN_ECHO_REFERENCE),
     (''AUDIO_DEVICE_IN_BLE_HEADSET'', AUDIO_DEVICE_IN_BLE_HEADSET),
     (''AUDIO_DEVICE_IN_DEFAULT'', AUDIO_DEVICE_IN_DEFAULT)]"

definition AUDIO_DEVICE_LIST_DEF :: "(string \<times> audio_devices_t) list" where [list_defs]:
  "AUDIO_DEVICE_LIST_DEF =
    AUDIO_DEVICE_LIST_UNIQUE_DEF @
    [(''AUDIO_DEVICE_OUT_AUX_DIGITAL'', AUDIO_DEVICE_OUT_AUX_DIGITAL),
     (''AUDIO_DEVICE_OUT_STUB'', AUDIO_DEVICE_OUT_STUB),
     (''AUDIO_DEVICE_IN_VOICE_CALL'', AUDIO_DEVICE_IN_VOICE_CALL),
     (''AUDIO_DEVICE_IN_AUX_DIGITAL'', AUDIO_DEVICE_IN_AUX_DIGITAL),
     (''AUDIO_DEVICE_IN_STUB'', AUDIO_DEVICE_IN_STUB)]"

definition audio_device_to_string :: "audio_devices_t \<Rightarrow> string" where [conv_defs]:
  "audio_device_to_string t =
     AUDIO_DEFINE_STRINGIFY_CASE (AUDIO_DEVICE_LIST_UNIQUE_DEF) t"

definition audio_device_from_string :: "string \<Rightarrow> audio_devices_t \<Rightarrow> bool \<times> audio_devices_t" where [conv_defs]:
  "audio_device_from_string s t =
     AUDIO_DEFINE_PARSE_CASE (AUDIO_DEVICE_LIST_DEF) s t"

subsection \<open>Output and input flags\<close>

definition AUDIO_OUTPUT_FLAG_NONE :: audio_output_flags_t where [enum_defs]:
  "AUDIO_OUTPUT_FLAG_NONE = 0x0"

definition AUDIO_OUTPUT_FLAG_DIRECT :: audio_output_flags_t where [enum_defs]:
  "AUDIO_OUTPUT_FLAG_DIRECT = 0x1"

definition AUDIO_OUTPUT_FLAG_PRIMARY :: audio_output_flags_t where [enum_defs]:
  "AUDIO_OUTPUT_FLAG_PRIMARY = 0x2"

definition AUDIO_OUTPUT_FLAG_FAST :: audio_output_flags_t where [enum_defs]:
  "AUDIO_OUTPUT_FLAG_FAST = 0x4"

definition AUDIO_OUTPUT_FLAG_DEEP_BUFFER :: audio_output_flags_t where [enum_defs]:
  "AUDIO_OUTPUT_FLAG_DEEP_BUFFER = 0x8"

definition AUDIO_OUTPUT_FLAG_COMPRESS_OFFLOAD :: audio_output_flags_t where [enum_defs]:
  "AUDIO_OUTPUT_FLAG_COMPRESS_OFFLOAD = 0x10"

definition AUDIO_OUTPUT_FLAG_NON_BLOCKING :: audio_output_flags_t where [enum_defs]:
  "AUDIO_OUTPUT_FLAG_NON_BLOCKING = 0x20"

definition AUDIO_OUTPUT_FLAG_HW_AV_SYNC :: audio_output_flags_t where [enum_defs]:
  "AUDIO_OUTPUT_FLAG_HW_AV_SYNC = 0x40"

definition AUDIO_OUTPUT_FLAG_TTS :: audio_output_flags_t where [enum_defs]:
  "AUDIO_OUTPUT_FLAG_TTS = 0x80"

definition AUDIO_OUTPUT_FLAG_RAW :: audio_output_flags_t where [enum_defs]:
  "AUDIO_OUTPUT_FLAG_RAW = 0x100"

definition AUDIO_OUTPUT_FLAG_SYNC :: audio_output_flags_t where [enum_defs]:
  "AUDIO_OUTPUT_FLAG_SYNC = 0x200"

definition AUDIO_OUTPUT_FLAG_IEC958_NONAUDIO :: audio_output_flags_t where [enum_defs]:
  "AUDIO_OUTPUT_FLAG_IEC958_NONAUDIO = 0x400"

definition AUDIO_OUTPUT_FLAG_DIRECT_PCM :: audio_output_flags_t where [enum_defs]:
  "AUDIO_OUTPUT_FLAG_DIRECT_PCM = 0x2000"

definition AUDIO_OUTPUT_FLAG_MMAP_NOIRQ :: audio_output_flags_t where [enum_defs]:
  "AUDIO_OUTPUT_FLAG_MMAP_NOIRQ = 0x4000"

definition AUDIO_OUTPUT_FLAG_VOIP_RX :: audio_output_flags_t where [enum_defs]:
  "AUDIO_OUTPUT_FLAG_VOIP_RX = 0x8000"

definition AUDIO_OUTPUT_FLAG_INCALL_MUSIC :: audio_output_flags_t where [enum_defs]:
  "AUDIO_OUTPUT_FLAG_INCALL_MUSIC = 0x10000"

definition AUDIO_OUTPUT_FLAG_GAPLESS_OFFLOAD :: audio_output_flags_t where [enum_defs]:
  "AUDIO_OUTPUT_FLAG_GAPLESS_OFFLOAD = 0x20000"

definition AUDIO_OUTPUT_FLAG_LIST_DEF :: "(string \<times> audio_output_flags_t) list" where [list_defs]:
  "AUDIO_OUTPUT_FLAG_LIST_DEF =
    [(''AUDIO_OUTPUT_FLAG_NONE'', AUDIO_OUTPUT_FLAG_NONE),
     (''AUDIO_OUTPUT_FLAG_DIRECT'', AUDIO_OUTPUT_FLAG_DIRECT),
     (''AUDIO_OUTPUT_FLAG_PRIMARY'', AUDIO_OUTPUT_FLAG_PRIMARY),
     (''AUDIO_OUTPUT_FLAG_FAST'', AUDIO_OUTPUT_FLAG_FAST),
     (''AUDIO_OUTPUT_FLAG_DEEP_BUFFER'', AUDIO_OUTPUT_FLAG_DEEP_BUFFER),
     (''AUDIO_OUTPUT_FLAG_COMPRESS_OFFLOAD'', AUDIO_OUTPUT_FLAG_COMPRESS_OFFLOAD),
     (''AUDIO_OUTPUT_FLAG_NON_BLOCKING'', AUDIO_OUTPUT_FLAG_NON_BLOCKING),
     (''AUDIO_OUTPUT_FLAG_HW_AV_SYNC'', AUDIO_OUTPUT_FLAG_HW_AV_SYNC),
     (''AUDIO_OUTPUT_FLAG_TTS'', AUDIO_OUTPUT_FLAG_TTS),
     (''AUDIO_OUTPUT_FLAG_RAW'', AUDIO_OUTPUT_FLAG_RAW),
     (''AUDIO_OUTPUT_FLAG_SYNC'', AUDIO_OUTPUT_FLAG_SYNC),
     (''AUDIO_OUTPUT_FLAG_IEC958_NONAUDIO'', AUDIO_OUTPUT_FLAG_IEC958_NONAUDIO),
     (''AUDIO_OUTPUT_FLAG_DIRECT_PCM'', AUDIO_OUTPUT_FLAG_DIRECT_PCM),
     (''AUDIO_OUTPUT_FLAG_MMAP_NOIRQ'', AUDIO_OUTPUT_FLAG_MMAP_NOIRQ),
     (''AUDIO_OUTPUT_FLAG_VOIP_RX'', AUDIO_OUTPUT_FLAG_VOIP_RX),
     (''AUDIO_OUTPUT_FLAG_INCALL_MUSIC'', AUDIO_OUTPUT_FLAG_INCALL_MUSIC),
     (''AUDIO_OUTPUT_FLAG_GAPLESS_OFFLOAD'', AUDIO_OUTPUT_FLAG_GAPLESS_OFFLOAD)]"

definition audio_output_flag_to_string :: "audio_output_flags_t \<Rightarrow> string" where [conv_defs]:
  "audio_output_flag_to_string t =
     AUDIO_DEFINE_STRINGIFY_CASE (AUDIO_OUTPUT_FLAG_LIST_DEF) t"

definition audio_output_flag_from_string :: "string \<Rightarrow> audio_output_flags_t \<Rightarrow> bool \<times> audio_output_flags_t" where [conv_defs]:
  "audio_output_flag_from_string s t =
     AUDIO_DEFINE_PARSE_CASE (AUDIO_OUTPUT_FLAG_LIST_DEF) s t"

definition AUDIO_INPUT_FLAG_NONE :: audio_input_flags_t where [enum_defs]:
  "AUDIO_INPUT_FLAG_NONE = 0x0"

definition AUDIO_INPUT_FLAG_FAST :: audio_input_flags_t where [enum_defs]:
  "AUDIO_INPUT_FLAG_FAST = 0x1"

definition AUDIO_INPUT_FLAG_HW_HOTWORD :: audio_input_flags_t where [enum_defs]:
  "AUDIO_INPUT_FLAG_HW_HOTWORD = 0x2"

definition AUDIO_INPUT_FLAG_RAW :: audio_input_flags_t where [enum_defs]:
  "AUDIO_INPUT_FLAG_RAW = 0x4"

definition AUDIO_INPUT_FLAG_SYNC :: audio_input_flags_t where [enum_defs]:
  "AUDIO_INPUT_FLAG_SYNC = 0x8"

definition AUDIO_INPUT_FLAG_MMAP_NOIRQ :: audio_input_flags_t where [enum_defs]:
  "AUDIO_INPUT_FLAG_MMAP_NOIRQ = 0x10"

definition AUDIO_INPUT_FLAG_VOIP_TX :: audio_input_flags_t where [enum_defs]:
  "AUDIO_INPUT_FLAG_VOIP_TX = 0x20"

definition AUDIO_INPUT_FLAG_HW_AV_SYNC :: audio_input_flags_t where [enum_defs]:
  "AUDIO_INPUT_FLAG_HW_AV_SYNC = 0x40"

definition AUDIO_INPUT_FLAG_DIRECT :: audio_input_flags_t where [enum_defs]:
  "AUDIO_INPUT_FLAG_DIRECT = 0x80"

definition AUDIO_INPUT_FLAG_LIST_DEF :: "(string \<times> audio_input_flags_t) list" where [list_defs]:
  "AUDIO_INPUT_FLAG_LIST_DEF =
    [(''AUDIO_INPUT_FLAG_NONE'', AUDIO_INPUT_FLAG_NONE),
     (''AUDIO_INPUT_FLAG_FAST'', AUDIO_INPUT_FLAG_FAST),
     (''AUDIO_INPUT_FLAG_HW_HOTWORD'', AUDIO_INPUT_FLAG_HW_HOTWORD),
     (''AUDIO_INPUT_FLAG_RAW'', AUDIO_INPUT_FLAG_RAW),
     (''AUDIO_INPUT_FLAG_SYNC'', AUDIO_INPUT_FLAG_SYNC),
     (''AUDIO_INPUT_FLAG_MMAP_NOIRQ'', AUDIO_INPUT_FLAG_MMAP_NOIRQ),
     (''AUDIO_INPUT_FLAG_VOIP_TX'', AUDIO_INPUT_FLAG_VOIP_TX),
     (''AUDIO_INPUT_FLAG_HW_AV_SYNC'', AUDIO_INPUT_FLAG_HW_AV_SYNC),
     (''AUDIO_INPUT_FLAG_DIRECT'', AUDIO_INPUT_FLAG_DIRECT)]"

definition audio_input_flag_to_string :: "audio_input_flags_t \<Rightarrow> string" where [conv_defs]:
  "audio_input_flag_to_string t =
     AUDIO_DEFINE_STRINGIFY_CASE (AUDIO_INPUT_FLAG_LIST_DEF) t"

definition audio_input_flag_from_string :: "string \<Rightarrow> audio_input_flags_t \<Rightarrow> bool \<times> audio_input_flags_t" where [conv_defs]:
  "audio_input_flag_from_string s t =
     AUDIO_DEFINE_PARSE_CASE (AUDIO_INPUT_FLAG_LIST_DEF) s t"

subsection \<open>Formats\<close>

text \<open>
  The building blocks of the format values: a main class in the high byte, a sub-type in the low three bytes.
\<close>

definition AUDIO_FORMAT_MAIN_MASK :: audio_format_t where [enum_defs]:
  "AUDIO_FORMAT_MAIN_MASK = 0xFF000000"

definition AUDIO_FORMAT_SUB_MASK :: audio_format_t where [enum_defs]:
  "AUDIO_FORMAT_SUB_MASK = 0x00FFFFFF"

definition AUDIO_FORMAT_PCM_MAIN :: audio_format_t where [enum_defs]:
  "AUDIO_FORMAT_PCM_MAIN = 0"

definition AUDIO_FORMAT_PCM_SUB_16_BIT :: audio_format_t where [enum_defs]:
  "AUDIO_FORMAT_PCM_SUB_16_BIT = 0x1"

definition AUDIO_FORMAT_PCM_SUB_8_BIT :: audio_format_t where [enum_defs]:
  "AUDIO_FORMAT_PCM_SUB_8_BIT = 0x2"

definition AUDIO_FORMAT_PCM_SUB_32_BIT :: audio_format_t where [enum_defs]:
  "AUDIO_FORMAT_PCM_SUB_32_BIT = 0x3"

definition AUDIO_FORMAT_PCM_SUB_8_24_BIT :: audio_format_t where [enum_defs]:
  "AUDIO_FORMAT_PCM_SUB_8_24_BIT = 0x4"

definition AUDIO_FORMAT_PCM_SUB_FLOAT :: audio_format_t where [enum_defs]:
  "AUDIO_FORMAT_PCM_SUB_FLOAT = 0x5"

definition AUDIO_FORMAT_PCM_SUB_24_BIT_PACKED :: audio_format_t where [enum_defs]:
  "AUDIO_FORMAT_PCM_SUB_24_BIT_PACKED = 0x6"

definition AUDIO_FORMAT_AAC_SUB_MAIN :: audio_format_t where [enum_defs]:
  "AUDIO_FORMAT_AAC_SUB_MAIN = 0x1"

definition AUDIO_FORMAT_AAC_SUB_LC :: audio_format_t where [enum_defs]:
  "AUDIO_FORMAT_AAC_SUB_LC = 0x2"

definition AUDIO_FORMAT_AAC_SUB_SSR :: audio_format_t where [enum_defs]:
  "AUDIO_FORMAT_AAC_SUB_SSR = 0x4"

definition AUDIO_FORMAT_AAC_SUB_LTP :: audio_format_t where [enum_defs]:
  "AUDIO_FORMAT_AAC_SUB_LTP = 0x8"

definition AUDIO_FORMAT_AAC_SUB_HE_V1 :: audio_format_t where [enum_defs]:
  "AUDIO_FORMAT_AAC_SUB_HE_V1 = 0x10"

definition AUDIO_FORMAT_AAC_SUB_SCALABLE :: audio_format_t where [enum_defs]:
  "AUDIO_FORMAT_AAC_SUB_SCALABLE = 0x20"

definition AUDIO_FORMAT_AAC_SUB_ERLC :: audio_format_t where [enum_defs]:
  "AUDIO_FORMAT_AAC_SUB_ERLC = 0x40"

definition AUDIO_FORMAT_AAC_SUB_LD :: audio_format_t where [enum_defs]:
  "AUDIO_FORMAT_AAC_SUB_LD = 0x80"

definition AUDIO_FORMAT_AAC_SUB_HE_V2 :: audio_format_t where [enum_defs]:
  "AUDIO_FORMAT_AAC_SUB_HE_V2 = 0x100"

definition AUDIO_FORMAT_AAC_SUB_ELD :: audio_format_t where [enum_defs]:
  "AUDIO_FORMAT_AAC_SUB_ELD = 0x200"

definition AUDIO_FORMAT_AAC_SUB_XHE :: audio_format_t where [enum_defs]:
  "AUDIO_FORMAT_AAC_SUB_XHE = 0x300"

definition AUDIO_FORMAT_E_AC3_SUB_JOC :: audio_format_t where [enum_defs]:
  "AUDIO_FORMAT_E_AC3_SUB_JOC = 0x1"

definition AUDIO_FORMAT_MAT_SUB_1_0 :: audio_format_t where [enum_defs]:
  "AUDIO_FORMAT_MAT_SUB_1_0 = 0x1"

definition AUDIO_FORMAT_MAT_SUB_2_0 :: audio_format_t where [enum_defs]:
  "AUDIO_FORMAT_MAT_SUB_2_0 = 0x2"

definition AUDIO_FORMAT_MAT_SUB_2_1 :: audio_format_t where [enum_defs]:
  "AUDIO_FORMAT_MAT_SUB_2_1 = 0x3"

definition AUDIO_FORMAT_MPEGH_SUB_BL_L3 :: audio_format_t where [enum_defs]:
  "AUDIO_FORMAT_MPEGH_SUB_BL_L3 = 0x13"

definition AUDIO_FORMAT_MPEGH_SUB_BL_L4 :: audio_format_t where [enum_defs]:
  "AUDIO_FORMAT_MPEGH_SUB_BL_L4 = 0x14"

definition AUDIO_FORMAT_MPEGH_SUB_LC_L3 :: audio_format_t where [enum_defs]:
  "AUDIO_FORMAT_MPEGH_SUB_LC_L3 = 0x23"

definition AUDIO_FORMAT_MPEGH_SUB_LC_L4 :: audio_format_t where [enum_defs]:
  "AUDIO_FORMAT_MPEGH_SUB_LC_L4 = 0x24"

definition AUDIO_FORMAT_DEFAULT :: audio_format_t where [enum_defs]:
  "AUDIO_FORMAT_DEFAULT = AUDIO_FORMAT_PCM_MAIN"

definition AUDIO_FORMAT_PCM_16_BIT :: audio_format_t where [enum_defs]:
  "AUDIO_FORMAT_PCM_16_BIT = AUDIO_FORMAT_PCM_MAIN OR AUDIO_FORMAT_PCM_SUB_16_BIT"

definition AUDIO_FORMAT_PCM_8_BIT :: audio_format_t where [enum_defs]:
  "AUDIO_FORMAT_PCM_8_BIT = AUDIO_FORMAT_PCM_MAIN OR AUDIO_FORMAT_PCM_SUB_8_BIT"

definition AUDIO_FORMAT_PCM_32_BIT :: audio_format_t where [enum_defs]:
  "AUDIO_FORMAT_PCM_32_BIT = AUDIO_FORMAT_PCM_MAIN OR AUDIO_FORMAT_PCM_SUB_32_BIT"

definition AUDIO_FORMAT_PCM_8_24_BIT :: audio_format_t where [enum_defs]:
  "AUDIO_FORMAT_PCM_8_24_BIT = AUDIO_FORMAT_PCM_MAIN OR AUDIO_FORMAT_PCM_SUB_8_24_BIT"

definition AUDIO_FORMAT_PCM_FLOAT :: audio_format_t where [enum_defs]:
  "AUDIO_FORMAT_PCM_FLOAT = AUDIO_FORMAT_PCM_MAIN OR AUDIO_FORMAT_PCM_SUB_FLOAT"

definition AUDIO_FORMAT_PCM_24_BIT_PACKED :: audio_format_t where [enum_defs]:
  "AUDIO_FORMAT_PCM_24_BIT_PACKED = AUDIO_FORMAT_PCM_MAIN OR AUDIO_FORMAT_PCM_SUB_24_BIT_PACKED"

definition AUDIO_FORMAT_MP3 :: audio_format_t where [enum_defs]:
  "AUDIO_FORMAT_MP3 = 0x01000000"

definition AUDIO_FORMAT_AMR_NB :: audio_format_t where [enum_defs]:
  "AUDIO_FORMAT_AMR_NB = 0x02000000"

definition AUDIO_FORMAT_AMR_WB :: audio_format_t where [enum_defs]:
  "AUDIO_FORMAT_AMR_WB = 0x03000000"

definition AUDIO_FORMAT_AAC :: audio_format_t where [enum_defs]:
  "AUDIO_FORMAT_AAC = 0x04000000"

definition AUDIO_FORMAT_AAC_MAIN :: audio_format_t where [enum_defs]:
  "AUDIO_FORMAT_AAC_MAIN = AUDIO_FORMAT_AAC OR AUDIO_FORMAT_AAC_SUB_MAIN"

definition AUDIO_FORMAT_AAC_LC :: audio_format_t where [enum_defs]:
  "AUDIO_FORMAT_AAC_LC = AUDIO_FORMAT_AAC OR AUDIO_FORMAT_AAC_SUB_LC"

definition AUDIO_FORMAT_AAC_SSR :: audio_format_t where [enum_defs]:
  "AUDIO_FORMAT_AAC_SSR = AUDIO_FORMAT_AAC OR AUDIO_FORMAT_AAC_SUB_SSR"

definition AUDIO_FORMAT_AAC_LTP :: audio_format_t where [enum_defs]:
  "AUDIO_FORMAT_AAC_LTP = AUDIO_FORMAT_AAC OR AUDIO_FORMAT_AAC_SUB_LTP"

definition AUDIO_FORMAT_AAC_HE_V1 :: audio_format_t where [enum_defs]:
  "AUDIO_FORMAT_AAC_HE_V1 = AUDIO_FORMAT_AAC OR AUDIO_FORMAT_AAC_SUB_HE_V1"

definition AUDIO_FORMAT_AAC_SCALABLE :: audio_format_t where [enum_defs]:
  "AUDIO_FORMAT_AAC_SCALABLE = AUDIO_FORMAT_AAC OR AUDIO_FORMAT_AAC_SUB_SCALABLE"

definition AUDIO_FORMAT_AAC_ERLC :: audio_format_t where [enum_defs]:
  "AUDIO_FORMAT_AAC_ERLC = AUDIO_FORMAT_AAC OR AUDIO_FORMAT_AAC_SUB_ERLC"

definition AUDIO_FORMAT_AAC_LD :: audio_format_t where [enum_defs]:
  "AUDIO_FORMAT_AAC_LD = AUDIO_FORMAT_AAC OR AUDIO_FORMAT_AAC_SUB_LD"

definition AUDIO_FORMAT_AAC_HE_V2 :: audio_format_t where [enum_defs]:
  "AUDIO_FORMAT_AAC_HE_V2 = AUDIO_FORMAT_AAC OR AUDIO_FORMAT_AAC_SUB_HE_V2"

definition AUDIO_FORMAT_AAC_ELD :: audio_format_t where [enum_defs]:
  "AUDIO_FORMAT_AAC_ELD = AUDIO_FORMAT_AAC OR AUDIO_FORMAT_AAC_SUB_ELD"

definition AUDIO_FORMAT_AAC_XHE :: audio_format_t where [enum_defs]:
  "AUDIO_FORMAT_AAC_XHE = AUDIO_FORMAT_AAC OR AUDIO_FORMAT_AAC_SUB_XHE"

definition AUDIO_FORMAT_HE_AAC_V1 :: audio_format_t where [enum_defs]:
  "AUDIO_FORMAT_HE_AAC_V1 = 0x05000000"

definition AUDIO_FORMAT_HE_AAC_V2 :: audio_format_t where [enum_defs]:
  "AUDIO_FORMAT_HE_AAC_V2 = 0x06000000"

definition AUDIO_FORMAT_VORBIS :: audio_format_t where [enum_defs]:
  "AUDIO_FORMAT_VORBIS = 0x07000000"

definition AUDIO_FORMAT_OPUS :: audio_format_t where [enum_defs]:
  "AUDIO_FORMAT_OPUS = 0x08000000"

definition AUDIO_FORMAT_AC3 :: audio_format_t where [enum_defs]:
  "AUDIO_FORMAT_AC3 = 0x09000000"

definition AUDIO_FORMAT_E_AC3 :: audio_format_t where [enum_defs]:
  "AUDIO_FORMAT_E_AC3 = 0x0A000000"

definition AUDIO_FORMAT_E_AC3_JOC :: audio_format_t where [enum_defs]:
  "AUDIO_FORMAT_E_AC3_JOC = AUDIO_FORMAT_E_AC3 OR AUDIO_FORMAT_E_AC3_SUB_JOC"

definition AUDIO_FORMAT_DTS :: audio_format_t where [enum_defs]:
  "AUDIO_FORMAT_DTS = 0x0B000000"

definition AUDIO_FORMAT_DTS_HD :: audio_format_t where [enum_defs]:
  "AUDIO_FORMAT_DTS_HD = 0x0C000000"

definition AUDIO_FORMAT_IEC61937 :: audio_format_t where [enum_defs]:
  "AUDIO_FORMAT_IEC61937 = 0x0D000000"

definition AUDIO_FORMAT_DOLBY_TRUEHD :: audio_format_t where [enum_defs]:
  "AUDIO_FORMAT_DOLBY_TRUEHD = 0x0E000000"

definition AUDIO_FORMAT_EVRC :: audio_format_t where [enum_defs]:
  "AUDIO_FORMAT_EVRC = 0x10000000"

definition AUDIO_FORMAT_EVRCB :: audio_format_t where [enum_defs]:
  "AUDIO_FORMAT_EVRCB = 0x11000000"

definition AUDIO_FORMAT_EVRCWB :: audio_format_t where [enum_defs]:
  "AUDIO_FORMAT_EVRCWB = 0x12000000"

definition AUDIO_FORMAT_EVRCNW :: audio_format_t where [enum_defs]:
  "AUDIO_FORMAT_EVRCNW = 0x13000000"

definition AUDIO_FORMAT_AAC_ADIF :: audio_format_t where [enum_defs]:
  "AUDIO_FORMAT_AAC_ADIF = 0x14000000"

definition AUDIO_FORMAT_WMA :: audio_format_t where [enum_defs]:
  "AUDIO_FORMAT_WMA = 0x15000000"

definition AUDIO_FORMAT_WMA_PRO :: audio_format_t where [enum_defs]:
  "AUDIO_FORMAT_WMA_PRO = 0x16000000"

definition AUDIO_FORMAT_AMR_WB_PLUS :: audio_format_t where [enum_defs]:
  "AUDIO_FORMAT_AMR_WB_PLUS = 0x17000000"

definition AUDIO_FORMAT_MP2 :: audio_format_t where [enum_defs]:
  "AUDIO_FORMAT_MP2 = 0x18000000"

definition AUDIO_FORMAT_QCELP :: audio_format_t where [enum_defs]:
  "AUDIO_FORMAT_QCELP = 0x19000000"

definition AUDIO_FORMAT_DSD :: audio_format_t where [enum_defs]:
  "AUDIO_FORMAT_DSD = 0x1A000000"

definition AUDIO_FORMAT_FLAC :: audio_format_t where [enum_defs]:
  "AUDIO_FORMAT_FLAC = 0x1B000000"

definition AUDIO_FORMAT_ALAC :: audio_format_t where [enum_defs]:
  "AUDIO_FORMAT_ALAC = 0x1C000000"

definition AUDIO_FORMAT_APE :: audio_format_t where [enum_defs]:
  "AUDIO_FORMAT_APE = 0x1D000000"

definition AUDIO_FORMAT_AAC_ADTS :: audio_format_t where [enum_defs]:
  "AUDIO_FORMAT_AAC_ADTS = 0x1E000000"

definition AUDIO_FORMAT_AAC_ADTS_MAIN :: audio_format_t where [enum_defs]:
  "AUDIO_FORMAT_AAC_ADTS_MAIN = AUDIO_FORMAT_AAC_ADTS OR AUDIO_FORMAT_AAC_SUB_MAIN"

definition AUDIO_FORMAT_AAC_ADTS_LC :: audio_format_t where [enum_defs]:
  "AUDIO_FORMAT_AAC_ADTS_LC = AUDIO_FORMAT_AAC_ADTS OR AUDIO_FORMAT_AAC_SUB_LC"

definition AUDIO_FORMAT_AAC_ADTS_SSR :: audio_format_t where [enum_defs]:
  "AUDIO_FORMAT_AAC_ADTS_SSR = AUDIO_FORMAT_AAC_ADTS OR AUDIO_FORMAT_AAC_SUB_SSR"

definition AUDIO_FORMAT_AAC_ADTS_LTP :: audio_format_t where [enum_defs]:
  "AUDIO_FORMAT_AAC_ADTS_LTP = AUDIO_FORMAT_AAC_ADTS OR AUDIO_FORMAT_AAC_SUB_LTP"

definition AUDIO_FORMAT_AAC_ADTS_HE_V1 :: audio_format_t where [enum_defs]:
  "AUDIO_FORMAT_AAC_ADTS_HE_V1 = AUDIO_FORMAT_AAC_ADTS OR AUDIO_FORMAT_AAC_SUB_HE_V1"

definition AUDIO_FORMAT_AAC_ADTS_SCALABLE :: audio_format_t where [enum_defs]:
  "AUDIO_FORMAT_AAC_ADTS_SCALABLE = AUDIO_FORMAT_AAC_ADTS OR AUDIO_FORMAT_AAC_SUB_SCALABLE"

definition AUDIO_FORMAT_AAC_ADTS_ERLC :: audio_format_t where [enum_defs]:
  "AUDIO_FORMAT_AAC_ADTS_ERLC = AUDIO_FORMAT_AAC_ADTS OR AUDIO_FORMAT_AAC_SUB_ERLC"

definition AUDIO_FORMAT_AAC_ADTS_LD :: audio_format_t where [enum_defs]:
  "AUDIO_FORMAT_AAC_ADTS_LD = AUDIO_FORMAT_AAC_ADTS OR AUDIO_FORMAT_AAC_SUB_LD"

definition AUDIO_FORMAT_AAC_ADTS_HE_V2 :: audio_format_t where [enum_defs]:
  "AUDIO_FORMAT_AAC_ADTS_HE_V2 = AUDIO_FORMAT_AAC_ADTS OR AUDIO_FORMAT_AAC_SUB_HE_V2"

definition AUDIO_FORMAT_AAC_ADTS_ELD :: audio_format_t where [enum_defs]:
  "AUDIO_FORMAT_AAC_ADTS_ELD = AUDIO_FORMAT_AAC_ADTS OR AUDIO_FORMAT_AAC_SUB_ELD"

definition AUDIO_FORMAT_AAC_ADTS_XHE :: audio_format_t where [enum_defs]:
  "AUDIO_FORMAT_AAC_ADTS_XHE = AUDIO_FORMAT_AAC_ADTS OR AUDIO_FORMAT_AAC_SUB_XHE"

definition AUDIO_FORMAT_SBC :: audio_format_t where [enum_defs]:
  "AUDIO_FORMAT_SBC = 0x1F000000"

definition AUDIO_FORMAT_APTX :: audio_format_t where [enum_defs]:
  "AUDIO_FORMAT_APTX = 0x20000000"

definition AUDIO_FORMAT_APTX_HD :: audio_format_t where [enum_defs]:
  "AUDIO_FORMAT_APTX_HD = 0x21000000"

definition AUDIO_FORMAT_AC4 :: audio_format_t where [enum_defs]:
  "AUDIO_FORMAT_AC4 = 0x22000000"

definition AUDIO_FORMAT_LDAC :: audio_format_t where [enum_defs]:
  "AUDIO_FORMAT_LDAC = 0x23000000"

definition AUDIO_FORMAT_MAT :: audio_format_t where [enum_defs]:
  "AUDIO_FORMAT_MAT = 0x24000000"

definition AUDIO_FORMAT_MAT_1_0 :: audio_format_t where [enum_defs]:
  "AUDIO_FORMAT_MAT_1_0 = AUDIO_FORMAT_MAT OR AUDIO_FORMAT_MAT_SUB_1_0"

definition AUDIO_FORMAT_MAT_2_0 :: audio_format_t where [enum_defs]:
  "AUDIO_FORMAT_MAT_2_0 = AUDIO_FORMAT_MAT OR AUDIO_FORMAT_MAT_SUB_2_0"

definition AUDIO_FORMAT_MAT_2_1 :: audio_format_t where [enum_defs]:
  "AUDIO_FORMAT_MAT_2_1 = AUDIO_FORMAT_MAT OR AUDIO_FORMAT_MAT_SUB_2_1"

definition AUDIO_FORMAT_AAC_LATM :: audio_format_t where [enum_defs]:
  "AUDIO_FORMAT_AAC_LATM = 0x25000000"

definition AUDIO_FORMAT_AAC_LATM_LC :: audio_format_t where [enum_defs]:
  "AUDIO_FORMAT_AAC_LATM_LC = AUDIO_FORMAT_AAC_LATM OR AUDIO_FORMAT_AAC_SUB_LC"

definition AUDIO_FORMAT_AAC_LATM_HE_V1 :: audio_format_t where [enum_defs]:
  "AUDIO_FORMAT_AAC_LATM_HE_V1 = AUDIO_FORMAT_AAC_LATM OR AUDIO_FORMAT_AAC_SUB_HE_V1"

definition AUDIO_FORMAT_AAC_LATM_HE_V2 :: audio_format_t where [enum_defs]:
  "AUDIO_FORMAT_AAC_LATM_HE_V2 = AUDIO_FORMAT_AAC_LATM OR AUDIO_FORMAT_AAC_SUB_HE_V2"

definition AUDIO_FORMAT_CELT :: audio_format_t where [enum_defs]:
  "AUDIO_FORMAT_CELT = 0x26000000"

definition AUDIO_FORMAT_APTX_ADAPTIVE :: audio_format_t where [enum_defs]:
  "AUDIO_FORMAT_APTX_ADAPTIVE = 0x27000000"

definition AUDIO_FORMAT_LHDC :: audio_format_t where [enum_defs]:
  "AUDIO_FORMAT_LHDC = 0x28000000"

definition AUDIO_FORMAT_LHDC_LL :: audio_format_t where [enum_defs]:
  "AUDIO_FORMAT_LHDC_LL = 0x29000000"

definition AUDIO_FORMAT_APTX_TWSP :: audio_format_t where [enum_defs]:
  "AUDIO_FORMAT_APTX_TWSP = 0x2A000000"

definition AUDIO_FORMAT_LC3 :: audio_format_t where [enum_defs]:
  "AUDIO_FORMAT_LC3 = 0x2B000000"

definition AUDIO_FORMAT_MPEGH :: audio_format_t where [enum_defs]:
  "AUDIO_FORMAT_MPEGH = 0x2C000000"

definition AUDIO_FORMAT_MPEGH_BL_L3 :: audio_format_t where [enum_defs]:
  "AUDIO_FORMAT_MPEGH_BL_L3 = AUDIO_FORMAT_MPEGH OR AUDIO_FORMAT_MPEGH_SUB_BL_L3"

definition AUDIO_FORMAT_MPEGH_BL_L4 :: audio_format_t where [enum_defs]:
  "AUDIO_FORMAT_MPEGH_BL_L4 = AUDIO_FORMAT_MPEGH OR AUDIO_FORMAT_MPEGH_SUB_BL_L4"

definition AUDIO_FORMAT_MPEGH_LC_L3 :: audio_format_t where [enum_defs]:
  "AUDIO_FORMAT_MPEGH_LC_L3 = AUDIO_FORMAT_MPEGH OR AUDIO_FORMAT_MPEGH_SUB_LC_L3"

definition AUDIO_FORMAT_MPEGH_LC_L4 :: audio_format_t where [enum_defs]:
  "AUDIO_FORMAT_MPEGH_LC_L4 = AUDIO_FORMAT_MPEGH OR AUDIO_FORMAT_MPEGH_SUB_LC_L4"

text \<open>
  These values are part of the enum, but they are not valid formats and are in no list.
\<close>

definition AUDIO_FORMAT_INVALID :: audio_format_t where [enum_defs]:
  "AUDIO_FORMAT_INVALID = 0xFFFFFFFF"

definition AUDIO_FORMAT_PCM :: audio_format_t where [enum_defs]:
  "AUDIO_FORMAT_PCM = AUDIO_FORMAT_PCM_MAIN"

definition AUDIO_FORMAT_LIST_DEF :: "(string \<times> audio_format_t) list" where [list_defs]:
  "AUDIO_FORMAT_LIST_DEF =
    [(''AUDIO_FORMAT_DEFAULT'', AUDIO_FORMAT_DEFAULT),
     (''AUDIO_FORMAT_PCM_16_BIT'', AUDIO_FORMAT_PCM_16_BIT),
     (''AUDIO_FORMAT_PCM_8_BIT'', AUDIO_FORMAT_PCM_8_BIT),
     (''AUDIO_FORMAT_PCM_32_BIT'', AUDIO_FORMAT_PCM_32_BIT),
     (''AUDIO_FORMAT_PCM_8_24_BIT'', AUDIO_FORMAT_PCM_8_24_BIT),
     (''AUDIO_FORMAT_PCM_FLOAT'', AUDIO_FORMAT_PCM_FLOAT),
     (''AUDIO_FORMAT_PCM_24_BIT_PACKED'', AUDIO_FORMAT_PCM_24_BIT_PACKED),
     (''AUDIO_FORMAT_MP3'', AUDIO_FORMAT_MP3),
     (''AUDIO_FORMAT_AMR_NB'', AUDIO_FORMAT_AMR_NB),
     (''AUDIO_FORMAT_AMR_WB'', AUDIO_FORMAT_AMR_WB),
     (''AUDIO_FORMAT_AAC'', AUDIO_FORMAT_AAC),
     (''AUDIO_FORMAT_AAC_MAIN'', AUDIO_FORMAT_AAC_MAIN),
     (''AUDIO_FORMAT_AAC_LC'', AUDIO_FORMAT_AAC_LC),
     (''AUDIO_FORMAT_AAC_SSR'', AUDIO_FORMAT_AAC_SSR),
     (''AUDIO_FORMAT_AAC_LTP'', AUDIO_FORMAT_AAC_LTP),
     (''AUDIO_FORMAT_AAC_HE_V1'', AUDIO_FORMAT_AAC_HE_V1),
     (''AUDIO_FORMAT_AAC_SCALABLE'', AUDIO_FORMAT_AAC_SCALABLE),
     (''AUDIO_FORMAT_AAC_ERLC'', AUDIO_FORMAT_AAC_ERLC),
     (''AUDIO_FORMAT_AAC_LD'', AUDIO_FORMAT_AAC_LD),
     (''AUDIO_FORMAT_AAC_HE_V2'', AUDIO_FORMAT_AAC_HE_V2),
     (''AUDIO_FORMAT_AAC_ELD'', AUDIO_FORMAT_AAC_ELD),
     (''AUDIO_FORMAT_AAC_XHE'', AUDIO_FORMAT_AAC_XHE),
     (''AUDIO_FORMAT_HE_AAC_V1'', AUDIO_FORMAT_HE_AAC_V1),
     (''AUDIO_FORMAT_HE_AAC_V2'', AUDIO_FORMAT_HE_AAC_V2),
     (''AUDIO_FORMAT_VORBIS'', AUDIO_FORMAT_VORBIS),
     (''AUDIO_FORMAT_OPUS'', AUDIO_FORMAT_OPUS),
     (''AUDIO_FORMAT_AC3'', AUDIO_FORMAT_AC3),
     (''AUDIO_FORMAT_E_AC3'', AUDIO_FORMAT_E_AC3),
     (''AUDIO_FORMAT_E_AC3_JOC'', AUDIO_FORMAT_E_AC3_JOC),
     (''AUDIO_FORMAT_DTS'', AUDIO_FORMAT_DTS),
     (''AUDIO_FORMAT_DTS_HD'', AUDIO_FORMAT_DTS_HD),
     (''AUDIO_FORMAT_IEC61937'', AUDIO_FORMAT_IEC61937),
     (''AUDIO_FORMAT_DOLBY_TRUEHD'', AUDIO_FORMAT_DOLBY_TRUEHD),
     (''AUDIO_FORMAT_EVRC'', AUDIO_FORMAT_EVRC),
     (''AUDIO_FORMAT_EVRCB'', AUDIO_FORMAT_EVRCB),
     (''AUDIO_FORMAT_EVRCWB'', AUDIO_FORMAT_EVRCWB),
     (''AUDIO_FORMAT_EVRCNW'', AUDIO_FORMAT_EVRCNW),
     (''AUDIO_FORMAT_AAC_ADIF'', AUDIO_FORMAT_AAC_ADIF),
     (''AUDIO_FORMAT_WMA'', AUDIO_FORMAT_WMA),
     (''AUDIO_FORMAT_WMA_PRO'', AUDIO_FORMAT_WMA_PRO),
     (''AUDIO_FORMAT_AMR_WB_PLUS'', AUDIO_FORMAT_AMR_WB_PLUS),
     (''AUDIO_FORMAT_MP2'', AUDIO_FORMAT_MP2),
     (''AUDIO_FORMAT_QCELP'', AUDIO_FORMAT_QCELP),
     (''AUDIO_FORMAT_DSD'', AUDIO_FORMAT_DSD),
     (''AUDIO_FORMAT_FLAC'', AUDIO_FORMAT_FLAC),
     (''AUDIO_FORMAT_ALAC'', AUDIO_FORMAT_ALAC),
     (''AUDIO_FORMAT_APE'', AUDIO_FORMAT_APE),
     (''AUDIO_FORMAT_AAC_ADTS'', AUDIO_FORMAT_AAC_ADTS),
     (''AUDIO_FORMAT_AAC_ADTS_MAIN'', AUDIO_FORMAT_AAC_ADTS_MAIN),
     (''AUDIO_FORMAT_AAC_ADTS_LC'', AUDIO_FORMAT_AAC_ADTS_LC),
     (''AUDIO_FORMAT_AAC_ADTS_SSR'', AUDIO_FORMAT_AAC_ADTS_SSR),
     (''AUDIO_FORMAT_AAC_ADTS_LTP'', AUDIO_FORMAT_AAC_ADTS_LTP),
     (''AUDIO_FORMAT_AAC_ADTS_HE_V1'', AUDIO_FORMAT_AAC_ADTS_HE_V1),
     (''AUDIO_FORMAT_AAC_ADTS_SCALABLE'', AUDIO_FORMAT_AAC_ADTS_SCALABLE),
     (''AUDIO_FORMAT_AAC_ADTS_ERLC'', AUDIO_FORMAT_AAC_ADTS_ERLC),
     (''AUDIO_FORMAT_AAC_ADTS_LD'', AUDIO_FORMAT_AAC_ADTS_LD),
     (''AUDIO_FORMAT_AAC_ADTS_HE_V2'', AUDIO_FORMAT_AAC_ADTS_HE_V2),
     (''AUDIO_FORMAT_AAC_ADTS_ELD'', AUDIO_FORMAT_AAC_ADTS_ELD),
     (''AUDIO_FORMAT_AAC_ADTS_XHE'', AUDIO_FORMAT_AAC_ADTS_XHE),
     (''AUDIO_FORMAT_SBC'', AUDIO_FORMAT_SBC),
     (''AUDIO_FORMAT_APTX'', AUDIO_FORMAT_APTX),
     (''AUDIO_FORMAT_APTX_HD'', AUDIO_FORMAT_APTX_HD),
     (''AUDIO_FORMAT_AC4'', AUDIO_FORMAT_AC4),
     (''AUDIO_FORMAT_LDAC'', AUDIO_FORMAT_LDAC),
     (''AUDIO_FORMAT_MAT'', AUDIO_FORMAT_MAT),
     (''AUDIO_FORMAT_MAT_1_0'', AUDIO_FORMAT_MAT_1_0),
     (''AUDIO_FORMAT_MAT_2_0'', AUDIO_FORMAT_MAT_2_0),
     (''AUDIO_FORMAT_MAT_2_1'', AUDIO_FORMAT_MAT_2_1),
     (''AUDIO_FORMAT_AAC_LATM'', AUDIO_FORMAT_AAC_LATM),
     (''AUDIO_FORMAT_AAC_LATM_LC'', AUDIO_FORMAT_AAC_LATM_LC),
     (''AUDIO_FORMAT_AAC_LATM_HE_V1'', AUDIO_FORMAT_AAC_LATM_HE_V1),
     (''AUDIO_FORMAT_AAC_LATM_HE_V2'', AUDIO_FORMAT_AAC_LATM_HE_V2),
     (''AUDIO_FORMAT_CELT'', AUDIO_FORMAT_CELT),
     (''AUDIO_FORMAT_APTX_ADAPTIVE'', AUDIO_FORMAT_APTX_ADAPTIVE),
     (''AUDIO_FORMAT_LHDC'', AUDIO_FORMAT_LHDC),
     (''AUDIO_FORMAT_LHDC_LL'', AUDIO_FORMAT_LHDC_LL),
     (''AUDIO_FORMAT_APTX_TWSP'', AUDIO_FORMAT_APTX_TWSP),
     (''AUDIO_FORMAT_LC3'', AUDIO_FORMAT_LC3),
     (''AUDIO_FORMAT_MPEGH'', AUDIO_FORMAT_MPEGH),
     (''AUDIO_FORMAT_MPEGH_BL_L3'', AUDIO_FORMAT_MPEGH_BL_L3),
     (''AUDIO_FORMAT_MPEGH_BL_L4'', AUDIO_FORMAT_MPEGH_BL_L4),
     (''AUDIO_FORMAT_MPEGH_LC_L3'', AUDIO_FORMAT_MPEGH_LC_L3),
     (''AUDIO_FORMAT_MPEGH_LC_L4'', AUDIO_FORMAT_MPEGH_LC_L4)]"

definition audio_format_to_string :: "audio_format_t \<Rightarrow> string" where [conv_defs]:
  "audio_format_to_string t =
     AUDIO_DEFINE_STRINGIFY_CASE (AUDIO_FORMAT_LIST_DEF) t"

definition audio_format_from_string :: "string \<Rightarrow> audio_format_t \<Rightarrow> bool \<times> audio_format_t" where [conv_defs]:
  "audio_format_from_string s t =
     AUDIO_DEFINE_PARSE_CASE (AUDIO_FORMAT_LIST_DEF) s t"

subsection \<open>Gain mode\<close>

definition AUDIO_GAIN_MODE_JOINT :: audio_gain_mode_t where [enum_defs]:
  "AUDIO_GAIN_MODE_JOINT = 1"

definition AUDIO_GAIN_MODE_CHANNELS :: audio_gain_mode_t where [enum_defs]:
  "AUDIO_GAIN_MODE_CHANNELS = 2"

definition AUDIO_GAIN_MODE_RAMP :: audio_gain_mode_t where [enum_defs]:
  "AUDIO_GAIN_MODE_RAMP = 4"

definition AUDIO_GAIN_MODE_LIST_DEF :: "(string \<times> audio_gain_mode_t) list" where [list_defs]:
  "AUDIO_GAIN_MODE_LIST_DEF =
    [(''AUDIO_GAIN_MODE_JOINT'', AUDIO_GAIN_MODE_JOINT),
     (''AUDIO_GAIN_MODE_CHANNELS'', AUDIO_GAIN_MODE_CHANNELS),
     (''AUDIO_GAIN_MODE_RAMP'', AUDIO_GAIN_MODE_RAMP)]"

definition audio_gain_mode_to_string :: "audio_gain_mode_t \<Rightarrow> string" where [conv_defs]:
  "audio_gain_mode_to_string t =
     AUDIO_DEFINE_STRINGIFY_CASE (AUDIO_GAIN_MODE_LIST_DEF) t"

definition audio_gain_mode_from_string :: "string \<Rightarrow> audio_gain_mode_t \<Rightarrow> bool \<times> audio_gain_mode_t" where [conv_defs]:
  "audio_gain_mode_from_string s t =
     AUDIO_DEFINE_PARSE_CASE (AUDIO_GAIN_MODE_LIST_DEF) s t"

subsection \<open>Sources\<close>

definition AUDIO_SOURCE_DEFAULT :: audio_source_t where [enum_defs]:
  "AUDIO_SOURCE_DEFAULT = 0"

definition AUDIO_SOURCE_MIC :: audio_source_t where [enum_defs]:
  "AUDIO_SOURCE_MIC = 1"

definition AUDIO_SOURCE_VOICE_UPLINK :: audio_source_t where [enum_defs]:
  "AUDIO_SOURCE_VOICE_UPLINK = 2"

definition AUDIO_SOURCE_VOICE_DOWNLINK :: audio_source_t where [enum_defs]:
  "AUDIO_SOURCE_VOICE_DOWNLINK = 3"

definition AUDIO_SOURCE_VOICE_CALL :: audio_source_t where [enum_defs]:
  "AUDIO_SOURCE_VOICE_CALL = 4"

definition AUDIO_SOURCE_CAMCORDER :: audio_source_t where [enum_defs]:
  "AUDIO_SOURCE_CAMCORDER = 5"

definition AUDIO_SOURCE_VOICE_RECOGNITION :: audio_source_t where [enum_defs]:
  "AUDIO_SOURCE_VOICE_RECOGNITION = 6"

definition AUDIO_SOURCE_VOICE_COMMUNICATION :: audio_source_t where [enum_defs]:
  "AUDIO_SOURCE_VOICE_COMMUNICATION = 7"

definition AUDIO_SOURCE_REMOTE_SUBMIX :: audio_source_t where [enum_defs]:
  "AUDIO_SOURCE_REMOTE_SUBMIX = 8"

definition AUDIO_SOURCE_UNPROCESSED :: audio_source_t where [enum_defs]:
  "AUDIO_SOURCE_UNPROCESSED = 9"

definition AUDIO_SOURCE_VOICE_PERFORMANCE :: audio_source_t where [enum_defs]:
  "AUDIO_SOURCE_VOICE_PERFORMANCE = 10"

definition AUDIO_SOURCE_ECHO_REFERENCE :: audio_source_t where [enum_defs]:
  "AUDIO_SOURCE_ECHO_REFERENCE = 1997"

definition AUDIO_SOURCE_FM_TUNER :: audio_source_t where [enum_defs]:
  "AUDIO_SOURCE_FM_TUNER = 1998"

definition AUDIO_SOURCE_HOTWORD :: audio_source_t where [enum_defs]:
  "AUDIO_SOURCE_HOTWORD = 1999"

definition AUDIO_SOURCE_INVALID :: audio_source_t where [enum_defs]:
  "AUDIO_SOURCE_INVALID = -1"

definition AUDIO_SOURCE_LIST_NO_SYS_DEF :: "(string \<times> audio_source_t) list" where [list_defs]:
  "AUDIO_SOURCE_LIST_NO_SYS_DEF =
    [(''AUDIO_SOURCE_DEFAULT'', AUDIO_SOURCE_DEFAULT),
     (''AUDIO_SOURCE_MIC'', AUDIO_SOURCE_MIC),
     (''AUDIO_SOURCE_VOICE_UPLINK'', AUDIO_SOURCE_VOICE_UPLINK),
     (''AUDIO_SOURCE_VOICE_DOWNLINK'', AUDIO_SOURCE_VOICE_DOWNLINK),
     (''AUDIO_SOURCE_VOICE_CALL'', AUDIO_SOURCE_VOICE_CALL),
     (''AUDIO_SOURCE_CAMCORDER'', AUDIO_SOURCE_CAMCORDER),
     (''AUDIO_SOURCE_VOICE_RECOGNITION'', AUDIO_SOURCE_VOICE_RECOGNITION),
     (''AUDIO_SOURCE_VOICE_COMMUNICATION'', AUDIO_SOURCE_VOICE_COMMUNICATION),
     (''AUDIO_SOURCE_REMOTE_SUBMIX'', AUDIO_SOURCE_REMOTE_SUBMIX),
     (''AUDIO_SOURCE_UNPROCESSED'', AUDIO_SOURCE_UNPROCESSED),
     (''AUDIO_SOURCE_VOICE_PERFORMANCE'', AUDIO_SOURCE_VOICE_PERFORMANCE),
     (''AUDIO_SOURCE_ECHO_REFERENCE'', AUDIO_SOURCE_ECHO_REFERENCE),
     (''AUDIO_SOURCE_FM_TUNER'', AUDIO_SOURCE_FM_TUNER),
     (''AUDIO_SOURCE_HOTWORD'', AUDIO_SOURCE_HOTWORD)]"

text \<open>
  With \<open>AUDIO_NO_SYSTEM_DECLARATIONS\<close> defined (vendor code) the list is the
  \<open>NO_SYS\<close> list; without it (framework code) the framework-only rows follow. The
  argument says whether the macro is defined.
\<close>

definition AUDIO_SOURCE_LIST_DEF :: "bool \<Rightarrow> (string \<times> audio_source_t) list" where [list_defs]:
  "AUDIO_SOURCE_LIST_DEF no_system_declarations =
    (if no_system_declarations then AUDIO_SOURCE_LIST_NO_SYS_DEF
     else AUDIO_SOURCE_LIST_NO_SYS_DEF @
       [(''AUDIO_SOURCE_INVALID'', AUDIO_SOURCE_INVALID)])"

definition audio_source_to_string :: "bool \<Rightarrow> audio_source_t \<Rightarrow> string" where [conv_defs]:
  "audio_source_to_string no_system_declarations t =
     AUDIO_DEFINE_STRINGIFY_CASE (AUDIO_SOURCE_LIST_DEF no_system_declarations) t"

text \<open>
  String to enum conversion is not generated for the framework-only values: the
  parser is built from the \<open>NO_SYS\<close> list whether the macro is defined or not.
\<close>

definition audio_source_from_string :: "string \<Rightarrow> audio_source_t \<Rightarrow> bool \<times> audio_source_t" where [conv_defs]:
  "audio_source_from_string s t =
     AUDIO_DEFINE_PARSE_CASE (AUDIO_SOURCE_LIST_NO_SYS_DEF) s t"

subsection \<open>Stream types\<close>

definition AUDIO_STREAM_VOICE_CALL :: audio_stream_type_t where [enum_defs]:
  "AUDIO_STREAM_VOICE_CALL = 0"

definition AUDIO_STREAM_SYSTEM :: audio_stream_type_t where [enum_defs]:
  "AUDIO_STREAM_SYSTEM = 1"

definition AUDIO_STREAM_RING :: audio_stream_type_t where [enum_defs]:
  "AUDIO_STREAM_RING = 2"

definition AUDIO_STREAM_MUSIC :: audio_stream_type_t where [enum_defs]:
  "AUDIO_STREAM_MUSIC = 3"

definition AUDIO_STREAM_ALARM :: audio_stream_type_t where [enum_defs]:
  "AUDIO_STREAM_ALARM = 4"

definition AUDIO_STREAM_NOTIFICATION :: audio_stream_type_t where [enum_defs]:
  "AUDIO_STREAM_NOTIFICATION = 5"

definition AUDIO_STREAM_BLUETOOTH_SCO :: audio_stream_type_t where [enum_defs]:
  "AUDIO_STREAM_BLUETOOTH_SCO = 6"

definition AUDIO_STREAM_ENFORCED_AUDIBLE :: audio_stream_type_t where [enum_defs]:
  "AUDIO_STREAM_ENFORCED_AUDIBLE = 7"

definition AUDIO_STREAM_DTMF :: audio_stream_type_t where [enum_defs]:
  "AUDIO_STREAM_DTMF = 8"

definition AUDIO_STREAM_TTS :: audio_stream_type_t where [enum_defs]:
  "AUDIO_STREAM_TTS = 9"

definition AUDIO_STREAM_ACCESSIBILITY :: audio_stream_type_t where [enum_defs]:
  "AUDIO_STREAM_ACCESSIBILITY = 10"

definition AUDIO_STREAM_ASSISTANT :: audio_stream_type_t where [enum_defs]:
  "AUDIO_STREAM_ASSISTANT = 11"

definition AUDIO_STREAM_REROUTING :: audio_stream_type_t where [enum_defs]:
  "AUDIO_STREAM_REROUTING = 12"

definition AUDIO_STREAM_PATCH :: audio_stream_type_t where [enum_defs]:
  "AUDIO_STREAM_PATCH = 13"

definition AUDIO_STREAM_CALL_ASSISTANT :: audio_stream_type_t where [enum_defs]:
  "AUDIO_STREAM_CALL_ASSISTANT = 14"

definition AUDIO_STREAM_DEFAULT :: audio_stream_type_t where [enum_defs]:
  "AUDIO_STREAM_DEFAULT = -1"

definition AUDIO_STREAM_LIST_NO_SYS_DEF :: "(string \<times> audio_stream_type_t) list" where [list_defs]:
  "AUDIO_STREAM_LIST_NO_SYS_DEF =
    [(''AUDIO_STREAM_VOICE_CALL'', AUDIO_STREAM_VOICE_CALL),
     (''AUDIO_STREAM_SYSTEM'', AUDIO_STREAM_SYSTEM),
     (''AUDIO_STREAM_RING'', AUDIO_STREAM_RING),
     (''AUDIO_STREAM_MUSIC'', AUDIO_STREAM_MUSIC),
     (''AUDIO_STREAM_ALARM'', AUDIO_STREAM_ALARM),
     (''AUDIO_STREAM_NOTIFICATION'', AUDIO_STREAM_NOTIFICATION),
     (''AUDIO_STREAM_BLUETOOTH_SCO'', AUDIO_STREAM_BLUETOOTH_SCO),
     (''AUDIO_STREAM_ENFORCED_AUDIBLE'', AUDIO_STREAM_ENFORCED_AUDIBLE),
     (''AUDIO_STREAM_DTMF'', AUDIO_STREAM_DTMF),
     (''AUDIO_STREAM_TTS'', AUDIO_STREAM_TTS),
     (''AUDIO_STREAM_ACCESSIBILITY'', AUDIO_STREAM_ACCESSIBILITY),
     (''AUDIO_STREAM_ASSISTANT'', AUDIO_STREAM_ASSISTANT),
     (''AUDIO_STREAM_REROUTING'', AUDIO_STREAM_REROUTING),
     (''AUDIO_STREAM_PATCH'', AUDIO_STREAM_PATCH),
     (''AUDIO_STREAM_CALL_ASSISTANT'', AUDIO_STREAM_CALL_ASSISTANT)]"

text \<open>
  With \<open>AUDIO_NO_SYSTEM_DECLARATIONS\<close> defined (vendor code) the list is the
  \<open>NO_SYS\<close> list; without it (framework code) the framework-only rows follow. The
  argument says whether the macro is defined.
\<close>

definition AUDIO_STREAM_LIST_DEF :: "bool \<Rightarrow> (string \<times> audio_stream_type_t) list" where [list_defs]:
  "AUDIO_STREAM_LIST_DEF no_system_declarations =
    (if no_system_declarations then AUDIO_STREAM_LIST_NO_SYS_DEF
     else AUDIO_STREAM_LIST_NO_SYS_DEF @
       [(''AUDIO_STREAM_DEFAULT'', AUDIO_STREAM_DEFAULT)])"

definition audio_stream_type_to_string :: "bool \<Rightarrow> audio_stream_type_t \<Rightarrow> string" where [conv_defs]:
  "audio_stream_type_to_string no_system_declarations t =
     AUDIO_DEFINE_STRINGIFY_CASE (AUDIO_STREAM_LIST_DEF no_system_declarations) t"

text \<open>
  String to enum conversion is not generated for the framework-only values: the
  parser is built from the \<open>NO_SYS\<close> list whether the macro is defined or not.
\<close>

definition audio_stream_type_from_string :: "string \<Rightarrow> audio_stream_type_t \<Rightarrow> bool \<times> audio_stream_type_t" where [conv_defs]:
  "audio_stream_type_from_string s t =
     AUDIO_DEFINE_PARSE_CASE (AUDIO_STREAM_LIST_NO_SYS_DEF) s t"

subsection \<open>Usages\<close>

definition AUDIO_USAGE_UNKNOWN :: audio_usage_t where [enum_defs]:
  "AUDIO_USAGE_UNKNOWN = 0"

definition AUDIO_USAGE_MEDIA :: audio_usage_t where [enum_defs]:
  "AUDIO_USAGE_MEDIA = 1"

definition AUDIO_USAGE_VOICE_COMMUNICATION :: audio_usage_t where [enum_defs]:
  "AUDIO_USAGE_VOICE_COMMUNICATION = 2"

definition AUDIO_USAGE_VOICE_COMMUNICATION_SIGNALLING :: audio_usage_t where [enum_defs]:
  "AUDIO_USAGE_VOICE_COMMUNICATION_SIGNALLING = 3"

definition AUDIO_USAGE_ALARM :: audio_usage_t where [enum_defs]:
  "AUDIO_USAGE_ALARM = 4"

definition AUDIO_USAGE_NOTIFICATION :: audio_usage_t where [enum_defs]:
  "AUDIO_USAGE_NOTIFICATION = 5"

definition AUDIO_USAGE_NOTIFICATION_TELEPHONY_RINGTONE :: audio_usage_t where [enum_defs]:
  "AUDIO_USAGE_NOTIFICATION_TELEPHONY_RINGTONE = 6"

definition AUDIO_USAGE_ASSISTANCE_ACCESSIBILITY :: audio_usage_t where [enum_defs]:
  "AUDIO_USAGE_ASSISTANCE_ACCESSIBILITY = 11"

definition AUDIO_USAGE_ASSISTANCE_NAVIGATION_GUIDANCE :: audio_usage_t where [enum_defs]:
  "AUDIO_USAGE_ASSISTANCE_NAVIGATION_GUIDANCE = 12"

definition AUDIO_USAGE_ASSISTANCE_SONIFICATION :: audio_usage_t where [enum_defs]:
  "AUDIO_USAGE_ASSISTANCE_SONIFICATION = 13"

definition AUDIO_USAGE_GAME :: audio_usage_t where [enum_defs]:
  "AUDIO_USAGE_GAME = 14"

definition AUDIO_USAGE_VIRTUAL_SOURCE :: audio_usage_t where [enum_defs]:
  "AUDIO_USAGE_VIRTUAL_SOURCE = 15"

definition AUDIO_USAGE_ASSISTANT :: audio_usage_t where [enum_defs]:
  "AUDIO_USAGE_ASSISTANT = 16"

definition AUDIO_USAGE_CALL_ASSISTANT :: audio_usage_t where [enum_defs]:
  "AUDIO_USAGE_CALL_ASSISTANT = 17"

definition AUDIO_USAGE_EMERGENCY :: audio_usage_t where [enum_defs]:
  "AUDIO_USAGE_EMERGENCY = 1000"

definition AUDIO_USAGE_SAFETY :: audio_usage_t where [enum_defs]:
  "AUDIO_USAGE_SAFETY = 1001"

definition AUDIO_USAGE_VEHICLE_STATUS :: audio_usage_t where [enum_defs]:
  "AUDIO_USAGE_VEHICLE_STATUS = 1002"

definition AUDIO_USAGE_ANNOUNCEMENT :: audio_usage_t where [enum_defs]:
  "AUDIO_USAGE_ANNOUNCEMENT = 1003"

definition AUDIO_USAGE_NOTIFICATION_COMMUNICATION_REQUEST :: audio_usage_t where [enum_defs]:
  "AUDIO_USAGE_NOTIFICATION_COMMUNICATION_REQUEST = 7"

definition AUDIO_USAGE_NOTIFICATION_COMMUNICATION_INSTANT :: audio_usage_t where [enum_defs]:
  "AUDIO_USAGE_NOTIFICATION_COMMUNICATION_INSTANT = 8"

definition AUDIO_USAGE_NOTIFICATION_COMMUNICATION_DELAYED :: audio_usage_t where [enum_defs]:
  "AUDIO_USAGE_NOTIFICATION_COMMUNICATION_DELAYED = 9"

definition AUDIO_USAGE_NOTIFICATION_EVENT :: audio_usage_t where [enum_defs]:
  "AUDIO_USAGE_NOTIFICATION_EVENT = 10"

definition AUDIO_USAGE_LIST_NO_SYS_DEF :: "(string \<times> audio_usage_t) list" where [list_defs]:
  "AUDIO_USAGE_LIST_NO_SYS_DEF =
    [(''AUDIO_USAGE_UNKNOWN'', AUDIO_USAGE_UNKNOWN),
     (''AUDIO_USAGE_MEDIA'', AUDIO_USAGE_MEDIA),
     (''AUDIO_USAGE_VOICE_COMMUNICATION'', AUDIO_USAGE_VOICE_COMMUNICATION),
     (''AUDIO_USAGE_VOICE_COMMUNICATION_SIGNALLING'', AUDIO_USAGE_VOICE_COMMUNICATION_SIGNALLING),
     (''AUDIO_USAGE_ALARM'', AUDIO_USAGE_ALARM),
     (''AUDIO_USAGE_NOTIFICATION'', AUDIO_USAGE_NOTIFICATION),
     (''AUDIO_USAGE_NOTIFICATION_TELEPHONY_RINGTONE'', AUDIO_USAGE_NOTIFICATION_TELEPHONY_RINGTONE),
     (''AUDIO_USAGE_ASSISTANCE_ACCESSIBILITY'', AUDIO_USAGE_ASSISTANCE_ACCESSIBILITY),
     (''AUDIO_USAGE_ASSISTANCE_NAVIGATION_GUIDANCE'', AUDIO_USAGE_ASSISTANCE_NAVIGATION_GUIDANCE),
     (''AUDIO_USAGE_ASSISTANCE_SONIFICATION'', AUDIO_USAGE_ASSISTANCE_SONIFICATION),
     (''AUDIO_USAGE_GAME'', AUDIO_USAGE_GAME),
     (''AUDIO_USAGE_VIRTUAL_SOURCE'', AUDIO_USAGE_VIRTUAL_SOURCE),
     (''AUDIO_USAGE_ASSISTANT'', AUDIO_USAGE_ASSISTANT),
     (''AUDIO_USAGE_CALL_ASSISTANT'', AUDIO_USAGE_CALL_ASSISTANT),
     (''AUDIO_USAGE_EMERGENCY'', AUDIO_USAGE_EMERGENCY),
     (''AUDIO_USAGE_SAFETY'', AUDIO_USAGE_SAFETY),
     (''AUDIO_USAGE_VEHICLE_STATUS'', AUDIO_USAGE_VEHICLE_STATUS),
     (''AUDIO_USAGE_ANNOUNCEMENT'', AUDIO_USAGE_ANNOUNCEMENT)]"

text \<open>
  With \<open>AUDIO_NO_SYSTEM_DECLARATIONS\<close> defined (vendor code) the list is the
  \<open>NO_SYS\<close> list; without it (framework code) the framework-only rows follow. The
  argument says whether the macro is defined.
\<close>

definition AUDIO_USAGE_LIST_DEF :: "bool \<Rightarrow> (string \<times> audio_usage_t) list" where [list_defs]:
  "AUDIO_USAGE_LIST_DEF no_system_declarations =
    (if no_system_declarations then AUDIO_USAGE_LIST_NO_SYS_DEF
     else AUDIO_USAGE_LIST_NO_SYS_DEF @
       [(''AUDIO_USAGE_NOTIFICATION_COMMUNICATION_REQUEST'', AUDIO_USAGE_NOTIFICATION_COMMUNICATION_REQUEST),
        (''AUDIO_USAGE_NOTIFICATION_COMMUNICATION_INSTANT'', AUDIO_USAGE_NOTIFICATION_COMMUNICATION_INSTANT),
        (''AUDIO_USAGE_NOTIFICATION_COMMUNICATION_DELAYED'', AUDIO_USAGE_NOTIFICATION_COMMUNICATION_DELAYED),
        (''AUDIO_USAGE_NOTIFICATION_EVENT'', AUDIO_USAGE_NOTIFICATION_EVENT)])"

definition audio_usage_to_string :: "bool \<Rightarrow> audio_usage_t \<Rightarrow> string" where [conv_defs]:
  "audio_usage_to_string no_system_declarations t =
     AUDIO_DEFINE_STRINGIFY_CASE (AUDIO_USAGE_LIST_DEF no_system_declarations) t"

text \<open>
  String to enum conversion is not generated for the framework-only values: the
  parser is built from the \<open>NO_SYS\<close> list whether the macro is defined or not.
\<close>

definition audio_usage_from_string :: "string \<Rightarrow> audio_usage_t \<Rightarrow> bool \<times> audio_usage_t" where [conv_defs]:
  "audio_usage_from_string s t =
     AUDIO_DEFINE_PARSE_CASE (AUDIO_USAGE_LIST_NO_SYS_DEF) s t"

subsection \<open>Decimal numerals\<close>

text \<open>
  The names of the index masks end in the decimal numeral of the channel count
  (\<open>AUDIO_CHANNEL_INDEX_MASK_1\<close> to \<open>AUDIO_CHANNEL_INDEX_MASK_24\<close>). \<open>decimal n\<close> is
  that numeral, without leading zeros; it is used to state properties of all these names
  at once.
\<close>

fun decimal :: "nat \<Rightarrow> string" where
  "decimal n =
     (if n < 10 then [''0123456789'' ! n]
      else decimal (n div 10) @ [''0123456789'' ! (n mod 10)])"

declare decimal.simps [simp del]

section \<open>Properties of the case macros\<close>

text \<open>
  The facts below hold for any list of rows; the claims about the concrete enums follow
  from them and from facts about the rows of the header.
\<close>

lemma stringify_cases_mem:
  "AUDIO_DEFINE_STRINGIFY_CASE rows t = s \<Longrightarrow> s \<noteq> [] \<Longrightarrow> (s, t) \<in> set rows"
  by (induction rows) (auto split: if_splits)

lemma stringify_cases_distinct:
  "distinct (map snd rows) \<Longrightarrow> (s, v) \<in> set rows \<Longrightarrow> AUDIO_DEFINE_STRINGIFY_CASE rows v = s"
  by (induction rows) (auto simp: rev_image_eqI)

lemma stringify_cases_none:
  "v \<notin> snd ` set rows \<Longrightarrow> AUDIO_DEFINE_STRINGIFY_CASE rows v = []"
  by (induction rows) auto

lemma parse_cases_distinct:
  "distinct (map fst rows) \<Longrightarrow> (s, v) \<in> set rows \<Longrightarrow> AUDIO_DEFINE_PARSE_CASE rows s t = (True, v)"
  by (induction rows) (auto simp: rev_image_eqI)

lemma parse_cases_no_match:
  "s \<notin> fst ` set rows \<Longrightarrow> AUDIO_DEFINE_PARSE_CASE rows s t = (False, t)"
  by (induction rows) auto

lemma parse_cases_True_mem:
  "fst (AUDIO_DEFINE_PARSE_CASE rows s t) \<Longrightarrow> (s, snd (AUDIO_DEFINE_PARSE_CASE rows s t)) \<in> set rows"
  by (induction rows) (auto split: if_splits)

text \<open>
  Projection followed by parsing: when the parser's rows have pairwise different names
  and contain the rows of the projection, the name projected for a value parses back to
  that value.
\<close>

lemma stringify_then_parse:
  assumes "distinct (map fst prows)" and "set rows \<subseteq> set prows"
    and "AUDIO_DEFINE_STRINGIFY_CASE rows v \<noteq> []"
  shows "AUDIO_DEFINE_PARSE_CASE prows (AUDIO_DEFINE_STRINGIFY_CASE rows v) t = (True, v)"
proof -
  have "(AUDIO_DEFINE_STRINGIFY_CASE rows v, v) \<in> set rows"
    using assms(3) by (rule stringify_cases_mem [OF refl])
  with assms(2) have "(AUDIO_DEFINE_STRINGIFY_CASE rows v, v) \<in> set prows" by blast
  with assms(1) show ?thesis by (rule parse_cases_distinct)
qed

lemma stringify_cases_append_none:
  "v \<notin> snd ` set more \<Longrightarrow> AUDIO_DEFINE_STRINGIFY_CASE (rows @ more) v = AUDIO_DEFINE_STRINGIFY_CASE rows v"
  by (induction rows) (simp_all add: stringify_cases_none)

section \<open>Facts about the rows of the header\<close>

text \<open>The names in the rows of each parser are pairwise different.\<close>

lemma names_channel_mask:
  "distinct (map fst (AUDIO_CHANNEL_IN_OUT_MASK_LIST_DEF @ AUDIO_CHANNEL_OUT_MASK_LIST_DEF @
     AUDIO_CHANNEL_IN_MASK_LIST_DEF @ AUDIO_CHANNEL_INDEX_MASK_LIST_DEF))"
  by (simp add: list_defs)

lemma names_content_type: "distinct (map fst AUDIO_CONTENT_TYPE_LIST_DEF)"
  by (simp add: list_defs)

lemma names_device: "distinct (map fst AUDIO_DEVICE_LIST_DEF)"
  by (simp add: list_defs)

lemma names_output_flag: "distinct (map fst AUDIO_OUTPUT_FLAG_LIST_DEF)"
  by (simp add: list_defs)

lemma names_input_flag: "distinct (map fst AUDIO_INPUT_FLAG_LIST_DEF)"
  by (simp add: list_defs)

lemma names_format: "distinct (map fst AUDIO_FORMAT_LIST_DEF)"
  by (simp add: list_defs)

lemma names_gain_mode: "distinct (map fst AUDIO_GAIN_MODE_LIST_DEF)"
  by (simp add: list_defs)

lemma names_source: "distinct (map fst AUDIO_SOURCE_LIST_NO_SYS_DEF)"
  by (simp add: list_defs)

lemma names_stream: "distinct (map fst AUDIO_STREAM_LIST_NO_SYS_DEF)"
  by (simp add: list_defs)

lemma names_usage: "distinct (map fst AUDIO_USAGE_LIST_NO_SYS_DEF)"
  by (simp add: list_defs)

text \<open>The case values of each switch are pairwise different.\<close>

lemma values_channel_out_mask:
  "distinct (map snd (AUDIO_CHANNEL_IN_OUT_MASK_LIST_DEF @ AUDIO_CHANNEL_OUT_MASK_LIST_UNIQUE_DEF))"
  by (simp add: list_defs enum_defs)

lemma values_channel_in_mask:
  "distinct (map snd (AUDIO_CHANNEL_IN_OUT_MASK_LIST_DEF @ AUDIO_CHANNEL_IN_MASK_LIST_DEF))"
  by (simp add: list_defs enum_defs)

lemma values_channel_index_mask:
  "distinct (map snd (AUDIO_CHANNEL_IN_OUT_MASK_LIST_DEF @ AUDIO_CHANNEL_INDEX_MASK_LIST_DEF))"
  by (simp add: list_defs enum_defs)

lemma values_content_type: "distinct (map snd AUDIO_CONTENT_TYPE_LIST_DEF)"
  by (simp add: list_defs enum_defs)

lemma values_device: "distinct (map snd AUDIO_DEVICE_LIST_UNIQUE_DEF)"
  by (simp add: list_defs enum_defs)

lemma values_output_flag: "distinct (map snd AUDIO_OUTPUT_FLAG_LIST_DEF)"
  by (simp add: list_defs enum_defs)

lemma values_input_flag: "distinct (map snd AUDIO_INPUT_FLAG_LIST_DEF)"
  by (simp add: list_defs enum_defs)

lemma values_format: "distinct (map snd AUDIO_FORMAT_LIST_DEF)"
  by (simp add: list_defs enum_defs)

lemma values_gain_mode: "distinct (map snd AUDIO_GAIN_MODE_LIST_DEF)"
  by (simp add: list_defs enum_defs)

lemma values_source: "distinct (map snd (AUDIO_SOURCE_LIST_DEF no_system_declarations))"
  by (simp add: list_defs enum_defs)

lemma values_stream: "distinct (map snd (AUDIO_STREAM_LIST_DEF no_system_declarations))"
  by (simp add: list_defs enum_defs)

lemma values_usage: "distinct (map snd (AUDIO_USAGE_LIST_DEF no_system_declarations))"
  by (simp add: list_defs enum_defs)

lemma small_cases:
  "1 \<le> N \<Longrightarrow> N \<le> 24 \<Longrightarrow>
   N \<in> {1, 2, 3, 4, 5, 6, 7, 8, 9, 10, 11, 12, 13, 14, 15, 16, 17, 18, 19, 20, 21, 22, 23, 24::nat}"
  by (simp only: insert_iff empty_iff) arith

section \<open>Projection followed by parsing\<close>

text \<open>
  Claim C1 says that in every domain a value with a non-empty projection parses back
  from that string to itself. In a framework build (\<open>AUDIO_NO_SYSTEM_DECLARATIONS\<close> not
  defined) that fails for the framework-only values of sources, stream types and usages:
  the projection switch has their rows, the parser has not. \<open>AUDIO_SOURCE_INVALID\<close>
  projects to its name, and parsing that name fails and leaves the output as it was.
\<close>

theorem source_invalid_does_not_parse_back:
  "audio_source_to_string False AUDIO_SOURCE_INVALID = ''AUDIO_SOURCE_INVALID'' \<and>
   audio_source_from_string (audio_source_to_string False AUDIO_SOURCE_INVALID) 0 = (False, 0)"
  by (simp add: conv_defs list_defs enum_defs)

text \<open>
  Sources, stream types and usages: the projection of a value that is not framework-only
  is its projection through the \<open>NO_SYS\<close> list, from which the parser is built.
\<close>

lemma source_round_trip:
  assumes "audio_source_to_string no_system_declarations v \<noteq> []"
    and "no_system_declarations \<or> v \<noteq> AUDIO_SOURCE_INVALID"
  shows "audio_source_from_string (audio_source_to_string no_system_declarations v) t = (True, v)"
proof -
  have "audio_source_to_string no_system_declarations v =
      AUDIO_DEFINE_STRINGIFY_CASE AUDIO_SOURCE_LIST_NO_SYS_DEF v"
    using assms(2)
    by (auto simp: audio_source_to_string_def AUDIO_SOURCE_LIST_DEF_def
        stringify_cases_append_none)
  with assms(1) show ?thesis
    unfolding audio_source_from_string_def
    by (simp add: stringify_then_parse [OF names_source subset_refl])
qed

lemma stream_round_trip:
  assumes "audio_stream_type_to_string no_system_declarations v \<noteq> []"
    and "no_system_declarations \<or> v \<noteq> AUDIO_STREAM_DEFAULT"
  shows "audio_stream_type_from_string (audio_stream_type_to_string no_system_declarations v) t =
    (True, v)"
proof -
  have "audio_stream_type_to_string no_system_declarations v =
      AUDIO_DEFINE_STRINGIFY_CASE AUDIO_STREAM_LIST_NO_SYS_DEF v"
    using assms(2)
    by (auto simp: audio_stream_type_to_string_def AUDIO_STREAM_LIST_DEF_def
        stringify_cases_append_none)
  with assms(1) show ?thesis
    unfolding audio_stream_type_from_string_def
    by (simp add: stringify_then_parse [OF names_stream subset_refl])
qed

lemma usage_round_trip:
  assumes "audio_usage_to_string no_system_declarations v \<noteq> []"
    and "no_system_declarations \<or>
       v \<notin> {AUDIO_USAGE_NOTIFICATION_COMMUNICATION_REQUEST,
         AUDIO_USAGE_NOTIFICATION_COMMUNICATION_INSTANT,
         AUDIO_USAGE_NOTIFICATION_COMMUNICATION_DELAYED, AUDIO_USAGE_NOTIFICATION_EVENT}"
  shows "audio_usage_from_string (audio_usage_to_string no_system_declarations v) t = (True, v)"
proof -
  have "audio_usage_to_string no_system_declarations v =
      AUDIO_DEFINE_STRINGIFY_CASE AUDIO_USAGE_LIST_NO_SYS_DEF v"
    using assms(2)
    by (auto simp: audio_usage_to_string_def AUDIO_USAGE_LIST_DEF_def
        stringify_cases_append_none)
  with assms(1) show ?thesis
    unfolding audio_usage_from_string_def
    by (simp add: stringify_then_parse [OF names_usage subset_refl])
qed

text \<open>
  Claim C1, amended. For the channel masks of each direction, content types, devices,
  output flags, input flags, formats and gain modes, and in a vendor build also for
  sources, stream types and usages: if the projection of a value is not empty, parsing it
  succeeds and stores that value. In a framework build the same holds for sources, stream
  types and usages at every value other than the framework-only ones
  (\<open>AUDIO_SOURCE_INVALID\<close>, \<open>AUDIO_STREAM_DEFAULT\<close>, and the four usages
  \<open>AUDIO_USAGE_NOTIFICATION_COMMUNICATION_REQUEST\<close>, \<open>..._INSTANT\<close>, \<open>..._DELAYED\<close> and
  \<open>AUDIO_USAGE_NOTIFICATION_EVENT\<close>).
\<close>

theorem to_string_then_from_string:
  "(audio_channel_out_mask_to_string v_out \<noteq> [] \<longrightarrow>
      audio_channel_mask_from_string (audio_channel_out_mask_to_string v_out) t = (True, v_out)) \<and>
   (audio_channel_in_mask_to_string v_in \<noteq> [] \<longrightarrow>
      audio_channel_mask_from_string (audio_channel_in_mask_to_string v_in) t = (True, v_in)) \<and>
   (audio_channel_index_mask_to_string v_index \<noteq> [] \<longrightarrow>
      audio_channel_mask_from_string (audio_channel_index_mask_to_string v_index) t =
        (True, v_index)) \<and>
   (audio_content_type_to_string v_content \<noteq> [] \<longrightarrow>
      audio_content_type_from_string (audio_content_type_to_string v_content) t =
        (True, v_content)) \<and>
   (audio_device_to_string v_device \<noteq> [] \<longrightarrow>
      audio_device_from_string (audio_device_to_string v_device) t = (True, v_device)) \<and>
   (audio_output_flag_to_string v_oflag \<noteq> [] \<longrightarrow>
      audio_output_flag_from_string (audio_output_flag_to_string v_oflag) t = (True, v_oflag)) \<and>
   (audio_input_flag_to_string v_iflag \<noteq> [] \<longrightarrow>
      audio_input_flag_from_string (audio_input_flag_to_string v_iflag) t = (True, v_iflag)) \<and>
   (audio_format_to_string v_format \<noteq> [] \<longrightarrow>
      audio_format_from_string (audio_format_to_string v_format) t = (True, v_format)) \<and>
   (audio_gain_mode_to_string v_gain \<noteq> [] \<longrightarrow>
      audio_gain_mode_from_string (audio_gain_mode_to_string v_gain) t = (True, v_gain)) \<and>
   (audio_source_to_string no_system_declarations v_source \<noteq> [] \<and>
    (no_system_declarations \<or> v_source \<noteq> AUDIO_SOURCE_INVALID) \<longrightarrow>
      audio_source_from_string (audio_source_to_string no_system_declarations v_source) t =
        (True, v_source)) \<and>
   (audio_stream_type_to_string no_system_declarations v_stream \<noteq> [] \<and>
    (no_system_declarations \<or> v_stream \<noteq> AUDIO_STREAM_DEFAULT) \<longrightarrow>
      audio_stream_type_from_string
        (audio_stream_type_to_string no_system_declarations v_stream) t = (True, v_stream)) \<and>
   (audio_usage_to_string no_system_declarations v_usage \<noteq> [] \<and>
    (no_system_declarations \<or>
       v_usage \<notin> {AUDIO_USAGE_NOTIFICATION_COMMUNICATION_REQUEST,
         AUDIO_USAGE_NOTIFICATION_COMMUNICATION_INSTANT,
         AUDIO_USAGE_NOTIFICATION_COMMUNICATION_DELAYED, AUDIO_USAGE_NOTIFICATION_EVENT}) \<longrightarrow>
      audio_usage_from_string (audio_usage_to_string no_system_declarations v_usage) t =
        (True, v_usage))"
proof -
  have out: "audio_channel_mask_from_string (audio_channel_out_mask_to_string v_out) t =
      (True, v_out)" if "audio_channel_out_mask_to_string v_out \<noteq> []"
    using that
    unfolding audio_channel_mask_from_string_def audio_channel_out_mask_to_string_def
    by (intro stringify_then_parse [OF names_channel_mask])
      (auto simp: AUDIO_CHANNEL_OUT_MASK_LIST_DEF_def)
  have "in": "audio_channel_mask_from_string (audio_channel_in_mask_to_string v_in) t =
      (True, v_in)" if "audio_channel_in_mask_to_string v_in \<noteq> []"
    using that
    unfolding audio_channel_mask_from_string_def audio_channel_in_mask_to_string_def
    by (intro stringify_then_parse [OF names_channel_mask]) auto
  have index: "audio_channel_mask_from_string (audio_channel_index_mask_to_string v_index) t =
      (True, v_index)" if "audio_channel_index_mask_to_string v_index \<noteq> []"
    using that
    unfolding audio_channel_mask_from_string_def audio_channel_index_mask_to_string_def
    by (intro stringify_then_parse [OF names_channel_mask]) auto
  have content: "audio_content_type_from_string (audio_content_type_to_string v_content) t =
      (True, v_content)" if "audio_content_type_to_string v_content \<noteq> []"
    using that
    unfolding audio_content_type_from_string_def audio_content_type_to_string_def
    by (intro stringify_then_parse [OF names_content_type]) auto
  have device: "audio_device_from_string (audio_device_to_string v_device) t =
      (True, v_device)" if "audio_device_to_string v_device \<noteq> []"
    using that
    unfolding audio_device_from_string_def audio_device_to_string_def
    by (intro stringify_then_parse [OF names_device]) (auto simp: AUDIO_DEVICE_LIST_DEF_def)
  have oflag: "audio_output_flag_from_string (audio_output_flag_to_string v_oflag) t =
      (True, v_oflag)" if "audio_output_flag_to_string v_oflag \<noteq> []"
    using that
    unfolding audio_output_flag_from_string_def audio_output_flag_to_string_def
    by (intro stringify_then_parse [OF names_output_flag]) auto
  have iflag: "audio_input_flag_from_string (audio_input_flag_to_string v_iflag) t =
      (True, v_iflag)" if "audio_input_flag_to_string v_iflag \<noteq> []"
    using that
    unfolding audio_input_flag_from_string_def audio_input_flag_to_string_def
    by (intro stringify_then_parse [OF names_input_flag]) auto
  have fmt: "audio_format_from_string (audio_format_to_string v_format) t =
      (True, v_format)" if "audio_format_to_string v_format \<noteq> []"
    using that
    unfolding audio_format_from_string_def audio_format_to_string_def
    by (intro stringify_then_parse [OF names_format]) auto
  have gain: "audio_gain_mode_from_string (audio_gain_mode_to_string v_gain) t =
      (True, v_gain)" if "audio_gain_mode_to_string v_gain \<noteq> []"
    using that
    unfolding audio_gain_mode_from_string_def audio_gain_mode_to_string_def
    by (intro stringify_then_parse [OF names_gain_mode]) auto
  from out "in" index content device oflag iflag fmt gain
    source_round_trip [of no_system_declarations v_source t]
    stream_round_trip [of no_system_declarations v_stream t]
    usage_round_trip [of no_system_declarations v_usage t]
  show ?thesis by blast
qed

text \<open>
  One value of each domain, in a framework build: every projection is a name, and every
  name parses back to the value.
\<close>

theorem to_string_then_from_string_witness:
  "audio_channel_out_mask_to_string 0x3 = ''AUDIO_CHANNEL_OUT_STEREO'' \<and>
   audio_channel_mask_from_string ''AUDIO_CHANNEL_OUT_STEREO'' 0 = (True, 0x3) \<and>
   audio_channel_in_mask_to_string 0xC = ''AUDIO_CHANNEL_IN_STEREO'' \<and>
   audio_channel_mask_from_string ''AUDIO_CHANNEL_IN_STEREO'' 0 = (True, 0xC) \<and>
   audio_channel_index_mask_to_string 0x80000007 = ''AUDIO_CHANNEL_INDEX_MASK_3'' \<and>
   audio_channel_mask_from_string ''AUDIO_CHANNEL_INDEX_MASK_3'' 0 = (True, 0x80000007) \<and>
   audio_content_type_to_string 2 = ''AUDIO_CONTENT_TYPE_MUSIC'' \<and>
   audio_content_type_from_string ''AUDIO_CONTENT_TYPE_MUSIC'' 0 = (True, 2) \<and>
   audio_device_to_string 0x80000004 = ''AUDIO_DEVICE_IN_BUILTIN_MIC'' \<and>
   audio_device_from_string ''AUDIO_DEVICE_IN_BUILTIN_MIC'' 0 = (True, 0x80000004) \<and>
   audio_output_flag_to_string 0x4 = ''AUDIO_OUTPUT_FLAG_FAST'' \<and>
   audio_output_flag_from_string ''AUDIO_OUTPUT_FLAG_FAST'' 0 = (True, 0x4) \<and>
   audio_input_flag_to_string 0x4 = ''AUDIO_INPUT_FLAG_RAW'' \<and>
   audio_input_flag_from_string ''AUDIO_INPUT_FLAG_RAW'' 0 = (True, 0x4) \<and>
   audio_format_to_string 0x04000002 = ''AUDIO_FORMAT_AAC_LC'' \<and>
   audio_format_from_string ''AUDIO_FORMAT_AAC_LC'' 0 = (True, 0x04000002) \<and>
   audio_gain_mode_to_string 2 = ''AUDIO_GAIN_MODE_CHANNELS'' \<and>
   audio_gain_mode_from_string ''AUDIO_GAIN_MODE_CHANNELS'' 0 = (True, 2) \<and>
   audio_source_to_string False 1999 = ''AUDIO_SOURCE_HOTWORD'' \<and>
   (1999 :: audio_source_t) \<noteq> AUDIO_SOURCE_INVALID \<and>
   audio_source_from_string ''AUDIO_SOURCE_HOTWORD'' 0 = (True, 1999) \<and>
   audio_stream_type_to_string False 3 = ''AUDIO_STREAM_MUSIC'' \<and>
   (3 :: audio_stream_type_t) \<noteq> AUDIO_STREAM_DEFAULT \<and>
   audio_stream_type_from_string ''AUDIO_STREAM_MUSIC'' 0 = (True, 3) \<and>
   audio_usage_to_string False 1000 = ''AUDIO_USAGE_EMERGENCY'' \<and>
   (1000 :: audio_usage_t) \<notin> {AUDIO_USAGE_NOTIFICATION_COMMUNICATION_REQUEST,
         AUDIO_USAGE_NOTIFICATION_COMMUNICATION_INSTANT,
         AUDIO_USAGE_NOTIFICATION_COMMUNICATION_DELAYED, AUDIO_USAGE_NOTIFICATION_EVENT} \<and>
   audio_usage_from_string ''AUDIO_USAGE_EMERGENCY'' 0 = (True, 1000)"
proof -
  have 1: "audio_channel_out_mask_to_string 0x3 = ''AUDIO_CHANNEL_OUT_STEREO''"
    by (simp add: conv_defs list_defs enum_defs)
  have 2: "audio_channel_in_mask_to_string 0xC = ''AUDIO_CHANNEL_IN_STEREO''"
    by (simp add: conv_defs list_defs enum_defs)
  have 3: "audio_channel_index_mask_to_string 0x80000007 = ''AUDIO_CHANNEL_INDEX_MASK_3''"
    by (simp add: conv_defs list_defs enum_defs)
  have 4: "audio_content_type_to_string 2 = ''AUDIO_CONTENT_TYPE_MUSIC''"
    by (simp add: conv_defs list_defs enum_defs)
  have 5: "audio_device_to_string 0x80000004 = ''AUDIO_DEVICE_IN_BUILTIN_MIC''"
    by (simp add: conv_defs list_defs enum_defs)
  have 6: "audio_output_flag_to_string 0x4 = ''AUDIO_OUTPUT_FLAG_FAST''"
    by (simp add: conv_defs list_defs enum_defs)
  have 7: "audio_input_flag_to_string 0x4 = ''AUDIO_INPUT_FLAG_RAW''"
    by (simp add: conv_defs list_defs enum_defs)
  have 8: "audio_format_to_string 0x04000002 = ''AUDIO_FORMAT_AAC_LC''"
    by (simp add: conv_defs list_defs enum_defs)
  have 9: "audio_gain_mode_to_string 2 = ''AUDIO_GAIN_MODE_CHANNELS''"
    by (simp add: conv_defs list_defs enum_defs)
  have 10: "audio_source_to_string False 1999 = ''AUDIO_SOURCE_HOTWORD''"
    "(1999 :: audio_source_t) \<noteq> AUDIO_SOURCE_INVALID"
    by (simp_all add: conv_defs list_defs enum_defs)
  have 11: "audio_stream_type_to_string False 3 = ''AUDIO_STREAM_MUSIC''"
    "(3 :: audio_stream_type_t) \<noteq> AUDIO_STREAM_DEFAULT"
    by (simp_all add: conv_defs list_defs enum_defs)
  have 12: "audio_usage_to_string False 1000 = ''AUDIO_USAGE_EMERGENCY''"
    "(1000 :: audio_usage_t) \<notin> {AUDIO_USAGE_NOTIFICATION_COMMUNICATION_REQUEST,
         AUDIO_USAGE_NOTIFICATION_COMMUNICATION_INSTANT,
         AUDIO_USAGE_NOTIFICATION_COMMUNICATION_DELAYED, AUDIO_USAGE_NOTIFICATION_EVENT}"
    by (simp_all add: conv_defs list_defs enum_defs)
  show ?thesis
    using to_string_then_from_string [where v_out = "0x3" and v_in = "0xC"
        and v_index = "0x80000007" and v_content = 2 and v_device = "0x80000004"
        and v_oflag = "0x4" and v_iflag = "0x4" and v_format = "0x04000002" and v_gain = 2
        and no_system_declarations = False and v_source = 1999 and v_stream = 3
        and v_usage = 1000 and t = 0]
      1 2 3 4 5 6 7 8 9 10 11 12
    by simp
qed

section \<open>Framework-only names\<close>

text \<open>
  Claim C2 says that parsing a framework-only name fails in a vendor build and succeeds
  in a framework build. The parsers of sources, stream types and usages are built from
  the \<open>NO_SYS\<close> lists in every build, so the second half fails: in a framework build
  the value \<open>AUDIO_USAGE_NOTIFICATION_EVENT\<close> projects to its name, and parsing that
  name returns \<open>false\<close> and leaves the output as it was.
\<close>

theorem framework_name_does_not_parse:
  "audio_usage_to_string False AUDIO_USAGE_NOTIFICATION_EVENT = ''AUDIO_USAGE_NOTIFICATION_EVENT'' \<and>
   audio_usage_from_string ''AUDIO_USAGE_NOTIFICATION_EVENT'' 0 = (False, 0)"
  by (simp add: conv_defs list_defs enum_defs)

text \<open>
  Claim C2, amended. A framework-only row is a row of the list of the framework build that
  is not a row of the list of the vendor build. Parsing the name of such a row fails and
  leaves the output as it was, whatever the build; its value projects to its name in a
  framework build and to the empty string in a vendor build.
\<close>

theorem framework_only_rows:
  "((name_source, v_source) \<in> set (AUDIO_SOURCE_LIST_DEF False) \<and>
    (name_source, v_source) \<notin> set (AUDIO_SOURCE_LIST_DEF True) \<longrightarrow>
      audio_source_from_string name_source t = (False, t) \<and>
      audio_source_to_string False v_source = name_source \<and>
      audio_source_to_string True v_source = []) \<and>
   ((name_stream, v_stream) \<in> set (AUDIO_STREAM_LIST_DEF False) \<and>
    (name_stream, v_stream) \<notin> set (AUDIO_STREAM_LIST_DEF True) \<longrightarrow>
      audio_stream_type_from_string name_stream t = (False, t) \<and>
      audio_stream_type_to_string False v_stream = name_stream \<and>
      audio_stream_type_to_string True v_stream = []) \<and>
   ((name_usage, v_usage) \<in> set (AUDIO_USAGE_LIST_DEF False) \<and>
    (name_usage, v_usage) \<notin> set (AUDIO_USAGE_LIST_DEF True) \<longrightarrow>
      audio_usage_from_string name_usage t = (False, t) \<and>
      audio_usage_to_string False v_usage = name_usage \<and>
      audio_usage_to_string True v_usage = [])"
proof -
  have source: "audio_source_from_string name_source t = (False, t) \<and>
      audio_source_to_string False v_source = name_source \<and>
      audio_source_to_string True v_source = []"
    if "(name_source, v_source) \<in> set (AUDIO_SOURCE_LIST_DEF False)"
      and "(name_source, v_source) \<notin> set (AUDIO_SOURCE_LIST_DEF True)"
  proof -
    from that have "(name_source, v_source) \<in> {(''AUDIO_SOURCE_INVALID'', AUDIO_SOURCE_INVALID)}"
      by (auto simp: AUDIO_SOURCE_LIST_DEF_def)
    then show ?thesis
      by (elim insertE emptyE) (simp_all add: conv_defs list_defs enum_defs)
  qed
  have stream: "audio_stream_type_from_string name_stream t = (False, t) \<and>
      audio_stream_type_to_string False v_stream = name_stream \<and>
      audio_stream_type_to_string True v_stream = []"
    if "(name_stream, v_stream) \<in> set (AUDIO_STREAM_LIST_DEF False)"
      and "(name_stream, v_stream) \<notin> set (AUDIO_STREAM_LIST_DEF True)"
  proof -
    from that have "(name_stream, v_stream) \<in> {(''AUDIO_STREAM_DEFAULT'', AUDIO_STREAM_DEFAULT)}"
      by (auto simp: AUDIO_STREAM_LIST_DEF_def)
    then show ?thesis
      by (elim insertE emptyE) (simp_all add: conv_defs list_defs enum_defs)
  qed
  have usage: "audio_usage_from_string name_usage t = (False, t) \<and>
      audio_usage_to_string False v_usage = name_usage \<and>
      audio_usage_to_string True v_usage = []"
    if "(name_usage, v_usage) \<in> set (AUDIO_USAGE_LIST_DEF False)"
      and "(name_usage, v_usage) \<notin> set (AUDIO_USAGE_LIST_DEF True)"
  proof -
    from that have "(name_usage, v_usage) \<in>
      {(''AUDIO_USAGE_NOTIFICATION_COMMUNICATION_REQUEST'',
          AUDIO_USAGE_NOTIFICATION_COMMUNICATION_REQUEST),
       (''AUDIO_USAGE_NOTIFICATION_COMMUNICATION_INSTANT'',
          AUDIO_USAGE_NOTIFICATION_COMMUNICATION_INSTANT),
       (''AUDIO_USAGE_NOTIFICATION_COMMUNICATION_DELAYED'',
          AUDIO_USAGE_NOTIFICATION_COMMUNICATION_DELAYED),
       (''AUDIO_USAGE_NOTIFICATION_EVENT'', AUDIO_USAGE_NOTIFICATION_EVENT)}"
      by (auto simp: AUDIO_USAGE_LIST_DEF_def)
    then show ?thesis
      by (elim insertE emptyE) (simp_all add: conv_defs list_defs enum_defs)
  qed
  from source stream usage show ?thesis by blast
qed

text \<open>
  The rows \<open>AUDIO_SOURCE_INVALID\<close> (\<open>-1\<close>), \<open>AUDIO_STREAM_DEFAULT\<close> (\<open>-1\<close>) and
  \<open>AUDIO_USAGE_NOTIFICATION_EVENT\<close> (10) are framework-only.
\<close>

theorem framework_only_rows_witness:
  "(''AUDIO_SOURCE_INVALID'', -1) \<in> set (AUDIO_SOURCE_LIST_DEF False) \<and>
   (''AUDIO_SOURCE_INVALID'', -1) \<notin> set (AUDIO_SOURCE_LIST_DEF True) \<and>
   audio_source_from_string ''AUDIO_SOURCE_INVALID'' 7 = (False, 7) \<and>
   audio_source_to_string False (-1) = ''AUDIO_SOURCE_INVALID'' \<and>
   audio_source_to_string True (-1) = [] \<and>
   (''AUDIO_STREAM_DEFAULT'', -1) \<in> set (AUDIO_STREAM_LIST_DEF False) \<and>
   (''AUDIO_STREAM_DEFAULT'', -1) \<notin> set (AUDIO_STREAM_LIST_DEF True) \<and>
   audio_stream_type_from_string ''AUDIO_STREAM_DEFAULT'' 7 = (False, 7) \<and>
   audio_stream_type_to_string False (-1) = ''AUDIO_STREAM_DEFAULT'' \<and>
   audio_stream_type_to_string True (-1) = [] \<and>
   (''AUDIO_USAGE_NOTIFICATION_EVENT'', 10) \<in> set (AUDIO_USAGE_LIST_DEF False) \<and>
   (''AUDIO_USAGE_NOTIFICATION_EVENT'', 10) \<notin> set (AUDIO_USAGE_LIST_DEF True) \<and>
   audio_usage_from_string ''AUDIO_USAGE_NOTIFICATION_EVENT'' 7 = (False, 7) \<and>
   audio_usage_to_string False 10 = ''AUDIO_USAGE_NOTIFICATION_EVENT'' \<and>
   audio_usage_to_string True 10 = []"
proof -
  have 1: "(''AUDIO_SOURCE_INVALID'', -1) \<in> set (AUDIO_SOURCE_LIST_DEF False)"
    "(''AUDIO_SOURCE_INVALID'', -1) \<notin> set (AUDIO_SOURCE_LIST_DEF True)"
    by (simp_all add: list_defs enum_defs)
  have 2: "(''AUDIO_STREAM_DEFAULT'', -1) \<in> set (AUDIO_STREAM_LIST_DEF False)"
    "(''AUDIO_STREAM_DEFAULT'', -1) \<notin> set (AUDIO_STREAM_LIST_DEF True)"
    by (simp_all add: list_defs enum_defs)
  have 3: "(''AUDIO_USAGE_NOTIFICATION_EVENT'', 10) \<in> set (AUDIO_USAGE_LIST_DEF False)"
    "(''AUDIO_USAGE_NOTIFICATION_EVENT'', 10) \<notin> set (AUDIO_USAGE_LIST_DEF True)"
    by (simp_all add: list_defs enum_defs)
  show ?thesis
    using framework_only_rows [where name_source = "''AUDIO_SOURCE_INVALID''"
        and v_source = "-1" and name_stream = "''AUDIO_STREAM_DEFAULT''" and v_stream = "-1"
        and name_usage = "''AUDIO_USAGE_NOTIFICATION_EVENT''" and v_usage = 10 and t = 7]
      1 2 3
    by simp
qed

section \<open>Aliases\<close>

text \<open>
  Claim C3. The output channel masks and the devices have a list of unique rows, from
  which the projection switch is built, and a full list that appends the aliases, from
  which the parser is built. For every row \<open>(a, v)\<close> of the full list whose value is
  also the value of a unique row \<open>(s, v)\<close> with another name: the projection of \<open>v\<close>
  is \<open>s\<close> and not \<open>a\<close>, parsing \<open>a\<close> succeeds and stores \<open>v\<close>, and parsing \<open>s\<close> gives
  the same result as parsing \<open>a\<close>.
\<close>

theorem alias_projects_to_canonical:
  "((a, v) \<in> set AUDIO_CHANNEL_OUT_MASK_LIST_DEF \<and>
    (s, v) \<in> set AUDIO_CHANNEL_OUT_MASK_LIST_UNIQUE_DEF \<and> s \<noteq> a \<longrightarrow>
      audio_channel_out_mask_to_string v = s \<and>
      audio_channel_out_mask_to_string v \<noteq> a \<and>
      audio_channel_mask_from_string a t = (True, v) \<and>
      audio_channel_mask_from_string s t = audio_channel_mask_from_string a t) \<and>
   ((a', v') \<in> set AUDIO_DEVICE_LIST_DEF \<and>
    (s', v') \<in> set AUDIO_DEVICE_LIST_UNIQUE_DEF \<and> s' \<noteq> a' \<longrightarrow>
      audio_device_to_string v' = s' \<and>
      audio_device_to_string v' \<noteq> a' \<and>
      audio_device_from_string a' t' = (True, v') \<and>
      audio_device_from_string s' t' = audio_device_from_string a' t')"
proof -
  have mask:
    "audio_channel_out_mask_to_string v = s \<and>
     audio_channel_out_mask_to_string v \<noteq> a \<and>
     audio_channel_mask_from_string a t = (True, v) \<and>
     audio_channel_mask_from_string s t = audio_channel_mask_from_string a t"
    if a: "(a, v) \<in> set AUDIO_CHANNEL_OUT_MASK_LIST_DEF"
      and s: "(s, v) \<in> set AUDIO_CHANNEL_OUT_MASK_LIST_UNIQUE_DEF" and ne: "s \<noteq> a"
  proof -
    have to: "audio_channel_out_mask_to_string v = s"
      unfolding audio_channel_out_mask_to_string_def
      by (rule stringify_cases_distinct [OF values_channel_out_mask]) (simp add: s)
    have pa: "audio_channel_mask_from_string a t = (True, v)"
      unfolding audio_channel_mask_from_string_def
      by (rule parse_cases_distinct [OF names_channel_mask]) (simp add: a)
    have ps: "audio_channel_mask_from_string s t = (True, v)"
      unfolding audio_channel_mask_from_string_def
      by (rule parse_cases_distinct [OF names_channel_mask])
        (simp add: s AUDIO_CHANNEL_OUT_MASK_LIST_DEF_def)
    from to ne pa ps show ?thesis by simp
  qed
  have device:
    "audio_device_to_string v' = s' \<and>
     audio_device_to_string v' \<noteq> a' \<and>
     audio_device_from_string a' t' = (True, v') \<and>
     audio_device_from_string s' t' = audio_device_from_string a' t'"
    if a: "(a', v') \<in> set AUDIO_DEVICE_LIST_DEF"
      and s: "(s', v') \<in> set AUDIO_DEVICE_LIST_UNIQUE_DEF" and ne: "s' \<noteq> a'"
  proof -
    have to: "audio_device_to_string v' = s'"
      unfolding audio_device_to_string_def
      by (rule stringify_cases_distinct [OF values_device]) (rule s)
    have pa: "audio_device_from_string a' t' = (True, v')"
      unfolding audio_device_from_string_def
      by (rule parse_cases_distinct [OF names_device]) (rule a)
    have ps: "audio_device_from_string s' t' = (True, v')"
      unfolding audio_device_from_string_def
      by (rule parse_cases_distinct [OF names_device])
        (simp add: s AUDIO_DEVICE_LIST_DEF_def)
    from to ne pa ps show ?thesis by simp
  qed
  from mask device show ?thesis by blast
qed

text \<open>
  The examples of the claim: \<open>AUDIO_CHANNEL_OUT_5POINT1_BACK\<close> is an alias of
  \<open>AUDIO_CHANNEL_OUT_5POINT1\<close> (\<open>0x3F\<close>), and \<open>AUDIO_DEVICE_OUT_AUX_DIGITAL\<close> is an
  alias of \<open>AUDIO_DEVICE_OUT_HDMI\<close> (\<open>0x400\<close>).
\<close>

theorem alias_projects_to_canonical_witness:
  "(''AUDIO_CHANNEL_OUT_5POINT1_BACK'', 0x3F) \<in> set AUDIO_CHANNEL_OUT_MASK_LIST_DEF \<and>
   (''AUDIO_CHANNEL_OUT_5POINT1'', 0x3F) \<in> set AUDIO_CHANNEL_OUT_MASK_LIST_UNIQUE_DEF \<and>
   audio_channel_out_mask_to_string 0x3F = ''AUDIO_CHANNEL_OUT_5POINT1'' \<and>
   audio_channel_mask_from_string ''AUDIO_CHANNEL_OUT_5POINT1_BACK'' 0 = (True, 0x3F) \<and>
   audio_channel_mask_from_string ''AUDIO_CHANNEL_OUT_5POINT1'' 0 =
     audio_channel_mask_from_string ''AUDIO_CHANNEL_OUT_5POINT1_BACK'' 0 \<and>
   (''AUDIO_DEVICE_OUT_AUX_DIGITAL'', 0x400) \<in> set AUDIO_DEVICE_LIST_DEF \<and>
   (''AUDIO_DEVICE_OUT_HDMI'', 0x400) \<in> set AUDIO_DEVICE_LIST_UNIQUE_DEF \<and>
   audio_device_to_string 0x400 = ''AUDIO_DEVICE_OUT_HDMI'' \<and>
   audio_device_from_string ''AUDIO_DEVICE_OUT_AUX_DIGITAL'' 0 = (True, 0x400) \<and>
   audio_device_from_string ''AUDIO_DEVICE_OUT_HDMI'' 0 =
     audio_device_from_string ''AUDIO_DEVICE_OUT_AUX_DIGITAL'' 0"
proof -
  have 1: "(''AUDIO_CHANNEL_OUT_5POINT1_BACK'', 0x3F) \<in> set AUDIO_CHANNEL_OUT_MASK_LIST_DEF"
    by (simp add: list_defs enum_defs)
  have 2: "(''AUDIO_CHANNEL_OUT_5POINT1'', 0x3F) \<in> set AUDIO_CHANNEL_OUT_MASK_LIST_UNIQUE_DEF"
    by (simp add: list_defs enum_defs)
  have 3: "(''AUDIO_DEVICE_OUT_AUX_DIGITAL'', 0x400) \<in> set AUDIO_DEVICE_LIST_DEF"
    by (simp add: list_defs enum_defs)
  have 4: "(''AUDIO_DEVICE_OUT_HDMI'', 0x400) \<in> set AUDIO_DEVICE_LIST_UNIQUE_DEF"
    by (simp add: list_defs enum_defs)
  have 5: "''AUDIO_CHANNEL_OUT_5POINT1'' \<noteq> ''AUDIO_CHANNEL_OUT_5POINT1_BACK''"
    and 6: "''AUDIO_DEVICE_OUT_HDMI'' \<noteq> ''AUDIO_DEVICE_OUT_AUX_DIGITAL''"
    by simp_all
  show ?thesis
    using alias_projects_to_canonical
      [of "''AUDIO_CHANNEL_OUT_5POINT1_BACK''" "0x3F" "''AUDIO_CHANNEL_OUT_5POINT1''" 0
          "''AUDIO_DEVICE_OUT_AUX_DIGITAL''" "0x400" "''AUDIO_DEVICE_OUT_HDMI''" 0]
      1 2 3 4 5 6
    by blast
qed

section \<open>The invalid markers\<close>

text \<open>Neither marker is the value of a row of its parser.\<close>

lemma channel_invalid_not_a_row:
  "AUDIO_CHANNEL_INVALID \<notin> snd ` set (AUDIO_CHANNEL_IN_OUT_MASK_LIST_DEF @
     AUDIO_CHANNEL_OUT_MASK_LIST_DEF @ AUDIO_CHANNEL_IN_MASK_LIST_DEF @
     AUDIO_CHANNEL_INDEX_MASK_LIST_DEF)"
  by (simp add: list_defs enum_defs)

lemma format_invalid_not_a_row:
  "AUDIO_FORMAT_INVALID \<notin> snd ` set AUDIO_FORMAT_LIST_DEF"
  by (simp add: list_defs enum_defs)

text \<open>
  Claim C4. \<open>AUDIO_CHANNEL_INVALID\<close> (\<open>0xC0000000\<close>) and \<open>AUDIO_FORMAT_INVALID\<close>
  (\<open>0xFFFFFFFF\<close>) project to the empty string through every projection function of
  their domain, and no string parses to them: whenever the channel mask parser or the
  format parser succeeds, the value it stores is not the marker.
\<close>

theorem invalid_markers_excluded:
  "AUDIO_CHANNEL_INVALID = 0xC0000000 \<and>
   AUDIO_FORMAT_INVALID = 0xFFFFFFFF \<and>
   audio_channel_out_mask_to_string AUDIO_CHANNEL_INVALID = [] \<and>
   audio_channel_in_mask_to_string AUDIO_CHANNEL_INVALID = [] \<and>
   audio_channel_index_mask_to_string AUDIO_CHANNEL_INVALID = [] \<and>
   audio_format_to_string AUDIO_FORMAT_INVALID = [] \<and>
   (fst (audio_channel_mask_from_string s t) \<longrightarrow>
      snd (audio_channel_mask_from_string s t) \<noteq> AUDIO_CHANNEL_INVALID) \<and>
   (fst (audio_format_from_string s' t') \<longrightarrow>
      snd (audio_format_from_string s' t') \<noteq> AUDIO_FORMAT_INVALID)"
proof -
  have markers: "AUDIO_CHANNEL_INVALID = 0xC0000000" "AUDIO_FORMAT_INVALID = 0xFFFFFFFF"
    by (simp_all add: enum_defs)
  have projections:
    "audio_channel_out_mask_to_string AUDIO_CHANNEL_INVALID = []"
    "audio_channel_in_mask_to_string AUDIO_CHANNEL_INVALID = []"
    "audio_channel_index_mask_to_string AUDIO_CHANNEL_INVALID = []"
    "audio_format_to_string AUDIO_FORMAT_INVALID = []"
    by (simp_all add: conv_defs list_defs enum_defs)
  have mask: "snd (audio_channel_mask_from_string s t) \<noteq> AUDIO_CHANNEL_INVALID"
    if "fst (audio_channel_mask_from_string s t)"
  proof
    assume "snd (audio_channel_mask_from_string s t) = AUDIO_CHANNEL_INVALID"
    with parse_cases_True_mem [OF that [unfolded audio_channel_mask_from_string_def]]
    have "AUDIO_CHANNEL_INVALID \<in> snd ` set (AUDIO_CHANNEL_IN_OUT_MASK_LIST_DEF @
       AUDIO_CHANNEL_OUT_MASK_LIST_DEF @ AUDIO_CHANNEL_IN_MASK_LIST_DEF @
       AUDIO_CHANNEL_INDEX_MASK_LIST_DEF)"
      by (simp add: audio_channel_mask_from_string_def rev_image_eqI)
    with channel_invalid_not_a_row show False by contradiction
  qed
  have format: "snd (audio_format_from_string s' t') \<noteq> AUDIO_FORMAT_INVALID"
    if "fst (audio_format_from_string s' t')"
  proof
    assume "snd (audio_format_from_string s' t') = AUDIO_FORMAT_INVALID"
    with parse_cases_True_mem [OF that [unfolded audio_format_from_string_def]]
    have "AUDIO_FORMAT_INVALID \<in> snd ` set AUDIO_FORMAT_LIST_DEF"
      by (simp add: audio_format_from_string_def rev_image_eqI)
    with format_invalid_not_a_row show False by contradiction
  qed
  from markers projections mask format show ?thesis by blast
qed

text \<open>
  Two successful parses: \<open>AUDIO_CHANNEL_OUT_STEREO\<close> stores 3 and
  \<open>AUDIO_FORMAT_MP3\<close> stores \<open>0x01000000\<close>, neither of them a marker.
\<close>

theorem invalid_markers_excluded_witness:
  "fst (audio_channel_mask_from_string ''AUDIO_CHANNEL_OUT_STEREO'' 0) \<and>
   snd (audio_channel_mask_from_string ''AUDIO_CHANNEL_OUT_STEREO'' 0) = 3 \<and>
   snd (audio_channel_mask_from_string ''AUDIO_CHANNEL_OUT_STEREO'' 0) \<noteq> AUDIO_CHANNEL_INVALID \<and>
   fst (audio_format_from_string ''AUDIO_FORMAT_MP3'' 0) \<and>
   snd (audio_format_from_string ''AUDIO_FORMAT_MP3'' 0) = 0x01000000 \<and>
   snd (audio_format_from_string ''AUDIO_FORMAT_MP3'' 0) \<noteq> AUDIO_FORMAT_INVALID"
proof -
  have mask: "audio_channel_mask_from_string ''AUDIO_CHANNEL_OUT_STEREO'' 0 = (True, 3)"
    by (simp add: conv_defs list_defs enum_defs)
  have format: "audio_format_from_string ''AUDIO_FORMAT_MP3'' 0 = (True, 0x01000000)"
    by (simp add: conv_defs list_defs enum_defs)
  show ?thesis
    using invalid_markers_excluded
      [of "''AUDIO_CHANNEL_OUT_STEREO''" 0 "''AUDIO_FORMAT_MP3''" 0] mask format
    by simp
qed

section \<open>Parsing a string that matches no row\<close>

text \<open>
  Claim C5. For every \<open>from_string\<close> function and every input string that is the name
  of none of its rows, the function returns \<open>false\<close> and the value at \<open>*t\<close> is the one
  it was before the call. The functions are chains of comparisons ending in
  \<open>return false\<close>: they have no other exit, so there is nothing that throws or aborts.
\<close>

theorem from_string_no_match:
  "(s \<notin> fst ` set (AUDIO_CHANNEL_IN_OUT_MASK_LIST_DEF @ AUDIO_CHANNEL_OUT_MASK_LIST_DEF @
        AUDIO_CHANNEL_IN_MASK_LIST_DEF @ AUDIO_CHANNEL_INDEX_MASK_LIST_DEF) \<longrightarrow>
      audio_channel_mask_from_string s t = (False, t)) \<and>
   (s \<notin> fst ` set AUDIO_CONTENT_TYPE_LIST_DEF \<longrightarrow>
      audio_content_type_from_string s t = (False, t)) \<and>
   (s \<notin> fst ` set AUDIO_DEVICE_LIST_DEF \<longrightarrow>
      audio_device_from_string s t = (False, t)) \<and>
   (s \<notin> fst ` set AUDIO_OUTPUT_FLAG_LIST_DEF \<longrightarrow>
      audio_output_flag_from_string s t = (False, t)) \<and>
   (s \<notin> fst ` set AUDIO_INPUT_FLAG_LIST_DEF \<longrightarrow>
      audio_input_flag_from_string s t = (False, t)) \<and>
   (s \<notin> fst ` set AUDIO_FORMAT_LIST_DEF \<longrightarrow>
      audio_format_from_string s t = (False, t)) \<and>
   (s \<notin> fst ` set AUDIO_GAIN_MODE_LIST_DEF \<longrightarrow>
      audio_gain_mode_from_string s t = (False, t)) \<and>
   (s \<notin> fst ` set AUDIO_SOURCE_LIST_NO_SYS_DEF \<longrightarrow>
      audio_source_from_string s t = (False, t)) \<and>
   (s \<notin> fst ` set AUDIO_STREAM_LIST_NO_SYS_DEF \<longrightarrow>
      audio_stream_type_from_string s t = (False, t)) \<and>
   (s \<notin> fst ` set AUDIO_USAGE_LIST_NO_SYS_DEF \<longrightarrow>
      audio_usage_from_string s t = (False, t))"
  unfolding conv_defs by (intro conjI impI parse_cases_no_match)

text \<open>
  The name \<open>AUDIO_FORMAT_PCM\<close> is in no list of any domain: every parser rejects it and
  leaves the stored value, here 5, as it was.
\<close>

theorem from_string_no_match_witness:
  "''AUDIO_FORMAT_PCM'' \<notin> fst ` set (AUDIO_CHANNEL_IN_OUT_MASK_LIST_DEF @
      AUDIO_CHANNEL_OUT_MASK_LIST_DEF @ AUDIO_CHANNEL_IN_MASK_LIST_DEF @
      AUDIO_CHANNEL_INDEX_MASK_LIST_DEF) \<and>
   ''AUDIO_FORMAT_PCM'' \<notin> fst ` set AUDIO_CONTENT_TYPE_LIST_DEF \<and>
   ''AUDIO_FORMAT_PCM'' \<notin> fst ` set AUDIO_DEVICE_LIST_DEF \<and>
   ''AUDIO_FORMAT_PCM'' \<notin> fst ` set AUDIO_OUTPUT_FLAG_LIST_DEF \<and>
   ''AUDIO_FORMAT_PCM'' \<notin> fst ` set AUDIO_INPUT_FLAG_LIST_DEF \<and>
   ''AUDIO_FORMAT_PCM'' \<notin> fst ` set AUDIO_FORMAT_LIST_DEF \<and>
   ''AUDIO_FORMAT_PCM'' \<notin> fst ` set AUDIO_GAIN_MODE_LIST_DEF \<and>
   ''AUDIO_FORMAT_PCM'' \<notin> fst ` set AUDIO_SOURCE_LIST_NO_SYS_DEF \<and>
   ''AUDIO_FORMAT_PCM'' \<notin> fst ` set AUDIO_STREAM_LIST_NO_SYS_DEF \<and>
   ''AUDIO_FORMAT_PCM'' \<notin> fst ` set AUDIO_USAGE_LIST_NO_SYS_DEF \<and>
   audio_channel_mask_from_string ''AUDIO_FORMAT_PCM'' 5 = (False, 5) \<and>
   audio_content_type_from_string ''AUDIO_FORMAT_PCM'' 5 = (False, 5) \<and>
   audio_device_from_string ''AUDIO_FORMAT_PCM'' 5 = (False, 5) \<and>
   audio_output_flag_from_string ''AUDIO_FORMAT_PCM'' 5 = (False, 5) \<and>
   audio_input_flag_from_string ''AUDIO_FORMAT_PCM'' 5 = (False, 5) \<and>
   audio_format_from_string ''AUDIO_FORMAT_PCM'' 5 = (False, 5) \<and>
   audio_gain_mode_from_string ''AUDIO_FORMAT_PCM'' 5 = (False, 5) \<and>
   audio_source_from_string ''AUDIO_FORMAT_PCM'' 5 = (False, 5) \<and>
   audio_stream_type_from_string ''AUDIO_FORMAT_PCM'' 5 = (False, 5) \<and>
   audio_usage_from_string ''AUDIO_FORMAT_PCM'' 5 = (False, 5)"
proof -
  have 1: "''AUDIO_FORMAT_PCM'' \<notin> fst ` set (AUDIO_CHANNEL_IN_OUT_MASK_LIST_DEF @
      AUDIO_CHANNEL_OUT_MASK_LIST_DEF @ AUDIO_CHANNEL_IN_MASK_LIST_DEF @
      AUDIO_CHANNEL_INDEX_MASK_LIST_DEF)"
    by (simp add: list_defs)
  have 2: "''AUDIO_FORMAT_PCM'' \<notin> fst ` set AUDIO_CONTENT_TYPE_LIST_DEF"
    by (simp add: list_defs)
  have 3: "''AUDIO_FORMAT_PCM'' \<notin> fst ` set AUDIO_DEVICE_LIST_DEF"
    by (simp add: list_defs)
  have 4: "''AUDIO_FORMAT_PCM'' \<notin> fst ` set AUDIO_OUTPUT_FLAG_LIST_DEF"
    by (simp add: list_defs)
  have 5: "''AUDIO_FORMAT_PCM'' \<notin> fst ` set AUDIO_INPUT_FLAG_LIST_DEF"
    by (simp add: list_defs)
  have 6: "''AUDIO_FORMAT_PCM'' \<notin> fst ` set AUDIO_FORMAT_LIST_DEF"
    by (simp add: list_defs)
  have 7: "''AUDIO_FORMAT_PCM'' \<notin> fst ` set AUDIO_GAIN_MODE_LIST_DEF"
    by (simp add: list_defs)
  have 8: "''AUDIO_FORMAT_PCM'' \<notin> fst ` set AUDIO_SOURCE_LIST_NO_SYS_DEF"
    by (simp add: list_defs)
  have 9: "''AUDIO_FORMAT_PCM'' \<notin> fst ` set AUDIO_STREAM_LIST_NO_SYS_DEF"
    by (simp add: list_defs)
  have 10: "''AUDIO_FORMAT_PCM'' \<notin> fst ` set AUDIO_USAGE_LIST_NO_SYS_DEF"
    by (simp add: list_defs)
  show ?thesis
    using from_string_no_match [of "''AUDIO_FORMAT_PCM''" 5] 1 2 3 4 5 6 7 8 9 10
    by blast
qed

section \<open>Index masks\<close>

text \<open>
  Claim C6. For every \<open>N\<close> from 1 to 24, parsing the name \<open>AUDIO_CHANNEL_INDEX_MASK_\<close>
  followed by the decimal numeral of \<open>N\<close> succeeds and stores the value
  \<open>0x80000000 | ((1 << N) - 1)\<close>, and the index projection of that value returns the
  same name.
\<close>

theorem index_mask_formula:
  assumes "1 \<le> N" and "N \<le> 24"
  shows "audio_channel_mask_from_string (''AUDIO_CHANNEL_INDEX_MASK_'' @ decimal N) t =
           (True, 0x80000000 OR (push_bit N 1 - 1)) \<and>
         audio_channel_index_mask_to_string (0x80000000 OR (push_bit N 1 - 1)) =
           ''AUDIO_CHANNEL_INDEX_MASK_'' @ decimal N"
proof -
  have "N \<in> {1, 2, 3, 4, 5, 6, 7, 8, 9, 10, 11, 12, 13, 14, 15, 16, 17, 18, 19, 20, 21, 22, 23, 24}"
    using assms by (rule small_cases)
  then show ?thesis
    by (elim insertE emptyE) (simp_all add: decimal.simps conv_defs list_defs enum_defs)
qed

text \<open>The example of the claim: three channels give \<open>0x80000007\<close>.\<close>

theorem index_mask_formula_witness:
  "(1::nat) \<le> 3 \<and> (3::nat) \<le> 24 \<and>
   audio_channel_mask_from_string ''AUDIO_CHANNEL_INDEX_MASK_3'' 0 = (True, 0x80000007) \<and>
   audio_channel_index_mask_to_string 0x80000007 = ''AUDIO_CHANNEL_INDEX_MASK_3''"
proof -
  have lo: "(1::nat) \<le> 3" and hi: "(3::nat) \<le> 24" by simp_all
  show ?thesis
    using index_mask_formula [OF lo hi, of 0] by (simp add: decimal.simps)
qed

section \<open>Canonical values are pairwise distinct\<close>

text \<open>
  Claim C7. Within every domain the numeric values of the canonical rows, those of the
  list the projection switch is built from, are pairwise distinct. For the three
  channel mask directions the switch has the row \<open>AUDIO_CHANNEL_NONE\<close> before the
  direction's list; for sources, stream types and usages the list depends on the build,
  and the values are distinct in both builds. The output channel masks and the devices
  are OR-compositions, not literals.
\<close>

theorem canonical_values_distinct:
  "distinct (map snd (AUDIO_CHANNEL_IN_OUT_MASK_LIST_DEF @ AUDIO_CHANNEL_OUT_MASK_LIST_UNIQUE_DEF)) \<and>
   distinct (map snd (AUDIO_CHANNEL_IN_OUT_MASK_LIST_DEF @ AUDIO_CHANNEL_IN_MASK_LIST_DEF)) \<and>
   distinct (map snd (AUDIO_CHANNEL_IN_OUT_MASK_LIST_DEF @ AUDIO_CHANNEL_INDEX_MASK_LIST_DEF)) \<and>
   distinct (map snd AUDIO_CONTENT_TYPE_LIST_DEF) \<and>
   distinct (map snd AUDIO_DEVICE_LIST_UNIQUE_DEF) \<and>
   distinct (map snd AUDIO_OUTPUT_FLAG_LIST_DEF) \<and>
   distinct (map snd AUDIO_INPUT_FLAG_LIST_DEF) \<and>
   distinct (map snd AUDIO_FORMAT_LIST_DEF) \<and>
   distinct (map snd AUDIO_GAIN_MODE_LIST_DEF) \<and>
   distinct (map snd (AUDIO_SOURCE_LIST_DEF no_system_declarations)) \<and>
   distinct (map snd (AUDIO_STREAM_LIST_DEF no_system_declarations)) \<and>
   distinct (map snd (AUDIO_USAGE_LIST_DEF no_system_declarations))"
  using values_channel_out_mask values_channel_in_mask values_channel_index_mask
    values_content_type values_device values_output_flag values_input_flag values_format
    values_gain_mode values_source values_stream values_usage
  by blast

section \<open>Composite output masks\<close>

text \<open>
  The discrete output channels are the bits 0 to 19, 29 and 28, in the order of the list;
  every output mask is the OR of the discrete channels it contains.
\<close>

lemma out_discrete_single_bit:
  "map snd AUDIO_CHANNEL_OUT_DISCRETE_CHANNEL_LIST_DEF =
     map (\<lambda>k. push_bit k 1)
       [0, 1, 2, 3, 4, 5, 6, 7, 8, 9, 10, 11, 12, 13, 14, 15, 16, 17, 18, 19, 29, 28]"
  by (simp add: list_defs enum_defs)

lemma out_mask_or_of_discrete:
  "\<forall>row \<in> set AUDIO_CHANNEL_OUT_MASK_LIST_DEF.
     snd row = AUDIO_DEFINE_BIT_MASK
       (filter (\<lambda>c. snd c AND snd row = snd c) AUDIO_CHANNEL_OUT_DISCRETE_CHANNEL_LIST_DEF)"
  by (simp add: list_defs enum_defs AUDIO_DEFINE_BIT_MASK_def)

text \<open>
  The rows of the output mask list, each with the discrete channels the header names for
  it. Where the header names another mask (\<open>PENTA\<close> is \<open>QUAD | FRONT_CENTER\<close>) the
  discrete channels of that mask stand in its place.
\<close>

lemma out_mask_rows_as_or:
  "AUDIO_CHANNEL_OUT_MASK_LIST_DEF =
     [(''AUDIO_CHANNEL_OUT_MONO'',
        AUDIO_CHANNEL_OUT_FRONT_LEFT),
      (''AUDIO_CHANNEL_OUT_STEREO'',
        AUDIO_CHANNEL_OUT_FRONT_LEFT OR AUDIO_CHANNEL_OUT_FRONT_RIGHT),
      (''AUDIO_CHANNEL_OUT_2POINT1'',
        AUDIO_CHANNEL_OUT_FRONT_LEFT OR AUDIO_CHANNEL_OUT_FRONT_RIGHT OR
        AUDIO_CHANNEL_OUT_LOW_FREQUENCY),
      (''AUDIO_CHANNEL_OUT_TRI'',
        AUDIO_CHANNEL_OUT_FRONT_LEFT OR AUDIO_CHANNEL_OUT_FRONT_RIGHT OR
        AUDIO_CHANNEL_OUT_FRONT_CENTER),
      (''AUDIO_CHANNEL_OUT_TRI_BACK'',
        AUDIO_CHANNEL_OUT_FRONT_LEFT OR AUDIO_CHANNEL_OUT_FRONT_RIGHT OR
        AUDIO_CHANNEL_OUT_BACK_CENTER),
      (''AUDIO_CHANNEL_OUT_3POINT1'',
        AUDIO_CHANNEL_OUT_FRONT_LEFT OR AUDIO_CHANNEL_OUT_FRONT_RIGHT OR
        AUDIO_CHANNEL_OUT_FRONT_CENTER OR AUDIO_CHANNEL_OUT_LOW_FREQUENCY),
      (''AUDIO_CHANNEL_OUT_2POINT0POINT2'',
        AUDIO_CHANNEL_OUT_FRONT_LEFT OR AUDIO_CHANNEL_OUT_FRONT_RIGHT OR
        AUDIO_CHANNEL_OUT_TOP_SIDE_LEFT OR AUDIO_CHANNEL_OUT_TOP_SIDE_RIGHT),
      (''AUDIO_CHANNEL_OUT_2POINT1POINT2'',
        AUDIO_CHANNEL_OUT_FRONT_LEFT OR AUDIO_CHANNEL_OUT_FRONT_RIGHT OR
        AUDIO_CHANNEL_OUT_TOP_SIDE_LEFT OR AUDIO_CHANNEL_OUT_TOP_SIDE_RIGHT OR
        AUDIO_CHANNEL_OUT_LOW_FREQUENCY),
      (''AUDIO_CHANNEL_OUT_3POINT0POINT2'',
        AUDIO_CHANNEL_OUT_FRONT_LEFT OR AUDIO_CHANNEL_OUT_FRONT_RIGHT OR
        AUDIO_CHANNEL_OUT_FRONT_CENTER OR AUDIO_CHANNEL_OUT_TOP_SIDE_LEFT OR
        AUDIO_CHANNEL_OUT_TOP_SIDE_RIGHT),
      (''AUDIO_CHANNEL_OUT_3POINT1POINT2'',
        AUDIO_CHANNEL_OUT_FRONT_LEFT OR AUDIO_CHANNEL_OUT_FRONT_RIGHT OR
        AUDIO_CHANNEL_OUT_FRONT_CENTER OR AUDIO_CHANNEL_OUT_TOP_SIDE_LEFT OR
        AUDIO_CHANNEL_OUT_TOP_SIDE_RIGHT OR AUDIO_CHANNEL_OUT_LOW_FREQUENCY),
      (''AUDIO_CHANNEL_OUT_QUAD'',
        AUDIO_CHANNEL_OUT_FRONT_LEFT OR AUDIO_CHANNEL_OUT_FRONT_RIGHT OR
        AUDIO_CHANNEL_OUT_BACK_LEFT OR AUDIO_CHANNEL_OUT_BACK_RIGHT),
      (''AUDIO_CHANNEL_OUT_QUAD_SIDE'',
        AUDIO_CHANNEL_OUT_FRONT_LEFT OR AUDIO_CHANNEL_OUT_FRONT_RIGHT OR
        AUDIO_CHANNEL_OUT_SIDE_LEFT OR AUDIO_CHANNEL_OUT_SIDE_RIGHT),
      (''AUDIO_CHANNEL_OUT_SURROUND'',
        AUDIO_CHANNEL_OUT_FRONT_LEFT OR AUDIO_CHANNEL_OUT_FRONT_RIGHT OR
        AUDIO_CHANNEL_OUT_FRONT_CENTER OR AUDIO_CHANNEL_OUT_BACK_CENTER),
      (''AUDIO_CHANNEL_OUT_PENTA'',
        AUDIO_CHANNEL_OUT_FRONT_LEFT OR AUDIO_CHANNEL_OUT_FRONT_RIGHT OR
        AUDIO_CHANNEL_OUT_BACK_LEFT OR AUDIO_CHANNEL_OUT_BACK_RIGHT OR
        AUDIO_CHANNEL_OUT_FRONT_CENTER),
      (''AUDIO_CHANNEL_OUT_5POINT1'',
        AUDIO_CHANNEL_OUT_FRONT_LEFT OR AUDIO_CHANNEL_OUT_FRONT_RIGHT OR
        AUDIO_CHANNEL_OUT_FRONT_CENTER OR AUDIO_CHANNEL_OUT_LOW_FREQUENCY OR
        AUDIO_CHANNEL_OUT_BACK_LEFT OR AUDIO_CHANNEL_OUT_BACK_RIGHT),
      (''AUDIO_CHANNEL_OUT_5POINT1_SIDE'',
        AUDIO_CHANNEL_OUT_FRONT_LEFT OR AUDIO_CHANNEL_OUT_FRONT_RIGHT OR
        AUDIO_CHANNEL_OUT_FRONT_CENTER OR AUDIO_CHANNEL_OUT_LOW_FREQUENCY OR
        AUDIO_CHANNEL_OUT_SIDE_LEFT OR AUDIO_CHANNEL_OUT_SIDE_RIGHT),
      (''AUDIO_CHANNEL_OUT_5POINT1POINT2'',
        AUDIO_CHANNEL_OUT_FRONT_LEFT OR AUDIO_CHANNEL_OUT_FRONT_RIGHT OR
        AUDIO_CHANNEL_OUT_FRONT_CENTER OR AUDIO_CHANNEL_OUT_LOW_FREQUENCY OR
        AUDIO_CHANNEL_OUT_BACK_LEFT OR AUDIO_CHANNEL_OUT_BACK_RIGHT OR
        AUDIO_CHANNEL_OUT_TOP_SIDE_LEFT OR AUDIO_CHANNEL_OUT_TOP_SIDE_RIGHT),
      (''AUDIO_CHANNEL_OUT_5POINT1POINT4'',
        AUDIO_CHANNEL_OUT_FRONT_LEFT OR AUDIO_CHANNEL_OUT_FRONT_RIGHT OR
        AUDIO_CHANNEL_OUT_FRONT_CENTER OR AUDIO_CHANNEL_OUT_LOW_FREQUENCY OR
        AUDIO_CHANNEL_OUT_BACK_LEFT OR AUDIO_CHANNEL_OUT_BACK_RIGHT OR
        AUDIO_CHANNEL_OUT_TOP_FRONT_LEFT OR AUDIO_CHANNEL_OUT_TOP_FRONT_RIGHT OR
        AUDIO_CHANNEL_OUT_TOP_BACK_LEFT OR AUDIO_CHANNEL_OUT_TOP_BACK_RIGHT),
      (''AUDIO_CHANNEL_OUT_6POINT1'',
        AUDIO_CHANNEL_OUT_FRONT_LEFT OR AUDIO_CHANNEL_OUT_FRONT_RIGHT OR
        AUDIO_CHANNEL_OUT_FRONT_CENTER OR AUDIO_CHANNEL_OUT_LOW_FREQUENCY OR
        AUDIO_CHANNEL_OUT_BACK_LEFT OR AUDIO_CHANNEL_OUT_BACK_RIGHT OR
        AUDIO_CHANNEL_OUT_BACK_CENTER),
      (''AUDIO_CHANNEL_OUT_7POINT1'',
        AUDIO_CHANNEL_OUT_FRONT_LEFT OR AUDIO_CHANNEL_OUT_FRONT_RIGHT OR
        AUDIO_CHANNEL_OUT_FRONT_CENTER OR AUDIO_CHANNEL_OUT_LOW_FREQUENCY OR
        AUDIO_CHANNEL_OUT_BACK_LEFT OR AUDIO_CHANNEL_OUT_BACK_RIGHT OR
        AUDIO_CHANNEL_OUT_SIDE_LEFT OR AUDIO_CHANNEL_OUT_SIDE_RIGHT),
      (''AUDIO_CHANNEL_OUT_7POINT1POINT2'',
        AUDIO_CHANNEL_OUT_FRONT_LEFT OR AUDIO_CHANNEL_OUT_FRONT_RIGHT OR
        AUDIO_CHANNEL_OUT_FRONT_CENTER OR AUDIO_CHANNEL_OUT_LOW_FREQUENCY OR
        AUDIO_CHANNEL_OUT_BACK_LEFT OR AUDIO_CHANNEL_OUT_BACK_RIGHT OR
        AUDIO_CHANNEL_OUT_SIDE_LEFT OR AUDIO_CHANNEL_OUT_SIDE_RIGHT OR
        AUDIO_CHANNEL_OUT_TOP_SIDE_LEFT OR AUDIO_CHANNEL_OUT_TOP_SIDE_RIGHT),
      (''AUDIO_CHANNEL_OUT_7POINT1POINT4'',
        AUDIO_CHANNEL_OUT_FRONT_LEFT OR AUDIO_CHANNEL_OUT_FRONT_RIGHT OR
        AUDIO_CHANNEL_OUT_FRONT_CENTER OR AUDIO_CHANNEL_OUT_LOW_FREQUENCY OR
        AUDIO_CHANNEL_OUT_BACK_LEFT OR AUDIO_CHANNEL_OUT_BACK_RIGHT OR
        AUDIO_CHANNEL_OUT_SIDE_LEFT OR AUDIO_CHANNEL_OUT_SIDE_RIGHT OR
        AUDIO_CHANNEL_OUT_TOP_FRONT_LEFT OR AUDIO_CHANNEL_OUT_TOP_FRONT_RIGHT OR
        AUDIO_CHANNEL_OUT_TOP_BACK_LEFT OR AUDIO_CHANNEL_OUT_TOP_BACK_RIGHT),
      (''AUDIO_CHANNEL_OUT_MONO_HAPTIC_A'',
        AUDIO_CHANNEL_OUT_FRONT_LEFT OR AUDIO_CHANNEL_OUT_HAPTIC_A),
      (''AUDIO_CHANNEL_OUT_STEREO_HAPTIC_A'',
        AUDIO_CHANNEL_OUT_FRONT_LEFT OR AUDIO_CHANNEL_OUT_FRONT_RIGHT OR
        AUDIO_CHANNEL_OUT_HAPTIC_A),
      (''AUDIO_CHANNEL_OUT_HAPTIC_AB'',
        AUDIO_CHANNEL_OUT_HAPTIC_A OR AUDIO_CHANNEL_OUT_HAPTIC_B),
      (''AUDIO_CHANNEL_OUT_MONO_HAPTIC_AB'',
        AUDIO_CHANNEL_OUT_FRONT_LEFT OR AUDIO_CHANNEL_OUT_HAPTIC_A OR
        AUDIO_CHANNEL_OUT_HAPTIC_B),
      (''AUDIO_CHANNEL_OUT_STEREO_HAPTIC_AB'',
        AUDIO_CHANNEL_OUT_FRONT_LEFT OR AUDIO_CHANNEL_OUT_FRONT_RIGHT OR
        AUDIO_CHANNEL_OUT_HAPTIC_A OR AUDIO_CHANNEL_OUT_HAPTIC_B),
      (''AUDIO_CHANNEL_OUT_5POINT1_BACK'',
        AUDIO_CHANNEL_OUT_FRONT_LEFT OR AUDIO_CHANNEL_OUT_FRONT_RIGHT OR
        AUDIO_CHANNEL_OUT_FRONT_CENTER OR AUDIO_CHANNEL_OUT_LOW_FREQUENCY OR
        AUDIO_CHANNEL_OUT_BACK_LEFT OR AUDIO_CHANNEL_OUT_BACK_RIGHT),
      (''AUDIO_CHANNEL_OUT_QUAD_BACK'',
        AUDIO_CHANNEL_OUT_FRONT_LEFT OR AUDIO_CHANNEL_OUT_FRONT_RIGHT OR
        AUDIO_CHANNEL_OUT_BACK_LEFT OR AUDIO_CHANNEL_OUT_BACK_RIGHT)]"
  by (simp add: list_defs enum_defs)

lemma out_mask_values:
  "map snd AUDIO_CHANNEL_OUT_MASK_LIST_DEF =
     [0x1, 0x3, 0xB, 0x7, 0x103, 0xF, 0xC0003, 0xC000B, 0xC0007, 0xC000F, 0x33, 0x603,
      0x107, 0x37, 0x3F, 0x60F, 0xC003F, 0x2D03F, 0x13F, 0x63F, 0xC063F, 0x2D63F,
      0x20000001, 0x20000003, 0x30000000, 0x30000001, 0x30000003, 0x3F, 0x33]"
  by (simp add: list_defs enum_defs)

text \<open>
  Claim C8. Every row of the output mask list has the value that is the OR of the
  discrete output channels the header names for it: the list is, row by row, the list of
  the mask names paired with the OR of their discrete channels, and the values are the
  bit patterns computed from them. Every row is moreover the OR of exactly those rows of
  the discrete channel list whose bit it contains, its name parses to its value, and
  every discrete channel is a single bit. In particular parsing
  \<open>AUDIO_CHANNEL_OUT_STEREO\<close> stores \<open>FRONT_LEFT | FRONT_RIGHT\<close>, which is \<open>0x3\<close>, and
  parsing \<open>AUDIO_CHANNEL_OUT_5POINT1\<close> stores
  \<open>FRONT_LEFT | FRONT_RIGHT | FRONT_CENTER | LOW_FREQUENCY | BACK_LEFT | BACK_RIGHT\<close>,
  which is \<open>0x3F\<close>.
\<close>

theorem composite_out_mask_is_or:
  "AUDIO_CHANNEL_OUT_MASK_LIST_DEF =
     [(''AUDIO_CHANNEL_OUT_MONO'',
        AUDIO_CHANNEL_OUT_FRONT_LEFT),
      (''AUDIO_CHANNEL_OUT_STEREO'',
        AUDIO_CHANNEL_OUT_FRONT_LEFT OR AUDIO_CHANNEL_OUT_FRONT_RIGHT),
      (''AUDIO_CHANNEL_OUT_2POINT1'',
        AUDIO_CHANNEL_OUT_FRONT_LEFT OR AUDIO_CHANNEL_OUT_FRONT_RIGHT OR
        AUDIO_CHANNEL_OUT_LOW_FREQUENCY),
      (''AUDIO_CHANNEL_OUT_TRI'',
        AUDIO_CHANNEL_OUT_FRONT_LEFT OR AUDIO_CHANNEL_OUT_FRONT_RIGHT OR
        AUDIO_CHANNEL_OUT_FRONT_CENTER),
      (''AUDIO_CHANNEL_OUT_TRI_BACK'',
        AUDIO_CHANNEL_OUT_FRONT_LEFT OR AUDIO_CHANNEL_OUT_FRONT_RIGHT OR
        AUDIO_CHANNEL_OUT_BACK_CENTER),
      (''AUDIO_CHANNEL_OUT_3POINT1'',
        AUDIO_CHANNEL_OUT_FRONT_LEFT OR AUDIO_CHANNEL_OUT_FRONT_RIGHT OR
        AUDIO_CHANNEL_OUT_FRONT_CENTER OR AUDIO_CHANNEL_OUT_LOW_FREQUENCY),
      (''AUDIO_CHANNEL_OUT_2POINT0POINT2'',
        AUDIO_CHANNEL_OUT_FRONT_LEFT OR AUDIO_CHANNEL_OUT_FRONT_RIGHT OR
        AUDIO_CHANNEL_OUT_TOP_SIDE_LEFT OR AUDIO_CHANNEL_OUT_TOP_SIDE_RIGHT),
      (''AUDIO_CHANNEL_OUT_2POINT1POINT2'',
        AUDIO_CHANNEL_OUT_FRONT_LEFT OR AUDIO_CHANNEL_OUT_FRONT_RIGHT OR
        AUDIO_CHANNEL_OUT_TOP_SIDE_LEFT OR AUDIO_CHANNEL_OUT_TOP_SIDE_RIGHT OR
        AUDIO_CHANNEL_OUT_LOW_FREQUENCY),
      (''AUDIO_CHANNEL_OUT_3POINT0POINT2'',
        AUDIO_CHANNEL_OUT_FRONT_LEFT OR AUDIO_CHANNEL_OUT_FRONT_RIGHT OR
        AUDIO_CHANNEL_OUT_FRONT_CENTER OR AUDIO_CHANNEL_OUT_TOP_SIDE_LEFT OR
        AUDIO_CHANNEL_OUT_TOP_SIDE_RIGHT),
      (''AUDIO_CHANNEL_OUT_3POINT1POINT2'',
        AUDIO_CHANNEL_OUT_FRONT_LEFT OR AUDIO_CHANNEL_OUT_FRONT_RIGHT OR
        AUDIO_CHANNEL_OUT_FRONT_CENTER OR AUDIO_CHANNEL_OUT_TOP_SIDE_LEFT OR
        AUDIO_CHANNEL_OUT_TOP_SIDE_RIGHT OR AUDIO_CHANNEL_OUT_LOW_FREQUENCY),
      (''AUDIO_CHANNEL_OUT_QUAD'',
        AUDIO_CHANNEL_OUT_FRONT_LEFT OR AUDIO_CHANNEL_OUT_FRONT_RIGHT OR
        AUDIO_CHANNEL_OUT_BACK_LEFT OR AUDIO_CHANNEL_OUT_BACK_RIGHT),
      (''AUDIO_CHANNEL_OUT_QUAD_SIDE'',
        AUDIO_CHANNEL_OUT_FRONT_LEFT OR AUDIO_CHANNEL_OUT_FRONT_RIGHT OR
        AUDIO_CHANNEL_OUT_SIDE_LEFT OR AUDIO_CHANNEL_OUT_SIDE_RIGHT),
      (''AUDIO_CHANNEL_OUT_SURROUND'',
        AUDIO_CHANNEL_OUT_FRONT_LEFT OR AUDIO_CHANNEL_OUT_FRONT_RIGHT OR
        AUDIO_CHANNEL_OUT_FRONT_CENTER OR AUDIO_CHANNEL_OUT_BACK_CENTER),
      (''AUDIO_CHANNEL_OUT_PENTA'',
        AUDIO_CHANNEL_OUT_FRONT_LEFT OR AUDIO_CHANNEL_OUT_FRONT_RIGHT OR
        AUDIO_CHANNEL_OUT_BACK_LEFT OR AUDIO_CHANNEL_OUT_BACK_RIGHT OR
        AUDIO_CHANNEL_OUT_FRONT_CENTER),
      (''AUDIO_CHANNEL_OUT_5POINT1'',
        AUDIO_CHANNEL_OUT_FRONT_LEFT OR AUDIO_CHANNEL_OUT_FRONT_RIGHT OR
        AUDIO_CHANNEL_OUT_FRONT_CENTER OR AUDIO_CHANNEL_OUT_LOW_FREQUENCY OR
        AUDIO_CHANNEL_OUT_BACK_LEFT OR AUDIO_CHANNEL_OUT_BACK_RIGHT),
      (''AUDIO_CHANNEL_OUT_5POINT1_SIDE'',
        AUDIO_CHANNEL_OUT_FRONT_LEFT OR AUDIO_CHANNEL_OUT_FRONT_RIGHT OR
        AUDIO_CHANNEL_OUT_FRONT_CENTER OR AUDIO_CHANNEL_OUT_LOW_FREQUENCY OR
        AUDIO_CHANNEL_OUT_SIDE_LEFT OR AUDIO_CHANNEL_OUT_SIDE_RIGHT),
      (''AUDIO_CHANNEL_OUT_5POINT1POINT2'',
        AUDIO_CHANNEL_OUT_FRONT_LEFT OR AUDIO_CHANNEL_OUT_FRONT_RIGHT OR
        AUDIO_CHANNEL_OUT_FRONT_CENTER OR AUDIO_CHANNEL_OUT_LOW_FREQUENCY OR
        AUDIO_CHANNEL_OUT_BACK_LEFT OR AUDIO_CHANNEL_OUT_BACK_RIGHT OR
        AUDIO_CHANNEL_OUT_TOP_SIDE_LEFT OR AUDIO_CHANNEL_OUT_TOP_SIDE_RIGHT),
      (''AUDIO_CHANNEL_OUT_5POINT1POINT4'',
        AUDIO_CHANNEL_OUT_FRONT_LEFT OR AUDIO_CHANNEL_OUT_FRONT_RIGHT OR
        AUDIO_CHANNEL_OUT_FRONT_CENTER OR AUDIO_CHANNEL_OUT_LOW_FREQUENCY OR
        AUDIO_CHANNEL_OUT_BACK_LEFT OR AUDIO_CHANNEL_OUT_BACK_RIGHT OR
        AUDIO_CHANNEL_OUT_TOP_FRONT_LEFT OR AUDIO_CHANNEL_OUT_TOP_FRONT_RIGHT OR
        AUDIO_CHANNEL_OUT_TOP_BACK_LEFT OR AUDIO_CHANNEL_OUT_TOP_BACK_RIGHT),
      (''AUDIO_CHANNEL_OUT_6POINT1'',
        AUDIO_CHANNEL_OUT_FRONT_LEFT OR AUDIO_CHANNEL_OUT_FRONT_RIGHT OR
        AUDIO_CHANNEL_OUT_FRONT_CENTER OR AUDIO_CHANNEL_OUT_LOW_FREQUENCY OR
        AUDIO_CHANNEL_OUT_BACK_LEFT OR AUDIO_CHANNEL_OUT_BACK_RIGHT OR
        AUDIO_CHANNEL_OUT_BACK_CENTER),
      (''AUDIO_CHANNEL_OUT_7POINT1'',
        AUDIO_CHANNEL_OUT_FRONT_LEFT OR AUDIO_CHANNEL_OUT_FRONT_RIGHT OR
        AUDIO_CHANNEL_OUT_FRONT_CENTER OR AUDIO_CHANNEL_OUT_LOW_FREQUENCY OR
        AUDIO_CHANNEL_OUT_BACK_LEFT OR AUDIO_CHANNEL_OUT_BACK_RIGHT OR
        AUDIO_CHANNEL_OUT_SIDE_LEFT OR AUDIO_CHANNEL_OUT_SIDE_RIGHT),
      (''AUDIO_CHANNEL_OUT_7POINT1POINT2'',
        AUDIO_CHANNEL_OUT_FRONT_LEFT OR AUDIO_CHANNEL_OUT_FRONT_RIGHT OR
        AUDIO_CHANNEL_OUT_FRONT_CENTER OR AUDIO_CHANNEL_OUT_LOW_FREQUENCY OR
        AUDIO_CHANNEL_OUT_BACK_LEFT OR AUDIO_CHANNEL_OUT_BACK_RIGHT OR
        AUDIO_CHANNEL_OUT_SIDE_LEFT OR AUDIO_CHANNEL_OUT_SIDE_RIGHT OR
        AUDIO_CHANNEL_OUT_TOP_SIDE_LEFT OR AUDIO_CHANNEL_OUT_TOP_SIDE_RIGHT),
      (''AUDIO_CHANNEL_OUT_7POINT1POINT4'',
        AUDIO_CHANNEL_OUT_FRONT_LEFT OR AUDIO_CHANNEL_OUT_FRONT_RIGHT OR
        AUDIO_CHANNEL_OUT_FRONT_CENTER OR AUDIO_CHANNEL_OUT_LOW_FREQUENCY OR
        AUDIO_CHANNEL_OUT_BACK_LEFT OR AUDIO_CHANNEL_OUT_BACK_RIGHT OR
        AUDIO_CHANNEL_OUT_SIDE_LEFT OR AUDIO_CHANNEL_OUT_SIDE_RIGHT OR
        AUDIO_CHANNEL_OUT_TOP_FRONT_LEFT OR AUDIO_CHANNEL_OUT_TOP_FRONT_RIGHT OR
        AUDIO_CHANNEL_OUT_TOP_BACK_LEFT OR AUDIO_CHANNEL_OUT_TOP_BACK_RIGHT),
      (''AUDIO_CHANNEL_OUT_MONO_HAPTIC_A'',
        AUDIO_CHANNEL_OUT_FRONT_LEFT OR AUDIO_CHANNEL_OUT_HAPTIC_A),
      (''AUDIO_CHANNEL_OUT_STEREO_HAPTIC_A'',
        AUDIO_CHANNEL_OUT_FRONT_LEFT OR AUDIO_CHANNEL_OUT_FRONT_RIGHT OR
        AUDIO_CHANNEL_OUT_HAPTIC_A),
      (''AUDIO_CHANNEL_OUT_HAPTIC_AB'',
        AUDIO_CHANNEL_OUT_HAPTIC_A OR AUDIO_CHANNEL_OUT_HAPTIC_B),
      (''AUDIO_CHANNEL_OUT_MONO_HAPTIC_AB'',
        AUDIO_CHANNEL_OUT_FRONT_LEFT OR AUDIO_CHANNEL_OUT_HAPTIC_A OR
        AUDIO_CHANNEL_OUT_HAPTIC_B),
      (''AUDIO_CHANNEL_OUT_STEREO_HAPTIC_AB'',
        AUDIO_CHANNEL_OUT_FRONT_LEFT OR AUDIO_CHANNEL_OUT_FRONT_RIGHT OR
        AUDIO_CHANNEL_OUT_HAPTIC_A OR AUDIO_CHANNEL_OUT_HAPTIC_B),
      (''AUDIO_CHANNEL_OUT_5POINT1_BACK'',
        AUDIO_CHANNEL_OUT_FRONT_LEFT OR AUDIO_CHANNEL_OUT_FRONT_RIGHT OR
        AUDIO_CHANNEL_OUT_FRONT_CENTER OR AUDIO_CHANNEL_OUT_LOW_FREQUENCY OR
        AUDIO_CHANNEL_OUT_BACK_LEFT OR AUDIO_CHANNEL_OUT_BACK_RIGHT),
      (''AUDIO_CHANNEL_OUT_QUAD_BACK'',
        AUDIO_CHANNEL_OUT_FRONT_LEFT OR AUDIO_CHANNEL_OUT_FRONT_RIGHT OR
        AUDIO_CHANNEL_OUT_BACK_LEFT OR AUDIO_CHANNEL_OUT_BACK_RIGHT)] \<and>
   map snd AUDIO_CHANNEL_OUT_MASK_LIST_DEF =
     [0x1, 0x3, 0xB, 0x7, 0x103, 0xF, 0xC0003, 0xC000B, 0xC0007, 0xC000F, 0x33, 0x603,
      0x107, 0x37, 0x3F, 0x60F, 0xC003F, 0x2D03F, 0x13F, 0x63F, 0xC063F, 0x2D63F,
      0x20000001, 0x20000003, 0x30000000, 0x30000001, 0x30000003, 0x3F, 0x33] \<and>
   ((name, v) \<in> set AUDIO_CHANNEL_OUT_MASK_LIST_DEF \<longrightarrow>
      v = AUDIO_DEFINE_BIT_MASK
        (filter (\<lambda>c. snd c AND v = snd c) AUDIO_CHANNEL_OUT_DISCRETE_CHANNEL_LIST_DEF) \<and>
      audio_channel_mask_from_string name t = (True, v)) \<and>
   ((cname, c) \<in> set AUDIO_CHANNEL_OUT_DISCRETE_CHANNEL_LIST_DEF \<longrightarrow>
      (\<exists>k<32. c = push_bit k 1)) \<and>
   audio_channel_mask_from_string ''AUDIO_CHANNEL_OUT_STEREO'' t =
     (True, AUDIO_CHANNEL_OUT_FRONT_LEFT OR AUDIO_CHANNEL_OUT_FRONT_RIGHT) \<and>
   AUDIO_CHANNEL_OUT_FRONT_LEFT OR AUDIO_CHANNEL_OUT_FRONT_RIGHT = 0x3 \<and>
   audio_channel_mask_from_string ''AUDIO_CHANNEL_OUT_5POINT1'' t =
     (True, AUDIO_CHANNEL_OUT_FRONT_LEFT OR AUDIO_CHANNEL_OUT_FRONT_RIGHT OR
        AUDIO_CHANNEL_OUT_FRONT_CENTER OR AUDIO_CHANNEL_OUT_LOW_FREQUENCY OR
        AUDIO_CHANNEL_OUT_BACK_LEFT OR AUDIO_CHANNEL_OUT_BACK_RIGHT) \<and>
   AUDIO_CHANNEL_OUT_FRONT_LEFT OR AUDIO_CHANNEL_OUT_FRONT_RIGHT OR
     AUDIO_CHANNEL_OUT_FRONT_CENTER OR AUDIO_CHANNEL_OUT_LOW_FREQUENCY OR
     AUDIO_CHANNEL_OUT_BACK_LEFT OR AUDIO_CHANNEL_OUT_BACK_RIGHT = 0x3F"
proof -
  have composite: "v = AUDIO_DEFINE_BIT_MASK
        (filter (\<lambda>c. snd c AND v = snd c) AUDIO_CHANNEL_OUT_DISCRETE_CHANNEL_LIST_DEF)"
    if "(name, v) \<in> set AUDIO_CHANNEL_OUT_MASK_LIST_DEF"
    using out_mask_or_of_discrete that by fastforce
  have parse: "audio_channel_mask_from_string name t = (True, v)"
    if "(name, v) \<in> set AUDIO_CHANNEL_OUT_MASK_LIST_DEF"
    unfolding audio_channel_mask_from_string_def
    by (rule parse_cases_distinct [OF names_channel_mask]) (simp add: that)
  have single: "\<exists>k<32. c = push_bit k 1"
    if "(cname, c) \<in> set AUDIO_CHANNEL_OUT_DISCRETE_CHANNEL_LIST_DEF"
  proof -
    from that have "c \<in> set (map snd AUDIO_CHANNEL_OUT_DISCRETE_CHANNEL_LIST_DEF)"
      by (simp add: rev_image_eqI)
    then have "c \<in> set (map (\<lambda>k. push_bit k 1)
       [0, 1, 2, 3, 4, 5, 6, 7, 8, 9, 10, 11, 12, 13, 14, 15, 16, 17, 18, 19, 29, 28::nat])"
      by (simp only: out_discrete_single_bit)
    then obtain k :: nat
      where k: "k \<in> set [0, 1, 2, 3, 4, 5, 6, 7, 8, 9, 10, 11, 12, 13, 14, 15, 16, 17, 18, 19, 29, 28]"
        and c: "c = push_bit k 1"
      unfolding set_map by (rule imageE)
    from k have "k < 32" unfolding list.set by (elim insertE emptyE) simp_all
    with c show ?thesis by blast
  qed
  have stereo:
    "audio_channel_mask_from_string ''AUDIO_CHANNEL_OUT_STEREO'' t =
       (True, AUDIO_CHANNEL_OUT_FRONT_LEFT OR AUDIO_CHANNEL_OUT_FRONT_RIGHT)"
    "AUDIO_CHANNEL_OUT_FRONT_LEFT OR AUDIO_CHANNEL_OUT_FRONT_RIGHT = 0x3"
    by (simp_all add: conv_defs list_defs enum_defs)
  have five_one:
    "audio_channel_mask_from_string ''AUDIO_CHANNEL_OUT_5POINT1'' t =
       (True, AUDIO_CHANNEL_OUT_FRONT_LEFT OR AUDIO_CHANNEL_OUT_FRONT_RIGHT OR
          AUDIO_CHANNEL_OUT_FRONT_CENTER OR AUDIO_CHANNEL_OUT_LOW_FREQUENCY OR
          AUDIO_CHANNEL_OUT_BACK_LEFT OR AUDIO_CHANNEL_OUT_BACK_RIGHT)"
    "AUDIO_CHANNEL_OUT_FRONT_LEFT OR AUDIO_CHANNEL_OUT_FRONT_RIGHT OR
       AUDIO_CHANNEL_OUT_FRONT_CENTER OR AUDIO_CHANNEL_OUT_LOW_FREQUENCY OR
       AUDIO_CHANNEL_OUT_BACK_LEFT OR AUDIO_CHANNEL_OUT_BACK_RIGHT = 0x3F"
    by (simp_all add: conv_defs list_defs enum_defs)
  from out_mask_rows_as_or out_mask_values composite parse single stereo five_one
  show ?thesis by blast
qed

text \<open>
  \<open>AUDIO_CHANNEL_OUT_PENTA\<close> is written as \<open>QUAD | FRONT_CENTER\<close>; its value \<open>0x37\<close> is
  the OR of the five discrete channels it contains, and its name parses to it.
  \<open>AUDIO_CHANNEL_OUT_HAPTIC_A\<close> is bit 29.
\<close>

theorem composite_out_mask_is_or_witness:
  "(''AUDIO_CHANNEL_OUT_PENTA'', 0x37) \<in> set AUDIO_CHANNEL_OUT_MASK_LIST_DEF \<and>
   filter (\<lambda>c. snd c AND 0x37 = snd c) AUDIO_CHANNEL_OUT_DISCRETE_CHANNEL_LIST_DEF =
     [(''AUDIO_CHANNEL_OUT_FRONT_LEFT'', 0x1), (''AUDIO_CHANNEL_OUT_FRONT_RIGHT'', 0x2),
      (''AUDIO_CHANNEL_OUT_FRONT_CENTER'', 0x4), (''AUDIO_CHANNEL_OUT_BACK_LEFT'', 0x10),
      (''AUDIO_CHANNEL_OUT_BACK_RIGHT'', 0x20)] \<and>
   (0x37 :: audio_channel_mask_t) = AUDIO_DEFINE_BIT_MASK
     (filter (\<lambda>c. snd c AND 0x37 = snd c) AUDIO_CHANNEL_OUT_DISCRETE_CHANNEL_LIST_DEF) \<and>
   audio_channel_mask_from_string ''AUDIO_CHANNEL_OUT_PENTA'' 0 = (True, 0x37) \<and>
   (''AUDIO_CHANNEL_OUT_HAPTIC_A'', 0x20000000) \<in> set AUDIO_CHANNEL_OUT_DISCRETE_CHANNEL_LIST_DEF \<and>
   (\<exists>k<32. (0x20000000 :: audio_channel_mask_t) = push_bit k 1)"
proof -
  have 1: "(''AUDIO_CHANNEL_OUT_PENTA'', 0x37) \<in> set AUDIO_CHANNEL_OUT_MASK_LIST_DEF"
    by (simp add: list_defs enum_defs)
  have 2: "filter (\<lambda>c. snd c AND 0x37 = snd c) AUDIO_CHANNEL_OUT_DISCRETE_CHANNEL_LIST_DEF =
     [(''AUDIO_CHANNEL_OUT_FRONT_LEFT'', 0x1), (''AUDIO_CHANNEL_OUT_FRONT_RIGHT'', 0x2),
      (''AUDIO_CHANNEL_OUT_FRONT_CENTER'', 0x4), (''AUDIO_CHANNEL_OUT_BACK_LEFT'', 0x10),
      (''AUDIO_CHANNEL_OUT_BACK_RIGHT'', 0x20)]"
    by (simp add: list_defs enum_defs)
  have 3: "(''AUDIO_CHANNEL_OUT_HAPTIC_A'', 0x20000000) \<in> set AUDIO_CHANNEL_OUT_DISCRETE_CHANNEL_LIST_DEF"
    by (simp add: list_defs enum_defs)
  show ?thesis
    using composite_out_mask_is_or
      [where name = "''AUDIO_CHANNEL_OUT_PENTA''" and v = "0x37"
        and cname = "''AUDIO_CHANNEL_OUT_HAPTIC_A''" and c = "0x20000000" and t = 0]
      1 2 3
    by blast
qed

section \<open>Channel mask directions\<close>

text \<open>
  Claim C9 says that there is no single entry point for channel masks of any direction,
  neither for projection nor for parsing, and that a mask name of one direction does not
  convert through the entry point of another. That holds for projection only. The header
  has one parser, \<open>audio_channel_mask_from_string\<close>, which takes no direction and is
  built from the lists of all three directions: it accepts an output name, an input name
  and an index name alike.
\<close>

theorem mask_parser_accepts_all_directions:
  "audio_channel_mask_from_string ''AUDIO_CHANNEL_OUT_STEREO'' 0 = (True, 0x3) \<and>
   audio_channel_mask_from_string ''AUDIO_CHANNEL_IN_STEREO'' 0 = (True, 0xC) \<and>
   audio_channel_mask_from_string ''AUDIO_CHANNEL_INDEX_MASK_3'' 0 = (True, 0x80000007)"
  by (simp add: conv_defs list_defs enum_defs)

text \<open>
  The values of the masks of one direction are the value of no row of another
  direction's projection switch.
\<close>

lemma out_values_other_directions:
  "\<forall>row \<in> set AUDIO_CHANNEL_OUT_MASK_LIST_DEF.
     snd row \<notin> snd ` set (AUDIO_CHANNEL_IN_OUT_MASK_LIST_DEF @ AUDIO_CHANNEL_IN_MASK_LIST_DEF) \<and>
     snd row \<notin> snd ` set (AUDIO_CHANNEL_IN_OUT_MASK_LIST_DEF @ AUDIO_CHANNEL_INDEX_MASK_LIST_DEF)"
  by (simp add: list_defs enum_defs)

lemma in_values_other_directions:
  "\<forall>row \<in> set AUDIO_CHANNEL_IN_MASK_LIST_DEF.
     snd row \<notin> snd ` set (AUDIO_CHANNEL_IN_OUT_MASK_LIST_DEF @ AUDIO_CHANNEL_OUT_MASK_LIST_UNIQUE_DEF) \<and>
     snd row \<notin> snd ` set (AUDIO_CHANNEL_IN_OUT_MASK_LIST_DEF @ AUDIO_CHANNEL_INDEX_MASK_LIST_DEF)"
  by (simp add: list_defs enum_defs)

lemma index_values_other_directions:
  "\<forall>row \<in> set AUDIO_CHANNEL_INDEX_MASK_LIST_DEF.
     snd row \<notin> snd ` set (AUDIO_CHANNEL_IN_OUT_MASK_LIST_DEF @ AUDIO_CHANNEL_OUT_MASK_LIST_UNIQUE_DEF) \<and>
     snd row \<notin> snd ` set (AUDIO_CHANNEL_IN_OUT_MASK_LIST_DEF @ AUDIO_CHANNEL_IN_MASK_LIST_DEF)"
  by (simp add: list_defs enum_defs)

text \<open>
  Claim C9, amended. Projection has one entry point for each direction and the caller
  chooses among them: a non-empty result is the name of a row of that direction's list or
  \<open>AUDIO_CHANNEL_NONE\<close>, which all three share, and the value of a mask of another
  direction projects to the empty string. Parsing has a single entry point without a
  direction, which accepts the names of all three directions and \<open>AUDIO_CHANNEL_NONE\<close>
  and stores the value of the row with that name.
\<close>

theorem mask_directions:
  "(audio_channel_out_mask_to_string w_out \<noteq> [] \<longrightarrow>
      (audio_channel_out_mask_to_string w_out, w_out) \<in>
        set (AUDIO_CHANNEL_IN_OUT_MASK_LIST_DEF @ AUDIO_CHANNEL_OUT_MASK_LIST_UNIQUE_DEF)) \<and>
   (audio_channel_in_mask_to_string w_in \<noteq> [] \<longrightarrow>
      (audio_channel_in_mask_to_string w_in, w_in) \<in>
        set (AUDIO_CHANNEL_IN_OUT_MASK_LIST_DEF @ AUDIO_CHANNEL_IN_MASK_LIST_DEF)) \<and>
   (audio_channel_index_mask_to_string w_index \<noteq> [] \<longrightarrow>
      (audio_channel_index_mask_to_string w_index, w_index) \<in>
        set (AUDIO_CHANNEL_IN_OUT_MASK_LIST_DEF @ AUDIO_CHANNEL_INDEX_MASK_LIST_DEF)) \<and>
   ((s_out, v_out) \<in> set AUDIO_CHANNEL_OUT_MASK_LIST_DEF \<longrightarrow>
      audio_channel_in_mask_to_string v_out = [] \<and>
      audio_channel_index_mask_to_string v_out = [] \<and>
      audio_channel_mask_from_string s_out t = (True, v_out)) \<and>
   ((s_in, v_in) \<in> set AUDIO_CHANNEL_IN_MASK_LIST_DEF \<longrightarrow>
      audio_channel_out_mask_to_string v_in = [] \<and>
      audio_channel_index_mask_to_string v_in = [] \<and>
      audio_channel_mask_from_string s_in t = (True, v_in)) \<and>
   ((s_index, v_index) \<in> set AUDIO_CHANNEL_INDEX_MASK_LIST_DEF \<longrightarrow>
      audio_channel_out_mask_to_string v_index = [] \<and>
      audio_channel_in_mask_to_string v_index = [] \<and>
      audio_channel_mask_from_string s_index t = (True, v_index)) \<and>
   audio_channel_mask_from_string ''AUDIO_CHANNEL_NONE'' t = (True, AUDIO_CHANNEL_NONE) \<and>
   audio_channel_out_mask_to_string AUDIO_CHANNEL_NONE = ''AUDIO_CHANNEL_NONE'' \<and>
   audio_channel_in_mask_to_string AUDIO_CHANNEL_NONE = ''AUDIO_CHANNEL_NONE'' \<and>
   audio_channel_index_mask_to_string AUDIO_CHANNEL_NONE = ''AUDIO_CHANNEL_NONE''"
proof -
  have p_out: "(audio_channel_out_mask_to_string w_out, w_out) \<in>
        set (AUDIO_CHANNEL_IN_OUT_MASK_LIST_DEF @ AUDIO_CHANNEL_OUT_MASK_LIST_UNIQUE_DEF)"
    if "audio_channel_out_mask_to_string w_out \<noteq> []"
    using that unfolding audio_channel_out_mask_to_string_def
    by (rule stringify_cases_mem [OF refl])
  have p_in: "(audio_channel_in_mask_to_string w_in, w_in) \<in>
        set (AUDIO_CHANNEL_IN_OUT_MASK_LIST_DEF @ AUDIO_CHANNEL_IN_MASK_LIST_DEF)"
    if "audio_channel_in_mask_to_string w_in \<noteq> []"
    using that unfolding audio_channel_in_mask_to_string_def
    by (rule stringify_cases_mem [OF refl])
  have p_index: "(audio_channel_index_mask_to_string w_index, w_index) \<in>
        set (AUDIO_CHANNEL_IN_OUT_MASK_LIST_DEF @ AUDIO_CHANNEL_INDEX_MASK_LIST_DEF)"
    if "audio_channel_index_mask_to_string w_index \<noteq> []"
    using that unfolding audio_channel_index_mask_to_string_def
    by (rule stringify_cases_mem [OF refl])
  have parse: "audio_channel_mask_from_string s t = (True, v)"
    if "(s, v) \<in> set (AUDIO_CHANNEL_IN_OUT_MASK_LIST_DEF @ AUDIO_CHANNEL_OUT_MASK_LIST_DEF @
          AUDIO_CHANNEL_IN_MASK_LIST_DEF @ AUDIO_CHANNEL_INDEX_MASK_LIST_DEF)" for s v
    unfolding audio_channel_mask_from_string_def
    using names_channel_mask that by (rule parse_cases_distinct)
  have x_out: "audio_channel_in_mask_to_string v_out = [] \<and>
      audio_channel_index_mask_to_string v_out = [] \<and>
      audio_channel_mask_from_string s_out t = (True, v_out)"
    if "(s_out, v_out) \<in> set AUDIO_CHANNEL_OUT_MASK_LIST_DEF"
    using out_values_other_directions [rule_format, OF that] parse [of s_out v_out] that
    by (simp add: audio_channel_in_mask_to_string_def audio_channel_index_mask_to_string_def
        stringify_cases_none)
  have x_in: "audio_channel_out_mask_to_string v_in = [] \<and>
      audio_channel_index_mask_to_string v_in = [] \<and>
      audio_channel_mask_from_string s_in t = (True, v_in)"
    if "(s_in, v_in) \<in> set AUDIO_CHANNEL_IN_MASK_LIST_DEF"
    using in_values_other_directions [rule_format, OF that] parse [of s_in v_in] that
    by (simp add: audio_channel_out_mask_to_string_def audio_channel_index_mask_to_string_def
        stringify_cases_none)
  have x_index: "audio_channel_out_mask_to_string v_index = [] \<and>
      audio_channel_in_mask_to_string v_index = [] \<and>
      audio_channel_mask_from_string s_index t = (True, v_index)"
    if "(s_index, v_index) \<in> set AUDIO_CHANNEL_INDEX_MASK_LIST_DEF"
    using index_values_other_directions [rule_format, OF that] parse [of s_index v_index] that
    by (simp add: audio_channel_out_mask_to_string_def audio_channel_in_mask_to_string_def
        stringify_cases_none)
  have none:
    "audio_channel_mask_from_string ''AUDIO_CHANNEL_NONE'' t = (True, AUDIO_CHANNEL_NONE)"
    "audio_channel_out_mask_to_string AUDIO_CHANNEL_NONE = ''AUDIO_CHANNEL_NONE''"
    "audio_channel_in_mask_to_string AUDIO_CHANNEL_NONE = ''AUDIO_CHANNEL_NONE''"
    "audio_channel_index_mask_to_string AUDIO_CHANNEL_NONE = ''AUDIO_CHANNEL_NONE''"
    by (simp_all add: conv_defs AUDIO_CHANNEL_IN_OUT_MASK_LIST_DEF_def)
  from p_out p_in p_index x_out x_in x_index none show ?thesis by blast
qed

text \<open>
  At the three names of the counterexample: each value projects through the function of
  its own direction, to the empty string through the other two, and all three names parse.
\<close>

theorem mask_directions_witness:
  "audio_channel_out_mask_to_string 0x3 = ''AUDIO_CHANNEL_OUT_STEREO'' \<and>
   audio_channel_in_mask_to_string 0xC = ''AUDIO_CHANNEL_IN_STEREO'' \<and>
   audio_channel_index_mask_to_string 0x80000007 = ''AUDIO_CHANNEL_INDEX_MASK_3'' \<and>
   (''AUDIO_CHANNEL_OUT_STEREO'', 0x3) \<in> set AUDIO_CHANNEL_OUT_MASK_LIST_DEF \<and>
   (''AUDIO_CHANNEL_IN_STEREO'', 0xC) \<in> set AUDIO_CHANNEL_IN_MASK_LIST_DEF \<and>
   (''AUDIO_CHANNEL_INDEX_MASK_3'', 0x80000007) \<in> set AUDIO_CHANNEL_INDEX_MASK_LIST_DEF \<and>
   audio_channel_in_mask_to_string 0x3 = [] \<and>
   audio_channel_index_mask_to_string 0x3 = [] \<and>
   audio_channel_out_mask_to_string 0xC = [] \<and>
   audio_channel_index_mask_to_string 0xC = [] \<and>
   audio_channel_out_mask_to_string 0x80000007 = [] \<and>
   audio_channel_in_mask_to_string 0x80000007 = [] \<and>
   audio_channel_mask_from_string ''AUDIO_CHANNEL_OUT_STEREO'' 9 = (True, 0x3) \<and>
   audio_channel_mask_from_string ''AUDIO_CHANNEL_IN_STEREO'' 9 = (True, 0xC) \<and>
   audio_channel_mask_from_string ''AUDIO_CHANNEL_INDEX_MASK_3'' 9 = (True, 0x80000007)"
proof -
  have 1: "audio_channel_out_mask_to_string 0x3 = ''AUDIO_CHANNEL_OUT_STEREO''"
    by (simp add: conv_defs list_defs enum_defs)
  have 2: "audio_channel_in_mask_to_string 0xC = ''AUDIO_CHANNEL_IN_STEREO''"
    by (simp add: conv_defs list_defs enum_defs)
  have 3: "audio_channel_index_mask_to_string 0x80000007 = ''AUDIO_CHANNEL_INDEX_MASK_3''"
    by (simp add: conv_defs list_defs enum_defs)
  have 4: "(''AUDIO_CHANNEL_OUT_STEREO'', 0x3) \<in> set AUDIO_CHANNEL_OUT_MASK_LIST_DEF"
    by (simp add: list_defs enum_defs)
  have 5: "(''AUDIO_CHANNEL_IN_STEREO'', 0xC) \<in> set AUDIO_CHANNEL_IN_MASK_LIST_DEF"
    by (simp add: list_defs enum_defs)
  have 6: "(''AUDIO_CHANNEL_INDEX_MASK_3'', 0x80000007) \<in> set AUDIO_CHANNEL_INDEX_MASK_LIST_DEF"
    by (simp add: list_defs enum_defs)
  show ?thesis
    using mask_directions [where w_out = "0x3" and w_in = "0xC" and w_index = "0x80000007"
        and s_out = "''AUDIO_CHANNEL_OUT_STEREO''" and v_out = "0x3"
        and s_in = "''AUDIO_CHANNEL_IN_STEREO''" and v_in = "0xC"
        and s_index = "''AUDIO_CHANNEL_INDEX_MASK_3''" and v_index = "0x80000007" and t = 9]
      1 2 3 4 5 6
    by simp
qed

section \<open>Formats: the value 0\<close>

text \<open>
  Claim C10. In the format domain the value 0 projects to \<open>AUDIO_FORMAT_DEFAULT\<close>, the
  row of the list with that value, although \<open>AUDIO_FORMAT_PCM\<close>, which is in no list,
  has the same value 0. Parsing \<open>AUDIO_FORMAT_PCM\<close> fails and leaves the output as it
  was; parsing \<open>AUDIO_FORMAT_DEFAULT\<close> succeeds and stores 0. So a constant that is
  excluded by name still has a string form through the row of equal value.
\<close>

theorem format_pcm_projects_as_default:
  "AUDIO_FORMAT_PCM = 0 \<and>
   audio_format_to_string 0 = ''AUDIO_FORMAT_DEFAULT'' \<and>
   audio_format_to_string AUDIO_FORMAT_PCM = ''AUDIO_FORMAT_DEFAULT'' \<and>
   audio_format_from_string ''AUDIO_FORMAT_PCM'' t = (False, t) \<and>
   audio_format_from_string ''AUDIO_FORMAT_DEFAULT'' t = (True, 0)"
  by (simp add: conv_defs list_defs enum_defs)

end
